theory Spec2Isabelle
  imports Main "HOL-Library.Sublist" "HOL-Library.AList"
begin

section \<open>Strings\<close>

text \<open>
  A Python \<^verbatim>\<open>str\<close> is a sequence of Unicode code points, and \<^verbatim>\<open>len\<close>
  counts code points. The survey handler compares message texts with labels that contain
  emoji and Cyrillic letters, so a string is modelled as the list of its code points.
  A string of ASCII characters is written \<open>ascii ''...''\<close>.
\<close>

type_synonym str = "nat list"

definition ascii :: "string \<Rightarrow> str" where
  "ascii s = map of_char s"

text \<open>\<^verbatim>\<open>s.startswith(p)\<close>.\<close>

definition startswith :: "str \<Rightarrow> str \<Rightarrow> bool" where
  "startswith s p = prefix p s"

text \<open>\<^verbatim>\<open>p in s\<close> for two strings: \<open>p\<close> occurs in \<open>s\<close> as a contiguous piece.\<close>

fun contains :: "str \<Rightarrow> str \<Rightarrow> bool" where
  "contains [] p = (p = [])"
| "contains (c # cs) p = (prefix p (c # cs) \<or> contains cs p)"

text \<open>
  \<^verbatim>\<open>str.upper\<close> and \<^verbatim>\<open>str.lower\<close> on the letters the handler's tests can
  see: the ASCII letters and the Russian alphabet. Every other code point is left as it is.
  Python maps further characters (and some of them to more than one code point), but none
  of them to or from a space, none of them to one of the letters A to D on its own, and
  none of them to a lower-case Russian letter, so the option tests of
  \<^verbatim>\<open>process_survey_answer\<close> and the keyword search of
  \<^verbatim>\<open>extract_key_aspects\<close> give the same answers.
\<close>

definition upper_char :: "nat \<Rightarrow> nat" where
  "upper_char c =
     (if 97 \<le> c \<and> c \<le> 122 then c - 32
      else if 1072 \<le> c \<and> c \<le> 1103 then c - 32
      else if c = 1105 then 1025
      else c)"

definition lower_char :: "nat \<Rightarrow> nat" where
  "lower_char c =
     (if 65 \<le> c \<and> c \<le> 90 then c + 32
      else if 1040 \<le> c \<and> c \<le> 1071 then c + 32
      else if c = 1025 then 1105
      else c)"

definition upper :: "str \<Rightarrow> str" where
  "upper s = map upper_char s"

definition lower :: "str \<Rightarrow> str" where
  "lower s = map lower_char s"

text \<open>\<^verbatim>\<open>s.split('\n')\<close>: the pieces between line feeds; never the empty list.\<close>

definition newline :: nat where
  "newline = 10"

fun split_lines :: "str \<Rightarrow> str list" where
  "split_lines [] = [[]]"
| "split_lines (c # cs) =
     (if c = newline then [] # split_lines cs
      else (c # hd (split_lines cs)) # tl (split_lines cs))"

section \<open>Errors\<close>

text \<open>
  The exceptions that the modelled code can raise. A function that returns \<open>Inl e\<close> has
  let the exception \<open>e\<close> escape; \<open>Inr\<close> carries what it returns.
\<close>

datatype py_error = IndexError | KeyError | ValueError | UnboundLocalError

section \<open>Fixed texts and tables of the source\<close>

text \<open>The personality type name: Intellektualnyj\<close>

definition type_intellectual :: str where
  "type_intellectual =
     [1048, 1085, 1090, 1077, 1083, 1083, 1077, 1082, 1090, 1091, 1072, 1083, 1100, 1085, 1099,
     1081]"

text \<open>The personality type name: Emocionalnyj\<close>

definition type_emotional :: str where
  "type_emotional =
     [1069, 1084, 1086, 1094, 1080, 1086, 1085, 1072, 1083, 1100, 1085, 1099, 1081]"

text \<open>The personality type name: Prakticheskij\<close>

definition type_practical :: str where
  "type_practical =
     [1055, 1088, 1072, 1082, 1090, 1080, 1095, 1077, 1089, 1082, 1080, 1081]"

text \<open>The personality type name: Tvorcheskij\<close>

definition type_creative :: str where
  "type_creative =
     [1058, 1074, 1086, 1088, 1095, 1077, 1089, 1082, 1080, 1081]"

text \<open>The personality type name: Analiticheskij tip\<close>

definition type_analytical :: str where
  "type_analytical =
     [1040, 1085, 1072, 1083, 1080, 1090, 1080, 1095, 1077, 1089, 1082, 1080, 1081, 32, 1090,
     1080, 1087]"

text \<open>The label of the cancel button (line 181): (U+274C) Otmenit opros\<close>

definition cancel_text :: str where
  "cancel_text =
     [10060, 32, 1054, 1090, 1084, 1077, 1085, 1080, 1090, 1100, 32, 1086, 1087, 1088, 1086,
     1089]"

text \<open>The label of the confirmation button (line 253): (U+2705) Da, gotov(a)\<close>

definition confirm_text :: str where
  "confirm_text =
     [9989, 32, 1044, 1072, 44, 32, 1075, 1086, 1090, 1086, 1074, 40, 1072, 41]"

text \<open>Canned advice, entry of type intellectual: (U+1F9E0) Zaplanirujte 15-20 minut v den dlya chteniya materialov po interesuyushchej vas teme. Eto pomozhet udovletvorit vashu potrebnost v intellektualnom razvitii.; (U+1F9E9) Poprobujte metod pyati pochemu pri analize problemy (U+2014) zadavajte vopros pochemu pyat raz podryad, chtoby dokopatsya do pervoprichiny.\<close>

definition advice_by_type_intellectual :: "str list" where
  "advice_by_type_intellectual =
     [[129504, 32, 1047, 1072, 1087, 1083, 1072, 1085, 1080, 1088, 1091, 1081, 1090, 1077, 32, 49,
       53, 45, 50, 48, 32, 1084, 1080, 1085, 1091, 1090, 32, 1074, 32, 1076, 1077, 1085, 1100, 32,
       1076, 1083, 1103, 32, 1095, 1090, 1077, 1085, 1080, 1103, 32, 1084, 1072, 1090, 1077, 1088,
       1080, 1072, 1083, 1086, 1074, 32, 1087, 1086, 32, 1080, 1085, 1090, 1077, 1088, 1077, 1089,
       1091, 1102, 1097, 1077, 1081, 32, 1074, 1072, 1089, 32, 1090, 1077, 1084, 1077, 46, 32,
       1069, 1090, 1086, 32, 1087, 1086, 1084, 1086, 1078, 1077, 1090, 32, 1091, 1076, 1086, 1074,
       1083, 1077, 1090, 1074, 1086, 1088, 1080, 1090, 1100, 32, 1074, 1072, 1096, 1091, 32, 1087,
       1086, 1090, 1088, 1077, 1073, 1085, 1086, 1089, 1090, 1100, 32, 1074, 32, 1080, 1085, 1090,
       1077, 1083, 1083, 1077, 1082, 1090, 1091, 1072, 1083, 1100, 1085, 1086, 1084, 32, 1088,
       1072, 1079, 1074, 1080, 1090, 1080, 1080, 46],
      [129513, 32, 1055, 1086, 1087, 1088, 1086, 1073, 1091, 1081, 1090, 1077, 32, 1084, 1077,
       1090, 1086, 1076, 32, 171, 1087, 1103, 1090, 1080, 32, 1087, 1086, 1095, 1077, 1084, 1091,
       187, 32, 1087, 1088, 1080, 32, 1072, 1085, 1072, 1083, 1080, 1079, 1077, 32, 1087, 1088,
       1086, 1073, 1083, 1077, 1084, 1099, 32, 8212, 32, 1079, 1072, 1076, 1072, 1074, 1072, 1081,
       1090, 1077, 32, 1074, 1086, 1087, 1088, 1086, 1089, 32, 171, 1087, 1086, 1095, 1077, 1084,
       1091, 187, 32, 1087, 1103, 1090, 1100, 32, 1088, 1072, 1079, 32, 1087, 1086, 1076, 1088,
       1103, 1076, 44, 32, 1095, 1090, 1086, 1073, 1099, 32, 1076, 1086, 1082, 1086, 1087, 1072,
       1090, 1100, 1089, 1103, 32, 1076, 1086, 32, 1087, 1077, 1088, 1074, 1086, 1087, 1088, 1080,
       1095, 1080, 1085, 1099, 46]]"

text \<open>Canned advice, entry of type emotional: (U+1F4D3) Praktikujte emocionalnyj dnevnik: zapisyvajte svoi emocii v techenie dnya i ih triggery. Eto pomogaet luchshe ponimat svoi chuvstva i reakcii.; (U+1F9D8) Ispolzujte tehniku dyhanie 4-7-8: vdoh na 4 scheta, zaderzhka na 7, vydoh na 8. Eto effektivno snizhaet trevozhnost i pomogaet vosstanovit emocionalnyj balans.\<close>

definition advice_by_type_emotional :: "str list" where
  "advice_by_type_emotional =
     [[128211, 32, 1055, 1088, 1072, 1082, 1090, 1080, 1082, 1091, 1081, 1090, 1077, 32, 171,
       1101, 1084, 1086, 1094, 1080, 1086, 1085, 1072, 1083, 1100, 1085, 1099, 1081, 32, 1076,
       1085, 1077, 1074, 1085, 1080, 1082, 187, 58, 32, 1079, 1072, 1087, 1080, 1089, 1099, 1074,
       1072, 1081, 1090, 1077, 32, 1089, 1074, 1086, 1080, 32, 1101, 1084, 1086, 1094, 1080, 1080,
       32, 1074, 32, 1090, 1077, 1095, 1077, 1085, 1080, 1077, 32, 1076, 1085, 1103, 32, 1080, 32,
       1080, 1093, 32, 1090, 1088, 1080, 1075, 1075, 1077, 1088, 1099, 46, 32, 1069, 1090, 1086,
       32, 1087, 1086, 1084, 1086, 1075, 1072, 1077, 1090, 32, 1083, 1091, 1095, 1096, 1077, 32,
       1087, 1086, 1085, 1080, 1084, 1072, 1090, 1100, 32, 1089, 1074, 1086, 1080, 32, 1095, 1091,
       1074, 1089, 1090, 1074, 1072, 32, 1080, 32, 1088, 1077, 1072, 1082, 1094, 1080, 1080, 46],
      [129496, 32, 1048, 1089, 1087, 1086, 1083, 1100, 1079, 1091, 1081, 1090, 1077, 32, 1090,
       1077, 1093, 1085, 1080, 1082, 1091, 32, 171, 1076, 1099, 1093, 1072, 1085, 1080, 1077, 32,
       52, 45, 55, 45, 56, 187, 58, 32, 1074, 1076, 1086, 1093, 32, 1085, 1072, 32, 52, 32, 1089,
       1095, 1077, 1090, 1072, 44, 32, 1079, 1072, 1076, 1077, 1088, 1078, 1082, 1072, 32, 1085,
       1072, 32, 55, 44, 32, 1074, 1099, 1076, 1086, 1093, 32, 1085, 1072, 32, 56, 46, 32, 1069,
       1090, 1086, 32, 1101, 1092, 1092, 1077, 1082, 1090, 1080, 1074, 1085, 1086, 32, 1089, 1085,
       1080, 1078, 1072, 1077, 1090, 32, 1090, 1088, 1077, 1074, 1086, 1078, 1085, 1086, 1089,
       1090, 1100, 32, 1080, 32, 1087, 1086, 1084, 1086, 1075, 1072, 1077, 1090, 32, 1074, 1086,
       1089, 1089, 1090, 1072, 1085, 1086, 1074, 1080, 1090, 1100, 32, 1101, 1084, 1086, 1094,
       1080, 1086, 1085, 1072, 1083, 1100, 1085, 1099, 1081, 32, 1073, 1072, 1083, 1072, 1085,
       1089, 46]]"

text \<open>Canned advice, entry of type practical: (U+1F438) Ispolzujte tehniku eshte lyagushku: nachinajte den s samoj slozhnoj i nepriyatnoj zadachi, i ostalnoj den projdet bolee produktivno.; (U+23F1)(U+FE0F) Primenyajte pravilo dvuh minut: esli zadacha trebuet menee dvuh minut, sdelajte ee srazu, ne otkladyvaya (U+2014) eto znachitelno sokratit vash spisok del.\<close>

definition advice_by_type_practical :: "str list" where
  "advice_by_type_practical =
     [[128056, 32, 1048, 1089, 1087, 1086, 1083, 1100, 1079, 1091, 1081, 1090, 1077, 32, 1090,
       1077, 1093, 1085, 1080, 1082, 1091, 32, 171, 1077, 1096, 1100, 1090, 1077, 32, 1083, 1103,
       1075, 1091, 1096, 1082, 1091, 187, 58, 32, 1085, 1072, 1095, 1080, 1085, 1072, 1081, 1090,
       1077, 32, 1076, 1077, 1085, 1100, 32, 1089, 32, 1089, 1072, 1084, 1086, 1081, 32, 1089,
       1083, 1086, 1078, 1085, 1086, 1081, 32, 1080, 32, 1085, 1077, 1087, 1088, 1080, 1103, 1090,
       1085, 1086, 1081, 32, 1079, 1072, 1076, 1072, 1095, 1080, 44, 32, 1080, 32, 1086, 1089,
       1090, 1072, 1083, 1100, 1085, 1086, 1081, 32, 1076, 1077, 1085, 1100, 32, 1087, 1088, 1086,
       1081, 1076, 1077, 1090, 32, 1073, 1086, 1083, 1077, 1077, 32, 1087, 1088, 1086, 1076, 1091,
       1082, 1090, 1080, 1074, 1085, 1086, 46],
      [9201, 65039, 32, 1055, 1088, 1080, 1084, 1077, 1085, 1103, 1081, 1090, 1077, 32, 1087,
       1088, 1072, 1074, 1080, 1083, 1086, 32, 171, 1076, 1074, 1091, 1093, 32, 1084, 1080, 1085,
       1091, 1090, 187, 58, 32, 1077, 1089, 1083, 1080, 32, 1079, 1072, 1076, 1072, 1095, 1072, 32,
       1090, 1088, 1077, 1073, 1091, 1077, 1090, 32, 1084, 1077, 1085, 1077, 1077, 32, 1076, 1074,
       1091, 1093, 32, 1084, 1080, 1085, 1091, 1090, 44, 32, 1089, 1076, 1077, 1083, 1072, 1081,
       1090, 1077, 32, 1077, 1077, 32, 1089, 1088, 1072, 1079, 1091, 44, 32, 1085, 1077, 32, 1086,
       1090, 1082, 1083, 1072, 1076, 1099, 1074, 1072, 1103, 32, 8212, 32, 1101, 1090, 1086, 32,
       1079, 1085, 1072, 1095, 1080, 1090, 1077, 1083, 1100, 1085, 1086, 32, 1089, 1086, 1082,
       1088, 1072, 1090, 1080, 1090, 32, 1074, 1072, 1096, 32, 1089, 1087, 1080, 1089, 1086, 1082,
       32, 1076, 1077, 1083, 46]]"

text \<open>Canned advice, entry of type creative: (U+1F4DD) Praktikujte utrennie stranicy: posle probuzhdeniya napishite tri stranicy teksta bez cenzury i redaktirovaniya. Eto stimuliruet tvorcheskoe myshlenie.; (U+1F504) Ispolzujte tehniku sluchajnoe slovo: vyberite lyuboe slovo iz slovarya i poprobujte svyazat ego s zadachej, nad kotoroj rabotaete, chtoby najti novye idei.\<close>

definition advice_by_type_creative :: "str list" where
  "advice_by_type_creative =
     [[128221, 32, 1055, 1088, 1072, 1082, 1090, 1080, 1082, 1091, 1081, 1090, 1077, 32, 171,
       1091, 1090, 1088, 1077, 1085, 1085, 1080, 1077, 32, 1089, 1090, 1088, 1072, 1085, 1080,
       1094, 1099, 187, 58, 32, 1087, 1086, 1089, 1083, 1077, 32, 1087, 1088, 1086, 1073, 1091,
       1078, 1076, 1077, 1085, 1080, 1103, 32, 1085, 1072, 1087, 1080, 1096, 1080, 1090, 1077, 32,
       1090, 1088, 1080, 32, 1089, 1090, 1088, 1072, 1085, 1080, 1094, 1099, 32, 1090, 1077, 1082,
       1089, 1090, 1072, 32, 1073, 1077, 1079, 32, 1094, 1077, 1085, 1079, 1091, 1088, 1099, 32,
       1080, 32, 1088, 1077, 1076, 1072, 1082, 1090, 1080, 1088, 1086, 1074, 1072, 1085, 1080,
       1103, 46, 32, 1069, 1090, 1086, 32, 1089, 1090, 1080, 1084, 1091, 1083, 1080, 1088, 1091,
       1077, 1090, 32, 1090, 1074, 1086, 1088, 1095, 1077, 1089, 1082, 1086, 1077, 32, 1084, 1099,
       1096, 1083, 1077, 1085, 1080, 1077, 46],
      [128260, 32, 1048, 1089, 1087, 1086, 1083, 1100, 1079, 1091, 1081, 1090, 1077, 32, 1090,
       1077, 1093, 1085, 1080, 1082, 1091, 32, 171, 1089, 1083, 1091, 1095, 1072, 1081, 1085, 1086,
       1077, 32, 1089, 1083, 1086, 1074, 1086, 187, 58, 32, 1074, 1099, 1073, 1077, 1088, 1080,
       1090, 1077, 32, 1083, 1102, 1073, 1086, 1077, 32, 1089, 1083, 1086, 1074, 1086, 32, 1080,
       1079, 32, 1089, 1083, 1086, 1074, 1072, 1088, 1103, 32, 1080, 32, 1087, 1086, 1087, 1088,
       1086, 1073, 1091, 1081, 1090, 1077, 32, 1089, 1074, 1103, 1079, 1072, 1090, 1100, 32, 1077,
       1075, 1086, 32, 1089, 32, 1079, 1072, 1076, 1072, 1095, 1077, 1081, 44, 32, 1085, 1072,
       1076, 32, 1082, 1086, 1090, 1086, 1088, 1086, 1081, 32, 1088, 1072, 1073, 1086, 1090, 1072,
       1077, 1090, 1077, 44, 32, 1095, 1090, 1086, 1073, 1099, 32, 1085, 1072, 1081, 1090, 1080,
       32, 1085, 1086, 1074, 1099, 1077, 32, 1080, 1076, 1077, 1080, 46]]"

text \<open>The dictionary \<^verbatim>\<open>advice_by_type\<close> of \<^verbatim>\<open>get_personalized_advice\<close> (lines 1029-1046), in the order of the source.\<close>

definition advice_by_type :: "(str \<times> str list) list" where
  "advice_by_type =
     [(type_intellectual, advice_by_type_intellectual),
      (type_emotional, advice_by_type_emotional),
      (type_practical, advice_by_type_practical),
      (type_creative, advice_by_type_creative)]"

text \<open>Keywords, entry of type intellectual: analiz; logika; myshlenie; intellekt; znaniya; obuchenie; informaciya; ponimanie; issledovanie; koncepcii; strategicheskoe myshlenie; kriticheskoe myshlenie; abstraktnoe myshlenie; kognitivnye processy; racionalnost; lyuboznatelnost\<close>

definition keywords_dict_intellectual :: "str list" where
  "keywords_dict_intellectual =
     [[1072, 1085, 1072, 1083, 1080, 1079],
      [1083, 1086, 1075, 1080, 1082, 1072],
      [1084, 1099, 1096, 1083, 1077, 1085, 1080, 1077],
      [1080, 1085, 1090, 1077, 1083, 1083, 1077, 1082, 1090],
      [1079, 1085, 1072, 1085, 1080, 1103],
      [1086, 1073, 1091, 1095, 1077, 1085, 1080, 1077],
      [1080, 1085, 1092, 1086, 1088, 1084, 1072, 1094, 1080, 1103],
      [1087, 1086, 1085, 1080, 1084, 1072, 1085, 1080, 1077],
      [1080, 1089, 1089, 1083, 1077, 1076, 1086, 1074, 1072, 1085, 1080, 1077],
      [1082, 1086, 1085, 1094, 1077, 1087, 1094, 1080, 1080],
      [1089, 1090, 1088, 1072, 1090, 1077, 1075, 1080, 1095, 1077, 1089, 1082, 1086, 1077, 32,
       1084, 1099, 1096, 1083, 1077, 1085, 1080, 1077],
      [1082, 1088, 1080, 1090, 1080, 1095, 1077, 1089, 1082, 1086, 1077, 32, 1084, 1099, 1096,
       1083, 1077, 1085, 1080, 1077],
      [1072, 1073, 1089, 1090, 1088, 1072, 1082, 1090, 1085, 1086, 1077, 32, 1084, 1099, 1096,
       1083, 1077, 1085, 1080, 1077],
      [1082, 1086, 1075, 1085, 1080, 1090, 1080, 1074, 1085, 1099, 1077, 32, 1087, 1088, 1086,
       1094, 1077, 1089, 1089, 1099],
      [1088, 1072, 1094, 1080, 1086, 1085, 1072, 1083, 1100, 1085, 1086, 1089, 1090, 1100],
      [1083, 1102, 1073, 1086, 1079, 1085, 1072, 1090, 1077, 1083, 1100, 1085, 1086, 1089, 1090,
       1100]]"

text \<open>Keywords, entry of type emotional: emocii; chuvstva; empatiya; soperezhivanie; otnosheniya; ponimanie drugih; emocionalnyj intellekt; intuiciya; nastroenie; garmoniya; samosoznanie; samoregulyaciya; vnutrennij mir; emocionalnaya glubina; chuvstvitelnost; psihologicheskaya gibkost\<close>

definition keywords_dict_emotional :: "str list" where
  "keywords_dict_emotional =
     [[1101, 1084, 1086, 1094, 1080, 1080],
      [1095, 1091, 1074, 1089, 1090, 1074, 1072],
      [1101, 1084, 1087, 1072, 1090, 1080, 1103],
      [1089, 1086, 1087, 1077, 1088, 1077, 1078, 1080, 1074, 1072, 1085, 1080, 1077],
      [1086, 1090, 1085, 1086, 1096, 1077, 1085, 1080, 1103],
      [1087, 1086, 1085, 1080, 1084, 1072, 1085, 1080, 1077, 32, 1076, 1088, 1091, 1075, 1080,
       1093],
      [1101, 1084, 1086, 1094, 1080, 1086, 1085, 1072, 1083, 1100, 1085, 1099, 1081, 32, 1080,
       1085, 1090, 1077, 1083, 1083, 1077, 1082, 1090],
      [1080, 1085, 1090, 1091, 1080, 1094, 1080, 1103],
      [1085, 1072, 1089, 1090, 1088, 1086, 1077, 1085, 1080, 1077],
      [1075, 1072, 1088, 1084, 1086, 1085, 1080, 1103],
      [1089, 1072, 1084, 1086, 1089, 1086, 1079, 1085, 1072, 1085, 1080, 1077],
      [1089, 1072, 1084, 1086, 1088, 1077, 1075, 1091, 1083, 1103, 1094, 1080, 1103],
      [1074, 1085, 1091, 1090, 1088, 1077, 1085, 1085, 1080, 1081, 32, 1084, 1080, 1088],
      [1101, 1084, 1086, 1094, 1080, 1086, 1085, 1072, 1083, 1100, 1085, 1072, 1103, 32, 1075,
       1083, 1091, 1073, 1080, 1085, 1072],
      [1095, 1091, 1074, 1089, 1090, 1074, 1080, 1090, 1077, 1083, 1100, 1085, 1086, 1089, 1090,
       1100],
      [1087, 1089, 1080, 1093, 1086, 1083, 1086, 1075, 1080, 1095, 1077, 1089, 1082, 1072, 1103,
       32, 1075, 1080, 1073, 1082, 1086, 1089, 1090, 1100]]"

text \<open>Keywords, entry of type practical: organizaciya; planirovanie; effektivnost; rezultat; dejstvie; disciplina; metodichnost; punktualnost; produktivnost; celi; struktura; processy; uporyadochennost; posledovatelnost; praktichnost; pragmatizm; konkretika\<close>

definition keywords_dict_practical :: "str list" where
  "keywords_dict_practical =
     [[1086, 1088, 1075, 1072, 1085, 1080, 1079, 1072, 1094, 1080, 1103],
      [1087, 1083, 1072, 1085, 1080, 1088, 1086, 1074, 1072, 1085, 1080, 1077],
      [1101, 1092, 1092, 1077, 1082, 1090, 1080, 1074, 1085, 1086, 1089, 1090, 1100],
      [1088, 1077, 1079, 1091, 1083, 1100, 1090, 1072, 1090],
      [1076, 1077, 1081, 1089, 1090, 1074, 1080, 1077],
      [1076, 1080, 1089, 1094, 1080, 1087, 1083, 1080, 1085, 1072],
      [1084, 1077, 1090, 1086, 1076, 1080, 1095, 1085, 1086, 1089, 1090, 1100],
      [1087, 1091, 1085, 1082, 1090, 1091, 1072, 1083, 1100, 1085, 1086, 1089, 1090, 1100],
      [1087, 1088, 1086, 1076, 1091, 1082, 1090, 1080, 1074, 1085, 1086, 1089, 1090, 1100],
      [1094, 1077, 1083, 1080],
      [1089, 1090, 1088, 1091, 1082, 1090, 1091, 1088, 1072],
      [1087, 1088, 1086, 1094, 1077, 1089, 1089, 1099],
      [1091, 1087, 1086, 1088, 1103, 1076, 1086, 1095, 1077, 1085, 1085, 1086, 1089, 1090, 1100],
      [1087, 1086, 1089, 1083, 1077, 1076, 1086, 1074, 1072, 1090, 1077, 1083, 1100, 1085, 1086,
       1089, 1090, 1100],
      [1087, 1088, 1072, 1082, 1090, 1080, 1095, 1085, 1086, 1089, 1090, 1100],
      [1087, 1088, 1072, 1075, 1084, 1072, 1090, 1080, 1079, 1084],
      [1082, 1086, 1085, 1082, 1088, 1077, 1090, 1080, 1082, 1072]]"

text \<open>Keywords, entry of type creative: tvorchestvo; kreativnost; voobrazhenie; idei; innovacii; originalnost; intuiciya; vdohnovenie; estetika; ekspressiya; iskusstvo; dizajn; nestandartnoe myshlenie; tvorcheskij potencial; vizualizaciya; novatorstvo; eksperimentirovanie\<close>

definition keywords_dict_creative :: "str list" where
  "keywords_dict_creative =
     [[1090, 1074, 1086, 1088, 1095, 1077, 1089, 1090, 1074, 1086],
      [1082, 1088, 1077, 1072, 1090, 1080, 1074, 1085, 1086, 1089, 1090, 1100],
      [1074, 1086, 1086, 1073, 1088, 1072, 1078, 1077, 1085, 1080, 1077],
      [1080, 1076, 1077, 1080],
      [1080, 1085, 1085, 1086, 1074, 1072, 1094, 1080, 1080],
      [1086, 1088, 1080, 1075, 1080, 1085, 1072, 1083, 1100, 1085, 1086, 1089, 1090, 1100],
      [1080, 1085, 1090, 1091, 1080, 1094, 1080, 1103],
      [1074, 1076, 1086, 1093, 1085, 1086, 1074, 1077, 1085, 1080, 1077],
      [1101, 1089, 1090, 1077, 1090, 1080, 1082, 1072],
      [1101, 1082, 1089, 1087, 1088, 1077, 1089, 1089, 1080, 1103],
      [1080, 1089, 1082, 1091, 1089, 1089, 1090, 1074, 1086],
      [1076, 1080, 1079, 1072, 1081, 1085],
      [1085, 1077, 1089, 1090, 1072, 1085, 1076, 1072, 1088, 1090, 1085, 1086, 1077, 32, 1084,
       1099, 1096, 1083, 1077, 1085, 1080, 1077],
      [1090, 1074, 1086, 1088, 1095, 1077, 1089, 1082, 1080, 1081, 32, 1087, 1086, 1090, 1077,
       1085, 1094, 1080, 1072, 1083],
      [1074, 1080, 1079, 1091, 1072, 1083, 1080, 1079, 1072, 1094, 1080, 1103],
      [1085, 1086, 1074, 1072, 1090, 1086, 1088, 1089, 1090, 1074, 1086],
      [1101, 1082, 1089, 1087, 1077, 1088, 1080, 1084, 1077, 1085, 1090, 1080, 1088, 1086, 1074,
       1072, 1085, 1080, 1077]]"

text \<open>Keywords, entry of type analytical: analiz dannyh; analitika; sistemnyj podhod; detali; tochnost; strukturirovanie; klassifikaciya; ocenka; zakonomernosti; algoritmy; metodologiya; verifikaciya; sravnenie; izmerenie; issledovanie; argumentaciya; fakty; logicheskie svyazi\<close>

definition keywords_dict_analytical :: "str list" where
  "keywords_dict_analytical =
     [[1072, 1085, 1072, 1083, 1080, 1079, 32, 1076, 1072, 1085, 1085, 1099, 1093],
      [1072, 1085, 1072, 1083, 1080, 1090, 1080, 1082, 1072],
      [1089, 1080, 1089, 1090, 1077, 1084, 1085, 1099, 1081, 32, 1087, 1086, 1076, 1093, 1086,
       1076],
      [1076, 1077, 1090, 1072, 1083, 1080],
      [1090, 1086, 1095, 1085, 1086, 1089, 1090, 1100],
      [1089, 1090, 1088, 1091, 1082, 1090, 1091, 1088, 1080, 1088, 1086, 1074, 1072, 1085, 1080,
       1077],
      [1082, 1083, 1072, 1089, 1089, 1080, 1092, 1080, 1082, 1072, 1094, 1080, 1103],
      [1086, 1094, 1077, 1085, 1082, 1072],
      [1079, 1072, 1082, 1086, 1085, 1086, 1084, 1077, 1088, 1085, 1086, 1089, 1090, 1080],
      [1072, 1083, 1075, 1086, 1088, 1080, 1090, 1084, 1099],
      [1084, 1077, 1090, 1086, 1076, 1086, 1083, 1086, 1075, 1080, 1103],
      [1074, 1077, 1088, 1080, 1092, 1080, 1082, 1072, 1094, 1080, 1103],
      [1089, 1088, 1072, 1074, 1085, 1077, 1085, 1080, 1077],
      [1080, 1079, 1084, 1077, 1088, 1077, 1085, 1080, 1077],
      [1080, 1089, 1089, 1083, 1077, 1076, 1086, 1074, 1072, 1085, 1080, 1077],
      [1072, 1088, 1075, 1091, 1084, 1077, 1085, 1090, 1072, 1094, 1080, 1103],
      [1092, 1072, 1082, 1090, 1099],
      [1083, 1086, 1075, 1080, 1095, 1077, 1089, 1082, 1080, 1077, 32, 1089, 1074, 1103, 1079,
       1080]]"

text \<open>The dictionary \<^verbatim>\<open>keywords\<close> of \<^verbatim>\<open>extract_key_aspects\<close> (lines 1075-1106), in the order of the source.\<close>

definition keywords_dict :: "(str \<times> str list) list" where
  "keywords_dict =
     [(type_intellectual, keywords_dict_intellectual),
      (type_emotional, keywords_dict_emotional),
      (type_practical, keywords_dict_practical),
      (type_creative, keywords_dict_creative),
      (type_analytical, keywords_dict_analytical)]"

text \<open>Aspects, entry of type intellectual: analiticheskomu myshleniyu; obrabotke informacii; strategicheskomu planirovaniyu; konceptualnomu myshleniyu; poisku zakonomernostej; sistematizacii znanij; kriticheskomu analizu; logicheskim rassuzhdeniyam; glubokomu ponimaniyu; abstraktnomu myshleniyu; poisku svyazej mezhdu koncepciyami; intellektualnoj lyuboznatelnosti\<close>

definition aspects_intellectual :: "str list" where
  "aspects_intellectual =
     [[1072, 1085, 1072, 1083, 1080, 1090, 1080, 1095, 1077, 1089, 1082, 1086, 1084, 1091, 32,
       1084, 1099, 1096, 1083, 1077, 1085, 1080, 1102],
      [1086, 1073, 1088, 1072, 1073, 1086, 1090, 1082, 1077, 32, 1080, 1085, 1092, 1086, 1088,
       1084, 1072, 1094, 1080, 1080],
      [1089, 1090, 1088, 1072, 1090, 1077, 1075, 1080, 1095, 1077, 1089, 1082, 1086, 1084, 1091,
       32, 1087, 1083, 1072, 1085, 1080, 1088, 1086, 1074, 1072, 1085, 1080, 1102],
      [1082, 1086, 1085, 1094, 1077, 1087, 1090, 1091, 1072, 1083, 1100, 1085, 1086, 1084, 1091,
       32, 1084, 1099, 1096, 1083, 1077, 1085, 1080, 1102],
      [1087, 1086, 1080, 1089, 1082, 1091, 32, 1079, 1072, 1082, 1086, 1085, 1086, 1084, 1077,
       1088, 1085, 1086, 1089, 1090, 1077, 1081],
      [1089, 1080, 1089, 1090, 1077, 1084, 1072, 1090, 1080, 1079, 1072, 1094, 1080, 1080, 32,
       1079, 1085, 1072, 1085, 1080, 1081],
      [1082, 1088, 1080, 1090, 1080, 1095, 1077, 1089, 1082, 1086, 1084, 1091, 32, 1072, 1085,
       1072, 1083, 1080, 1079, 1091],
      [1083, 1086, 1075, 1080, 1095, 1077, 1089, 1082, 1080, 1084, 32, 1088, 1072, 1089, 1089,
       1091, 1078, 1076, 1077, 1085, 1080, 1103, 1084],
      [1075, 1083, 1091, 1073, 1086, 1082, 1086, 1084, 1091, 32, 1087, 1086, 1085, 1080, 1084,
       1072, 1085, 1080, 1102],
      [1072, 1073, 1089, 1090, 1088, 1072, 1082, 1090, 1085, 1086, 1084, 1091, 32, 1084, 1099,
       1096, 1083, 1077, 1085, 1080, 1102],
      [1087, 1086, 1080, 1089, 1082, 1091, 32, 1089, 1074, 1103, 1079, 1077, 1081, 32, 1084, 1077,
       1078, 1076, 1091, 32, 1082, 1086, 1085, 1094, 1077, 1087, 1094, 1080, 1103, 1084, 1080],
      [1080, 1085, 1090, 1077, 1083, 1083, 1077, 1082, 1090, 1091, 1072, 1083, 1100, 1085, 1086,
       1081, 32, 1083, 1102, 1073, 1086, 1079, 1085, 1072, 1090, 1077, 1083, 1100, 1085, 1086,
       1089, 1090, 1080]]"

text \<open>Aspects, entry of type emotional: empatii; emocionalnomu vospriyatiyu; chuvstvennomu opytu; emocionalnomu samoanalizu; glubokim perezhivaniyam; intuitivnomu ponimaniyu; emocionalnoj osoznannosti; soperezhivaniyu; postroeniyu glubokih otnoshenij; emocionalnoj vospriimchivosti; emocionalnomu rezonansu; ponimaniyu chuvstv drugih\<close>

definition aspects_emotional :: "str list" where
  "aspects_emotional =
     [[1101, 1084, 1087, 1072, 1090, 1080, 1080],
      [1101, 1084, 1086, 1094, 1080, 1086, 1085, 1072, 1083, 1100, 1085, 1086, 1084, 1091, 32,
       1074, 1086, 1089, 1087, 1088, 1080, 1103, 1090, 1080, 1102],
      [1095, 1091, 1074, 1089, 1090, 1074, 1077, 1085, 1085, 1086, 1084, 1091, 32, 1086, 1087,
       1099, 1090, 1091],
      [1101, 1084, 1086, 1094, 1080, 1086, 1085, 1072, 1083, 1100, 1085, 1086, 1084, 1091, 32,
       1089, 1072, 1084, 1086, 1072, 1085, 1072, 1083, 1080, 1079, 1091],
      [1075, 1083, 1091, 1073, 1086, 1082, 1080, 1084, 32, 1087, 1077, 1088, 1077, 1078, 1080,
       1074, 1072, 1085, 1080, 1103, 1084],
      [1080, 1085, 1090, 1091, 1080, 1090, 1080, 1074, 1085, 1086, 1084, 1091, 32, 1087, 1086,
       1085, 1080, 1084, 1072, 1085, 1080, 1102],
      [1101, 1084, 1086, 1094, 1080, 1086, 1085, 1072, 1083, 1100, 1085, 1086, 1081, 32, 1086,
       1089, 1086, 1079, 1085, 1072, 1085, 1085, 1086, 1089, 1090, 1080],
      [1089, 1086, 1087, 1077, 1088, 1077, 1078, 1080, 1074, 1072, 1085, 1080, 1102],
      [1087, 1086, 1089, 1090, 1088, 1086, 1077, 1085, 1080, 1102, 32, 1075, 1083, 1091, 1073,
       1086, 1082, 1080, 1093, 32, 1086, 1090, 1085, 1086, 1096, 1077, 1085, 1080, 1081],
      [1101, 1084, 1086, 1094, 1080, 1086, 1085, 1072, 1083, 1100, 1085, 1086, 1081, 32, 1074,
       1086, 1089, 1087, 1088, 1080, 1080, 1084, 1095, 1080, 1074, 1086, 1089, 1090, 1080],
      [1101, 1084, 1086, 1094, 1080, 1086, 1085, 1072, 1083, 1100, 1085, 1086, 1084, 1091, 32,
       1088, 1077, 1079, 1086, 1085, 1072, 1085, 1089, 1091],
      [1087, 1086, 1085, 1080, 1084, 1072, 1085, 1080, 1102, 32, 1095, 1091, 1074, 1089, 1090,
       1074, 32, 1076, 1088, 1091, 1075, 1080, 1093]]"

text \<open>Aspects, entry of type practical: organizovannosti; strukturirovaniyu zadach; dostizheniyu konkretnyh rezultatov; effektivnomu planirovaniyu; prakticheskomu podhodu; detalnomu analizu; posledovatelnym dejstviyam; konkretnym shagam; organizacii processov; upravleniyu resursami; optimizacii deyatelnosti; dovedeniyu del do konca\<close>

definition aspects_practical :: "str list" where
  "aspects_practical =
     [[1086, 1088, 1075, 1072, 1085, 1080, 1079, 1086, 1074, 1072, 1085, 1085, 1086, 1089, 1090,
       1080],
      [1089, 1090, 1088, 1091, 1082, 1090, 1091, 1088, 1080, 1088, 1086, 1074, 1072, 1085, 1080,
       1102, 32, 1079, 1072, 1076, 1072, 1095],
      [1076, 1086, 1089, 1090, 1080, 1078, 1077, 1085, 1080, 1102, 32, 1082, 1086, 1085, 1082,
       1088, 1077, 1090, 1085, 1099, 1093, 32, 1088, 1077, 1079, 1091, 1083, 1100, 1090, 1072,
       1090, 1086, 1074],
      [1101, 1092, 1092, 1077, 1082, 1090, 1080, 1074, 1085, 1086, 1084, 1091, 32, 1087, 1083,
       1072, 1085, 1080, 1088, 1086, 1074, 1072, 1085, 1080, 1102],
      [1087, 1088, 1072, 1082, 1090, 1080, 1095, 1077, 1089, 1082, 1086, 1084, 1091, 32, 1087,
       1086, 1076, 1093, 1086, 1076, 1091],
      [1076, 1077, 1090, 1072, 1083, 1100, 1085, 1086, 1084, 1091, 32, 1072, 1085, 1072, 1083,
       1080, 1079, 1091],
      [1087, 1086, 1089, 1083, 1077, 1076, 1086, 1074, 1072, 1090, 1077, 1083, 1100, 1085, 1099,
       1084, 32, 1076, 1077, 1081, 1089, 1090, 1074, 1080, 1103, 1084],
      [1082, 1086, 1085, 1082, 1088, 1077, 1090, 1085, 1099, 1084, 32, 1096, 1072, 1075, 1072,
       1084],
      [1086, 1088, 1075, 1072, 1085, 1080, 1079, 1072, 1094, 1080, 1080, 32, 1087, 1088, 1086,
       1094, 1077, 1089, 1089, 1086, 1074],
      [1091, 1087, 1088, 1072, 1074, 1083, 1077, 1085, 1080, 1102, 32, 1088, 1077, 1089, 1091,
       1088, 1089, 1072, 1084, 1080],
      [1086, 1087, 1090, 1080, 1084, 1080, 1079, 1072, 1094, 1080, 1080, 32, 1076, 1077, 1103,
       1090, 1077, 1083, 1100, 1085, 1086, 1089, 1090, 1080],
      [1076, 1086, 1074, 1077, 1076, 1077, 1085, 1080, 1102, 32, 1076, 1077, 1083, 32, 1076, 1086,
       32, 1082, 1086, 1085, 1094, 1072]]"

text \<open>Aspects, entry of type creative: nestandartnomu myshleniyu; tvorcheskoj svobode; generacii novyh idej; kreativnomu podhodu; obraznomu myshleniyu; tvorcheskoj vizualizacii; poisku unikalnyh reshenij; esteticheskomu vospriyatiyu; originalnosti; tvorcheskomu samovyrazheniyu; innovacionnym podhodam; divergentnomu myshleniyu\<close>

definition aspects_creative :: "str list" where
  "aspects_creative =
     [[1085, 1077, 1089, 1090, 1072, 1085, 1076, 1072, 1088, 1090, 1085, 1086, 1084, 1091, 32,
       1084, 1099, 1096, 1083, 1077, 1085, 1080, 1102],
      [1090, 1074, 1086, 1088, 1095, 1077, 1089, 1082, 1086, 1081, 32, 1089, 1074, 1086, 1073,
       1086, 1076, 1077],
      [1075, 1077, 1085, 1077, 1088, 1072, 1094, 1080, 1080, 32, 1085, 1086, 1074, 1099, 1093, 32,
       1080, 1076, 1077, 1081],
      [1082, 1088, 1077, 1072, 1090, 1080, 1074, 1085, 1086, 1084, 1091, 32, 1087, 1086, 1076,
       1093, 1086, 1076, 1091],
      [1086, 1073, 1088, 1072, 1079, 1085, 1086, 1084, 1091, 32, 1084, 1099, 1096, 1083, 1077,
       1085, 1080, 1102],
      [1090, 1074, 1086, 1088, 1095, 1077, 1089, 1082, 1086, 1081, 32, 1074, 1080, 1079, 1091,
       1072, 1083, 1080, 1079, 1072, 1094, 1080, 1080],
      [1087, 1086, 1080, 1089, 1082, 1091, 32, 1091, 1085, 1080, 1082, 1072, 1083, 1100, 1085,
       1099, 1093, 32, 1088, 1077, 1096, 1077, 1085, 1080, 1081],
      [1101, 1089, 1090, 1077, 1090, 1080, 1095, 1077, 1089, 1082, 1086, 1084, 1091, 32, 1074,
       1086, 1089, 1087, 1088, 1080, 1103, 1090, 1080, 1102],
      [1086, 1088, 1080, 1075, 1080, 1085, 1072, 1083, 1100, 1085, 1086, 1089, 1090, 1080],
      [1090, 1074, 1086, 1088, 1095, 1077, 1089, 1082, 1086, 1084, 1091, 32, 1089, 1072, 1084,
       1086, 1074, 1099, 1088, 1072, 1078, 1077, 1085, 1080, 1102],
      [1080, 1085, 1085, 1086, 1074, 1072, 1094, 1080, 1086, 1085, 1085, 1099, 1084, 32, 1087,
       1086, 1076, 1093, 1086, 1076, 1072, 1084],
      [1076, 1080, 1074, 1077, 1088, 1075, 1077, 1085, 1090, 1085, 1086, 1084, 1091, 32, 1084,
       1099, 1096, 1083, 1077, 1085, 1080, 1102]]"

text \<open>Aspects, entry of type analytical: detalnomu analizu; sistematizacii informacii; vyyavleniyu zakonomernostej; tochnoj ocenke dannyh; metodologicheskomu podhodu; strukturirovaniyu slozhnyh problem; posledovatelnoj argumentacii; postroeniyu logicheskih modelej; faktologicheskomu analizu; issledovatelskomu myshleniyu; kategorizacii; tochnosti formulirovok\<close>

definition aspects_analytical :: "str list" where
  "aspects_analytical =
     [[1076, 1077, 1090, 1072, 1083, 1100, 1085, 1086, 1084, 1091, 32, 1072, 1085, 1072, 1083,
       1080, 1079, 1091],
      [1089, 1080, 1089, 1090, 1077, 1084, 1072, 1090, 1080, 1079, 1072, 1094, 1080, 1080, 32,
       1080, 1085, 1092, 1086, 1088, 1084, 1072, 1094, 1080, 1080],
      [1074, 1099, 1103, 1074, 1083, 1077, 1085, 1080, 1102, 32, 1079, 1072, 1082, 1086, 1085,
       1086, 1084, 1077, 1088, 1085, 1086, 1089, 1090, 1077, 1081],
      [1090, 1086, 1095, 1085, 1086, 1081, 32, 1086, 1094, 1077, 1085, 1082, 1077, 32, 1076, 1072,
       1085, 1085, 1099, 1093],
      [1084, 1077, 1090, 1086, 1076, 1086, 1083, 1086, 1075, 1080, 1095, 1077, 1089, 1082, 1086,
       1084, 1091, 32, 1087, 1086, 1076, 1093, 1086, 1076, 1091],
      [1089, 1090, 1088, 1091, 1082, 1090, 1091, 1088, 1080, 1088, 1086, 1074, 1072, 1085, 1080,
       1102, 32, 1089, 1083, 1086, 1078, 1085, 1099, 1093, 32, 1087, 1088, 1086, 1073, 1083, 1077,
       1084],
      [1087, 1086, 1089, 1083, 1077, 1076, 1086, 1074, 1072, 1090, 1077, 1083, 1100, 1085, 1086,
       1081, 32, 1072, 1088, 1075, 1091, 1084, 1077, 1085, 1090, 1072, 1094, 1080, 1080],
      [1087, 1086, 1089, 1090, 1088, 1086, 1077, 1085, 1080, 1102, 32, 1083, 1086, 1075, 1080,
       1095, 1077, 1089, 1082, 1080, 1093, 32, 1084, 1086, 1076, 1077, 1083, 1077, 1081],
      [1092, 1072, 1082, 1090, 1086, 1083, 1086, 1075, 1080, 1095, 1077, 1089, 1082, 1086, 1084,
       1091, 32, 1072, 1085, 1072, 1083, 1080, 1079, 1091],
      [1080, 1089, 1089, 1083, 1077, 1076, 1086, 1074, 1072, 1090, 1077, 1083, 1100, 1089, 1082,
       1086, 1084, 1091, 32, 1084, 1099, 1096, 1083, 1077, 1085, 1080, 1102],
      [1082, 1072, 1090, 1077, 1075, 1086, 1088, 1080, 1079, 1072, 1094, 1080, 1080],
      [1090, 1086, 1095, 1085, 1086, 1089, 1090, 1080, 32, 1092, 1086, 1088, 1084, 1091, 1083,
       1080, 1088, 1086, 1074, 1086, 1082]]"

text \<open>The dictionary \<^verbatim>\<open>aspects\<close> of \<^verbatim>\<open>extract_key_aspects\<close> (lines 1109-1140), in the order of the source.\<close>

definition aspects :: "(str \<times> str list) list" where
  "aspects =
     [(type_intellectual, aspects_intellectual),
      (type_emotional, aspects_emotional),
      (type_practical, aspects_practical),
      (type_creative, aspects_creative),
      (type_analytical, aspects_analytical)]"

text \<open>Emoji, entry of type intellectual: (U+1F9E0); (U+1F4DA); (U+1F50D); (U+1F9E9); (U+1F4DD)\<close>

definition emoji_map_intellectual :: "str list" where
  "emoji_map_intellectual =
     [[129504],
      [128218],
      [128269],
      [129513],
      [128221]]"

text \<open>Emoji, entry of type emotional: (U+2764)(U+FE0F); (U+1F9D8); (U+1F64F); (U+1F331); (U+1FAC2)\<close>

definition emoji_map_emotional :: "str list" where
  "emoji_map_emotional =
     [[10084, 65039],
      [129496],
      [128591],
      [127793],
      [129730]]"

text \<open>Emoji, entry of type practical: (U+23F1)(U+FE0F); (U+2705); (U+1F4CA); (U+1F6AB); (U+1F4CB)\<close>

definition emoji_map_practical :: "str list" where
  "emoji_map_practical =
     [[9201, 65039],
      [9989],
      [128202],
      [128683],
      [128203]]"

text \<open>Emoji, entry of type creative: (U+1F3A8); (U+1F504); (U+1F308); (U+1F9E0); (U+1F3AD)\<close>

definition emoji_map_creative :: "str list" where
  "emoji_map_creative =
     [[127912],
      [128260],
      [127752],
      [129504],
      [127917]]"

text \<open>Emoji, entry of type analytical: (U+1F4CA); (U+1F50D); (U+1F4C8); (U+1F9EE); (U+1F4CB)\<close>

definition emoji_map_analytical :: "str list" where
  "emoji_map_analytical =
     [[128202],
      [128269],
      [128200],
      [129518],
      [128203]]"

text \<open>The dictionary \<^verbatim>\<open>emoji_map\<close> of \<^verbatim>\<open>generate_unique_advice\<close> (lines 1217-1223), in the order of the source.\<close>

definition emoji_map :: "(str \<times> str list) list" where
  "emoji_map =
     [(type_intellectual, emoji_map_intellectual),
      (type_emotional, emoji_map_emotional),
      (type_practical, emoji_map_practical),
      (type_creative, emoji_map_creative),
      (type_analytical, emoji_map_analytical)]"

text \<open>Techniques, entry of type intellectual: tehniku glubokogo chteniya; metod intervalnogo povtoreniya; tehniku sozdaniya mentalnyh kart; metod Fejnmana; tehniku aktivnogo voproshaniya; SQ3R metod dlya raboty s tekstami; tehniku poiska mezhpredmetnyh svyazej; debaty s samim soboj; tehniku vedeniya intellektualnogo dnevnika; metod soedineniya idej\<close>

definition techniques_intellectual :: "str list" where
  "techniques_intellectual =
     [[1090, 1077, 1093, 1085, 1080, 1082, 1091, 32, 1075, 1083, 1091, 1073, 1086, 1082, 1086,
       1075, 1086, 32, 1095, 1090, 1077, 1085, 1080, 1103],
      [1084, 1077, 1090, 1086, 1076, 32, 1080, 1085, 1090, 1077, 1088, 1074, 1072, 1083, 1100,
       1085, 1086, 1075, 1086, 32, 1087, 1086, 1074, 1090, 1086, 1088, 1077, 1085, 1080, 1103],
      [1090, 1077, 1093, 1085, 1080, 1082, 1091, 32, 1089, 1086, 1079, 1076, 1072, 1085, 1080,
       1103, 32, 1084, 1077, 1085, 1090, 1072, 1083, 1100, 1085, 1099, 1093, 32, 1082, 1072, 1088,
       1090],
      [1084, 1077, 1090, 1086, 1076, 32, 1060, 1077, 1081, 1085, 1084, 1072, 1085, 1072],
      [1090, 1077, 1093, 1085, 1080, 1082, 1091, 32, 1072, 1082, 1090, 1080, 1074, 1085, 1086,
       1075, 1086, 32, 1074, 1086, 1087, 1088, 1086, 1096, 1072, 1085, 1080, 1103],
      [83, 81, 51, 82, 32, 1084, 1077, 1090, 1086, 1076, 32, 1076, 1083, 1103, 32, 1088, 1072,
       1073, 1086, 1090, 1099, 32, 1089, 32, 1090, 1077, 1082, 1089, 1090, 1072, 1084, 1080],
      [1090, 1077, 1093, 1085, 1080, 1082, 1091, 32, 1087, 1086, 1080, 1089, 1082, 1072, 32, 1084,
       1077, 1078, 1087, 1088, 1077, 1076, 1084, 1077, 1090, 1085, 1099, 1093, 32, 1089, 1074,
       1103, 1079, 1077, 1081],
      [1076, 1077, 1073, 1072, 1090, 1099, 32, 1089, 32, 1089, 1072, 1084, 1080, 1084, 32, 1089,
       1086, 1073, 1086, 1081],
      [1090, 1077, 1093, 1085, 1080, 1082, 1091, 32, 1074, 1077, 1076, 1077, 1085, 1080, 1103, 32,
       1080, 1085, 1090, 1077, 1083, 1083, 1077, 1082, 1090, 1091, 1072, 1083, 1100, 1085, 1086,
       1075, 1086, 32, 1076, 1085, 1077, 1074, 1085, 1080, 1082, 1072],
      [1084, 1077, 1090, 1086, 1076, 32, 1089, 1086, 1077, 1076, 1080, 1085, 1077, 1085, 1080,
       1103, 32, 1080, 1076, 1077, 1081]]"

text \<open>Techniques, entry of type emotional: praktiku osoznannosti; tehniku emocionalnogo distancirovaniya; metodiku progressivnoj myshechnoj relaksacii; praktiku blagodarnosti; tehniku emocionalnogo kartirovaniya; metod zazemleniya emocij; zhurnal emocij; praktiku sostradaniya k sebe; tehniku emocionalnogo rezonansa; metod pereklyucheniya emocionalnyh sostoyanij\<close>

definition techniques_emotional :: "str list" where
  "techniques_emotional =
     [[1087, 1088, 1072, 1082, 1090, 1080, 1082, 1091, 32, 1086, 1089, 1086, 1079, 1085, 1072,
       1085, 1085, 1086, 1089, 1090, 1080],
      [1090, 1077, 1093, 1085, 1080, 1082, 1091, 32, 1101, 1084, 1086, 1094, 1080, 1086, 1085,
       1072, 1083, 1100, 1085, 1086, 1075, 1086, 32, 1076, 1080, 1089, 1090, 1072, 1085, 1094,
       1080, 1088, 1086, 1074, 1072, 1085, 1080, 1103],
      [1084, 1077, 1090, 1086, 1076, 1080, 1082, 1091, 32, 1087, 1088, 1086, 1075, 1088, 1077,
       1089, 1089, 1080, 1074, 1085, 1086, 1081, 32, 1084, 1099, 1096, 1077, 1095, 1085, 1086,
       1081, 32, 1088, 1077, 1083, 1072, 1082, 1089, 1072, 1094, 1080, 1080],
      [1087, 1088, 1072, 1082, 1090, 1080, 1082, 1091, 32, 1073, 1083, 1072, 1075, 1086, 1076,
       1072, 1088, 1085, 1086, 1089, 1090, 1080],
      [1090, 1077, 1093, 1085, 1080, 1082, 1091, 32, 1101, 1084, 1086, 1094, 1080, 1086, 1085,
       1072, 1083, 1100, 1085, 1086, 1075, 1086, 32, 1082, 1072, 1088, 1090, 1080, 1088, 1086,
       1074, 1072, 1085, 1080, 1103],
      [1084, 1077, 1090, 1086, 1076, 32, 171, 1079, 1072, 1079, 1077, 1084, 1083, 1077, 1085,
       1080, 1103, 187, 32, 1101, 1084, 1086, 1094, 1080, 1081],
      [1078, 1091, 1088, 1085, 1072, 1083, 32, 1101, 1084, 1086, 1094, 1080, 1081],
      [1087, 1088, 1072, 1082, 1090, 1080, 1082, 1091, 32, 1089, 1086, 1089, 1090, 1088, 1072,
       1076, 1072, 1085, 1080, 1103, 32, 1082, 32, 1089, 1077, 1073, 1077],
      [1090, 1077, 1093, 1085, 1080, 1082, 1091, 32, 1101, 1084, 1086, 1094, 1080, 1086, 1085,
       1072, 1083, 1100, 1085, 1086, 1075, 1086, 32, 1088, 1077, 1079, 1086, 1085, 1072, 1085,
       1089, 1072],
      [1084, 1077, 1090, 1086, 1076, 32, 1087, 1077, 1088, 1077, 1082, 1083, 1102, 1095, 1077,
       1085, 1080, 1103, 32, 1101, 1084, 1086, 1094, 1080, 1086, 1085, 1072, 1083, 1100, 1085,
       1099, 1093, 32, 1089, 1086, 1089, 1090, 1086, 1103, 1085, 1080, 1081]]"

text \<open>Techniques, entry of type practical: sistemu Getting Things Done; tehniku Pomodoro; metod 3-2-1; tehniku edinoj zadachi; blokirovanie vremeni; pravilo dvuh minut; tehniku kontekstnyh spiskov; ezhenedelnyj obzor zadach; metod PARA dlya organizacii informacii; tehniku vyravnivaniya energii\<close>

definition techniques_practical :: "str list" where
  "techniques_practical =
     [[1089, 1080, 1089, 1090, 1077, 1084, 1091, 32, 71, 101, 116, 116, 105, 110, 103, 32, 84,
       104, 105, 110, 103, 115, 32, 68, 111, 110, 101],
      [1090, 1077, 1093, 1085, 1080, 1082, 1091, 32, 1055, 1086, 1084, 1086, 1076, 1086, 1088,
       1086],
      [1084, 1077, 1090, 1086, 1076, 32, 171, 51, 45, 50, 45, 49, 187],
      [1090, 1077, 1093, 1085, 1080, 1082, 1091, 32, 1077, 1076, 1080, 1085, 1086, 1081, 32, 1079,
       1072, 1076, 1072, 1095, 1080],
      [1073, 1083, 1086, 1082, 1080, 1088, 1086, 1074, 1072, 1085, 1080, 1077, 32, 1074, 1088,
       1077, 1084, 1077, 1085, 1080],
      [1087, 1088, 1072, 1074, 1080, 1083, 1086, 32, 1076, 1074, 1091, 1093, 32, 1084, 1080, 1085,
       1091, 1090],
      [1090, 1077, 1093, 1085, 1080, 1082, 1091, 32, 1082, 1086, 1085, 1090, 1077, 1082, 1089,
       1090, 1085, 1099, 1093, 32, 1089, 1087, 1080, 1089, 1082, 1086, 1074],
      [1077, 1078, 1077, 1085, 1077, 1076, 1077, 1083, 1100, 1085, 1099, 1081, 32, 1086, 1073,
       1079, 1086, 1088, 32, 1079, 1072, 1076, 1072, 1095],
      [1084, 1077, 1090, 1086, 1076, 32, 80, 65, 82, 65, 32, 1076, 1083, 1103, 32, 1086, 1088,
       1075, 1072, 1085, 1080, 1079, 1072, 1094, 1080, 1080, 32, 1080, 1085, 1092, 1086, 1088,
       1084, 1072, 1094, 1080, 1080],
      [1090, 1077, 1093, 1085, 1080, 1082, 1091, 32, 1074, 1099, 1088, 1072, 1074, 1085, 1080,
       1074, 1072, 1085, 1080, 1103, 32, 1101, 1085, 1077, 1088, 1075, 1080, 1080]]"

text \<open>Techniques, entry of type creative: tehniku sluchajnyh stimulov; metod shesti shlyap; tehniku tvorcheskih ogranichenij; metod mozgovogo shturma naoborot; praktiku tvorcheskih kombinacij; metod sinektiki; tehniku chto esli; metod SCAMPER; tehniku divergentnogo myshleniya; metod sluchajnyh associacij\<close>

definition techniques_creative :: "str list" where
  "techniques_creative =
     [[1090, 1077, 1093, 1085, 1080, 1082, 1091, 32, 1089, 1083, 1091, 1095, 1072, 1081, 1085,
       1099, 1093, 32, 1089, 1090, 1080, 1084, 1091, 1083, 1086, 1074],
      [1084, 1077, 1090, 1086, 1076, 32, 1096, 1077, 1089, 1090, 1080, 32, 1096, 1083, 1103, 1087],
      [1090, 1077, 1093, 1085, 1080, 1082, 1091, 32, 1090, 1074, 1086, 1088, 1095, 1077, 1089,
       1082, 1080, 1093, 32, 1086, 1075, 1088, 1072, 1085, 1080, 1095, 1077, 1085, 1080, 1081],
      [1084, 1077, 1090, 1086, 1076, 32, 1084, 1086, 1079, 1075, 1086, 1074, 1086, 1075, 1086, 32,
       1096, 1090, 1091, 1088, 1084, 1072, 32, 1085, 1072, 1086, 1073, 1086, 1088, 1086, 1090],
      [1087, 1088, 1072, 1082, 1090, 1080, 1082, 1091, 32, 1090, 1074, 1086, 1088, 1095, 1077,
       1089, 1082, 1080, 1093, 32, 1082, 1086, 1084, 1073, 1080, 1085, 1072, 1094, 1080, 1081],
      [1084, 1077, 1090, 1086, 1076, 32, 1089, 1080, 1085, 1077, 1082, 1090, 1080, 1082, 1080],
      [1090, 1077, 1093, 1085, 1080, 1082, 1091, 32, 39, 1095, 1090, 1086, 32, 1077, 1089, 1083,
       1080, 39],
      [1084, 1077, 1090, 1086, 1076, 32, 83, 67, 65, 77, 80, 69, 82],
      [1090, 1077, 1093, 1085, 1080, 1082, 1091, 32, 1076, 1080, 1074, 1077, 1088, 1075, 1077,
       1085, 1090, 1085, 1086, 1075, 1086, 32, 1084, 1099, 1096, 1083, 1077, 1085, 1080, 1103],
      [1084, 1077, 1090, 1086, 1076, 32, 1089, 1083, 1091, 1095, 1072, 1081, 1085, 1099, 1093, 32,
       1072, 1089, 1089, 1086, 1094, 1080, 1072, 1094, 1080, 1081]]"

text \<open>Techniques, entry of type analytical: tehniku dekompozicii slozhnyh problem; metod SWOT-analiza; tehniku kriterialnogo ranzhirovaniya; metodologiyu 5W1H; tehniku posledovatelnoj dekompozicii; priem proverki protivopolozhnyh gipotez; tehniku analiza kornevyh prichin; metod sistematicheskoj proverki faktov; priem postroeniya prichinno-sledstvennyh diagramm; metod ABC-analiza\<close>

definition techniques_analytical :: "str list" where
  "techniques_analytical =
     [[1090, 1077, 1093, 1085, 1080, 1082, 1091, 32, 1076, 1077, 1082, 1086, 1084, 1087, 1086,
       1079, 1080, 1094, 1080, 1080, 32, 1089, 1083, 1086, 1078, 1085, 1099, 1093, 32, 1087, 1088,
       1086, 1073, 1083, 1077, 1084],
      [1084, 1077, 1090, 1086, 1076, 32, 83, 87, 79, 84, 45, 1072, 1085, 1072, 1083, 1080, 1079,
       1072],
      [1090, 1077, 1093, 1085, 1080, 1082, 1091, 32, 1082, 1088, 1080, 1090, 1077, 1088, 1080,
       1072, 1083, 1100, 1085, 1086, 1075, 1086, 32, 1088, 1072, 1085, 1078, 1080, 1088, 1086,
       1074, 1072, 1085, 1080, 1103],
      [1084, 1077, 1090, 1086, 1076, 1086, 1083, 1086, 1075, 1080, 1102, 32, 53, 87, 49, 72],
      [1090, 1077, 1093, 1085, 1080, 1082, 1091, 32, 1087, 1086, 1089, 1083, 1077, 1076, 1086,
       1074, 1072, 1090, 1077, 1083, 1100, 1085, 1086, 1081, 32, 1076, 1077, 1082, 1086, 1084,
       1087, 1086, 1079, 1080, 1094, 1080, 1080],
      [1087, 1088, 1080, 1077, 1084, 32, 1087, 1088, 1086, 1074, 1077, 1088, 1082, 1080, 32, 1087,
       1088, 1086, 1090, 1080, 1074, 1086, 1087, 1086, 1083, 1086, 1078, 1085, 1099, 1093, 32,
       1075, 1080, 1087, 1086, 1090, 1077, 1079],
      [1090, 1077, 1093, 1085, 1080, 1082, 1091, 32, 1072, 1085, 1072, 1083, 1080, 1079, 1072, 32,
       1082, 1086, 1088, 1085, 1077, 1074, 1099, 1093, 32, 1087, 1088, 1080, 1095, 1080, 1085],
      [1084, 1077, 1090, 1086, 1076, 32, 1089, 1080, 1089, 1090, 1077, 1084, 1072, 1090, 1080,
       1095, 1077, 1089, 1082, 1086, 1081, 32, 1087, 1088, 1086, 1074, 1077, 1088, 1082, 1080, 32,
       1092, 1072, 1082, 1090, 1086, 1074],
      [1087, 1088, 1080, 1077, 1084, 32, 1087, 1086, 1089, 1090, 1088, 1086, 1077, 1085, 1080,
       1103, 32, 1087, 1088, 1080, 1095, 1080, 1085, 1085, 1086, 45, 1089, 1083, 1077, 1076, 1089,
       1090, 1074, 1077, 1085, 1085, 1099, 1093, 32, 1076, 1080, 1072, 1075, 1088, 1072, 1084,
       1084],
      [1084, 1077, 1090, 1086, 1076, 32, 65, 66, 67, 45, 1072, 1085, 1072, 1083, 1080, 1079, 1072]]"

text \<open>The dictionary \<^verbatim>\<open>techniques\<close> of \<^verbatim>\<open>generate_unique_advice\<close> (lines 1231-1267), in the order of the source.\<close>

definition techniques :: "(str \<times> str list) list" where
  "techniques =
     [(type_intellectual, techniques_intellectual),
      (type_emotional, techniques_emotional),
      (type_practical, techniques_practical),
      (type_creative, techniques_creative),
      (type_analytical, techniques_analytical)]"

text \<open>Contexts, entry of type intellectual: v processe obucheniya novomu; pri rabote so slozhnoj informaciej; pri podgotovke k vazhnoj prezentacii; vo vremya intellektualnogo zastoya; dlya uluchsheniya zapominaniya; pri analize slozhnyh problem; dlya razvitiya kriticheskogo myshleniya; pri rabote s abstraktnymi koncepciyami; dlya sistematizacii znanij; pri osvoenii novoj oblasti znanij\<close>

definition contexts_intellectual :: "str list" where
  "contexts_intellectual =
     [[1074, 32, 1087, 1088, 1086, 1094, 1077, 1089, 1089, 1077, 32, 1086, 1073, 1091, 1095, 1077,
       1085, 1080, 1103, 32, 1085, 1086, 1074, 1086, 1084, 1091],
      [1087, 1088, 1080, 32, 1088, 1072, 1073, 1086, 1090, 1077, 32, 1089, 1086, 32, 1089, 1083,
       1086, 1078, 1085, 1086, 1081, 32, 1080, 1085, 1092, 1086, 1088, 1084, 1072, 1094, 1080,
       1077, 1081],
      [1087, 1088, 1080, 32, 1087, 1086, 1076, 1075, 1086, 1090, 1086, 1074, 1082, 1077, 32, 1082,
       32, 1074, 1072, 1078, 1085, 1086, 1081, 32, 1087, 1088, 1077, 1079, 1077, 1085, 1090, 1072,
       1094, 1080, 1080],
      [1074, 1086, 32, 1074, 1088, 1077, 1084, 1103, 32, 1080, 1085, 1090, 1077, 1083, 1083, 1077,
       1082, 1090, 1091, 1072, 1083, 1100, 1085, 1086, 1075, 1086, 32, 1079, 1072, 1089, 1090,
       1086, 1103],
      [1076, 1083, 1103, 32, 1091, 1083, 1091, 1095, 1096, 1077, 1085, 1080, 1103, 32, 1079, 1072,
       1087, 1086, 1084, 1080, 1085, 1072, 1085, 1080, 1103],
      [1087, 1088, 1080, 32, 1072, 1085, 1072, 1083, 1080, 1079, 1077, 32, 1089, 1083, 1086, 1078,
       1085, 1099, 1093, 32, 1087, 1088, 1086, 1073, 1083, 1077, 1084],
      [1076, 1083, 1103, 32, 1088, 1072, 1079, 1074, 1080, 1090, 1080, 1103, 32, 1082, 1088, 1080,
       1090, 1080, 1095, 1077, 1089, 1082, 1086, 1075, 1086, 32, 1084, 1099, 1096, 1083, 1077,
       1085, 1080, 1103],
      [1087, 1088, 1080, 32, 1088, 1072, 1073, 1086, 1090, 1077, 32, 1089, 32, 1072, 1073, 1089,
       1090, 1088, 1072, 1082, 1090, 1085, 1099, 1084, 1080, 32, 1082, 1086, 1085, 1094, 1077,
       1087, 1094, 1080, 1103, 1084, 1080],
      [1076, 1083, 1103, 32, 1089, 1080, 1089, 1090, 1077, 1084, 1072, 1090, 1080, 1079, 1072,
       1094, 1080, 1080, 32, 1079, 1085, 1072, 1085, 1080, 1081],
      [1087, 1088, 1080, 32, 1086, 1089, 1074, 1086, 1077, 1085, 1080, 1080, 32, 1085, 1086, 1074,
       1086, 1081, 32, 1086, 1073, 1083, 1072, 1089, 1090, 1080, 32, 1079, 1085, 1072, 1085, 1080,
       1081]]"

text \<open>Contexts, entry of type emotional: v stressovyh situaciyah; pri obshchenii s slozhnymi lyudmi; kogda vy chuvstvuete emocionalnoe vygoranie; v momenty trevogi; dlya uluchsheniya otnoshenij s blizkimi; pri emocionalnyh perepadah; v situaciyah konflikta; dlya usileniya pozitivnyh emocij; vo vremya vazhnyh peregovorov; v periody emocionalnoj nestabilnosti\<close>

definition contexts_emotional :: "str list" where
  "contexts_emotional =
     [[1074, 32, 1089, 1090, 1088, 1077, 1089, 1089, 1086, 1074, 1099, 1093, 32, 1089, 1080, 1090,
       1091, 1072, 1094, 1080, 1103, 1093],
      [1087, 1088, 1080, 32, 1086, 1073, 1097, 1077, 1085, 1080, 1080, 32, 1089, 32, 1089, 1083,
       1086, 1078, 1085, 1099, 1084, 1080, 32, 1083, 1102, 1076, 1100, 1084, 1080],
      [1082, 1086, 1075, 1076, 1072, 32, 1074, 1099, 32, 1095, 1091, 1074, 1089, 1090, 1074, 1091,
       1077, 1090, 1077, 32, 1101, 1084, 1086, 1094, 1080, 1086, 1085, 1072, 1083, 1100, 1085,
       1086, 1077, 32, 1074, 1099, 1075, 1086, 1088, 1072, 1085, 1080, 1077],
      [1074, 32, 1084, 1086, 1084, 1077, 1085, 1090, 1099, 32, 1090, 1088, 1077, 1074, 1086, 1075,
       1080],
      [1076, 1083, 1103, 32, 1091, 1083, 1091, 1095, 1096, 1077, 1085, 1080, 1103, 32, 1086, 1090,
       1085, 1086, 1096, 1077, 1085, 1080, 1081, 32, 1089, 32, 1073, 1083, 1080, 1079, 1082, 1080,
       1084, 1080],
      [1087, 1088, 1080, 32, 1101, 1084, 1086, 1094, 1080, 1086, 1085, 1072, 1083, 1100, 1085,
       1099, 1093, 32, 1087, 1077, 1088, 1077, 1087, 1072, 1076, 1072, 1093],
      [1074, 32, 1089, 1080, 1090, 1091, 1072, 1094, 1080, 1103, 1093, 32, 1082, 1086, 1085, 1092,
       1083, 1080, 1082, 1090, 1072],
      [1076, 1083, 1103, 32, 1091, 1089, 1080, 1083, 1077, 1085, 1080, 1103, 32, 1087, 1086, 1079,
       1080, 1090, 1080, 1074, 1085, 1099, 1093, 32, 1101, 1084, 1086, 1094, 1080, 1081],
      [1074, 1086, 32, 1074, 1088, 1077, 1084, 1103, 32, 1074, 1072, 1078, 1085, 1099, 1093, 32,
       1087, 1077, 1088, 1077, 1075, 1086, 1074, 1086, 1088, 1086, 1074],
      [1074, 32, 1087, 1077, 1088, 1080, 1086, 1076, 1099, 32, 1101, 1084, 1086, 1094, 1080, 1086,
       1085, 1072, 1083, 1100, 1085, 1086, 1081, 32, 1085, 1077, 1089, 1090, 1072, 1073, 1080,
       1083, 1100, 1085, 1086, 1089, 1090, 1080]]"

text \<open>Contexts, entry of type practical: pri bolshom obeme zadach; v nachale rabochego dnya; pri rabote nad dolgosrochnymi proektami; kogda chuvstvuete prokrastinaciyu; pri planirovanii slozhnyh zadach; dlya povysheniya lichnoj effektivnosti; pri vnedrenii novyh privychek; pri upravlenii neskolkimi proektami; dlya dostizheniya balansa raboty i otdyha; pri optimizacii rabochih processov\<close>

definition contexts_practical :: "str list" where
  "contexts_practical =
     [[1087, 1088, 1080, 32, 1073, 1086, 1083, 1100, 1096, 1086, 1084, 32, 1086, 1073, 1098, 1077,
       1084, 1077, 32, 1079, 1072, 1076, 1072, 1095],
      [1074, 32, 1085, 1072, 1095, 1072, 1083, 1077, 32, 1088, 1072, 1073, 1086, 1095, 1077, 1075,
       1086, 32, 1076, 1085, 1103],
      [1087, 1088, 1080, 32, 1088, 1072, 1073, 1086, 1090, 1077, 32, 1085, 1072, 1076, 32, 1076,
       1086, 1083, 1075, 1086, 1089, 1088, 1086, 1095, 1085, 1099, 1084, 1080, 32, 1087, 1088,
       1086, 1077, 1082, 1090, 1072, 1084, 1080],
      [1082, 1086, 1075, 1076, 1072, 32, 1095, 1091, 1074, 1089, 1090, 1074, 1091, 1077, 1090,
       1077, 32, 1087, 1088, 1086, 1082, 1088, 1072, 1089, 1090, 1080, 1085, 1072, 1094, 1080,
       1102],
      [1087, 1088, 1080, 32, 1087, 1083, 1072, 1085, 1080, 1088, 1086, 1074, 1072, 1085, 1080,
       1080, 32, 1089, 1083, 1086, 1078, 1085, 1099, 1093, 32, 1079, 1072, 1076, 1072, 1095],
      [1076, 1083, 1103, 32, 1087, 1086, 1074, 1099, 1096, 1077, 1085, 1080, 1103, 32, 1083, 1080,
       1095, 1085, 1086, 1081, 32, 1101, 1092, 1092, 1077, 1082, 1090, 1080, 1074, 1085, 1086,
       1089, 1090, 1080],
      [1087, 1088, 1080, 32, 1074, 1085, 1077, 1076, 1088, 1077, 1085, 1080, 1080, 32, 1085, 1086,
       1074, 1099, 1093, 32, 1087, 1088, 1080, 1074, 1099, 1095, 1077, 1082],
      [1087, 1088, 1080, 32, 1091, 1087, 1088, 1072, 1074, 1083, 1077, 1085, 1080, 1080, 32, 1085,
       1077, 1089, 1082, 1086, 1083, 1100, 1082, 1080, 1084, 1080, 32, 1087, 1088, 1086, 1077,
       1082, 1090, 1072, 1084, 1080],
      [1076, 1083, 1103, 32, 1076, 1086, 1089, 1090, 1080, 1078, 1077, 1085, 1080, 1103, 32, 1073,
       1072, 1083, 1072, 1085, 1089, 1072, 32, 1088, 1072, 1073, 1086, 1090, 1099, 32, 1080, 32,
       1086, 1090, 1076, 1099, 1093, 1072],
      [1087, 1088, 1080, 32, 1086, 1087, 1090, 1080, 1084, 1080, 1079, 1072, 1094, 1080, 1080, 32,
       1088, 1072, 1073, 1086, 1095, 1080, 1093, 32, 1087, 1088, 1086, 1094, 1077, 1089, 1089,
       1086, 1074]]"

text \<open>Contexts, entry of type creative: pri rabote nad tvorcheskimi proektami; kogda nuzhny nestandartnye resheniya; v momenty tvorcheskogo bloka; pri generacii novyh idej; dlya razvitiya tvorcheskogo myshleniya; kogda nuzhno preodolet shablonnoe myshlenie; dlya nahozhdeniya novyh podhodov k starym problemam; pri razrabotke innovacij; v kollektivnom tvorcheskom processe; dlya rasshireniya granic myshleniya\<close>

definition contexts_creative :: "str list" where
  "contexts_creative =
     [[1087, 1088, 1080, 32, 1088, 1072, 1073, 1086, 1090, 1077, 32, 1085, 1072, 1076, 32, 1090,
       1074, 1086, 1088, 1095, 1077, 1089, 1082, 1080, 1084, 1080, 32, 1087, 1088, 1086, 1077,
       1082, 1090, 1072, 1084, 1080],
      [1082, 1086, 1075, 1076, 1072, 32, 1085, 1091, 1078, 1085, 1099, 32, 1085, 1077, 1089, 1090,
       1072, 1085, 1076, 1072, 1088, 1090, 1085, 1099, 1077, 32, 1088, 1077, 1096, 1077, 1085,
       1080, 1103],
      [1074, 32, 1084, 1086, 1084, 1077, 1085, 1090, 1099, 32, 1090, 1074, 1086, 1088, 1095, 1077,
       1089, 1082, 1086, 1075, 1086, 32, 1073, 1083, 1086, 1082, 1072],
      [1087, 1088, 1080, 32, 1075, 1077, 1085, 1077, 1088, 1072, 1094, 1080, 1080, 32, 1085, 1086,
       1074, 1099, 1093, 32, 1080, 1076, 1077, 1081],
      [1076, 1083, 1103, 32, 1088, 1072, 1079, 1074, 1080, 1090, 1080, 1103, 32, 1090, 1074, 1086,
       1088, 1095, 1077, 1089, 1082, 1086, 1075, 1086, 32, 1084, 1099, 1096, 1083, 1077, 1085,
       1080, 1103],
      [1082, 1086, 1075, 1076, 1072, 32, 1085, 1091, 1078, 1085, 1086, 32, 1087, 1088, 1077, 1086,
       1076, 1086, 1083, 1077, 1090, 1100, 32, 1096, 1072, 1073, 1083, 1086, 1085, 1085, 1086,
       1077, 32, 1084, 1099, 1096, 1083, 1077, 1085, 1080, 1077],
      [1076, 1083, 1103, 32, 1085, 1072, 1093, 1086, 1078, 1076, 1077, 1085, 1080, 1103, 32, 1085,
       1086, 1074, 1099, 1093, 32, 1087, 1086, 1076, 1093, 1086, 1076, 1086, 1074, 32, 1082, 32,
       1089, 1090, 1072, 1088, 1099, 1084, 32, 1087, 1088, 1086, 1073, 1083, 1077, 1084, 1072,
       1084],
      [1087, 1088, 1080, 32, 1088, 1072, 1079, 1088, 1072, 1073, 1086, 1090, 1082, 1077, 32, 1080,
       1085, 1085, 1086, 1074, 1072, 1094, 1080, 1081],
      [1074, 32, 1082, 1086, 1083, 1083, 1077, 1082, 1090, 1080, 1074, 1085, 1086, 1084, 32, 1090,
       1074, 1086, 1088, 1095, 1077, 1089, 1082, 1086, 1084, 32, 1087, 1088, 1086, 1094, 1077,
       1089, 1089, 1077],
      [1076, 1083, 1103, 32, 1088, 1072, 1089, 1096, 1080, 1088, 1077, 1085, 1080, 1103, 32, 1075,
       1088, 1072, 1085, 1080, 1094, 32, 1084, 1099, 1096, 1083, 1077, 1085, 1080, 1103]]"

text \<open>Contexts, entry of type analytical: pri analize slozhnyh dannyh; kogda nuzhno prinyat obosnovannoe reshenie; pri neobhodimosti obektivnoj ocenki; vo vremya sbora i analiza informacii; dlya vyyavleniya skrytyh zakonomernostej; pri razrabotke analiticheskih modelej; dlya postroeniya prognozov; pri validacii gipotez; v situaciyah, trebuyushchih tochnosti i obektivnosti; pri reshenii mnogofaktornyh zadach\<close>

definition contexts_analytical :: "str list" where
  "contexts_analytical =
     [[1087, 1088, 1080, 32, 1072, 1085, 1072, 1083, 1080, 1079, 1077, 32, 1089, 1083, 1086, 1078,
       1085, 1099, 1093, 32, 1076, 1072, 1085, 1085, 1099, 1093],
      [1082, 1086, 1075, 1076, 1072, 32, 1085, 1091, 1078, 1085, 1086, 32, 1087, 1088, 1080, 1085,
       1103, 1090, 1100, 32, 1086, 1073, 1086, 1089, 1085, 1086, 1074, 1072, 1085, 1085, 1086,
       1077, 32, 1088, 1077, 1096, 1077, 1085, 1080, 1077],
      [1087, 1088, 1080, 32, 1085, 1077, 1086, 1073, 1093, 1086, 1076, 1080, 1084, 1086, 1089,
       1090, 1080, 32, 1086, 1073, 1098, 1077, 1082, 1090, 1080, 1074, 1085, 1086, 1081, 32, 1086,
       1094, 1077, 1085, 1082, 1080],
      [1074, 1086, 32, 1074, 1088, 1077, 1084, 1103, 32, 1089, 1073, 1086, 1088, 1072, 32, 1080,
       32, 1072, 1085, 1072, 1083, 1080, 1079, 1072, 32, 1080, 1085, 1092, 1086, 1088, 1084, 1072,
       1094, 1080, 1080],
      [1076, 1083, 1103, 32, 1074, 1099, 1103, 1074, 1083, 1077, 1085, 1080, 1103, 32, 1089, 1082,
       1088, 1099, 1090, 1099, 1093, 32, 1079, 1072, 1082, 1086, 1085, 1086, 1084, 1077, 1088,
       1085, 1086, 1089, 1090, 1077, 1081],
      [1087, 1088, 1080, 32, 1088, 1072, 1079, 1088, 1072, 1073, 1086, 1090, 1082, 1077, 32, 1072,
       1085, 1072, 1083, 1080, 1090, 1080, 1095, 1077, 1089, 1082, 1080, 1093, 32, 1084, 1086,
       1076, 1077, 1083, 1077, 1081],
      [1076, 1083, 1103, 32, 1087, 1086, 1089, 1090, 1088, 1086, 1077, 1085, 1080, 1103, 32, 1087,
       1088, 1086, 1075, 1085, 1086, 1079, 1086, 1074],
      [1087, 1088, 1080, 32, 1074, 1072, 1083, 1080, 1076, 1072, 1094, 1080, 1080, 32, 1075, 1080,
       1087, 1086, 1090, 1077, 1079],
      [1074, 32, 1089, 1080, 1090, 1091, 1072, 1094, 1080, 1103, 1093, 44, 32, 1090, 1088, 1077,
       1073, 1091, 1102, 1097, 1080, 1093, 32, 1090, 1086, 1095, 1085, 1086, 1089, 1090, 1080, 32,
       1080, 32, 1086, 1073, 1098, 1077, 1082, 1090, 1080, 1074, 1085, 1086, 1089, 1090, 1080],
      [1087, 1088, 1080, 32, 1088, 1077, 1096, 1077, 1085, 1080, 1080, 32, 1084, 1085, 1086, 1075,
       1086, 1092, 1072, 1082, 1090, 1086, 1088, 1085, 1099, 1093, 32, 1079, 1072, 1076, 1072,
       1095]]"

text \<open>The dictionary \<^verbatim>\<open>contexts\<close> of \<^verbatim>\<open>generate_unique_advice\<close> (lines 1270-1306), in the order of the source.\<close>

definition contexts :: "(str \<times> str list) list" where
  "contexts =
     [(type_intellectual, contexts_intellectual),
      (type_emotional, contexts_emotional),
      (type_practical, contexts_practical),
      (type_creative, contexts_creative),
      (type_analytical, contexts_analytical)]"

text \<open>Results, entry of type intellectual: glubinu ponimaniya; dolgosrochnoe zapominanie; analiticheskie sposobnosti; kognitivnuyu gibkost; kriticheskoe myshlenie; sposobnost k sintezu informacii; intellektualnuyu vynoslivost; kachestvo prinimaemyh reshenij; skorost obrabotki informacii; konceptualnoe myshlenie\<close>

definition results_intellectual :: "str list" where
  "results_intellectual =
     [[1075, 1083, 1091, 1073, 1080, 1085, 1091, 32, 1087, 1086, 1085, 1080, 1084, 1072, 1085,
       1080, 1103],
      [1076, 1086, 1083, 1075, 1086, 1089, 1088, 1086, 1095, 1085, 1086, 1077, 32, 1079, 1072,
       1087, 1086, 1084, 1080, 1085, 1072, 1085, 1080, 1077],
      [1072, 1085, 1072, 1083, 1080, 1090, 1080, 1095, 1077, 1089, 1082, 1080, 1077, 32, 1089,
       1087, 1086, 1089, 1086, 1073, 1085, 1086, 1089, 1090, 1080],
      [1082, 1086, 1075, 1085, 1080, 1090, 1080, 1074, 1085, 1091, 1102, 32, 1075, 1080, 1073,
       1082, 1086, 1089, 1090, 1100],
      [1082, 1088, 1080, 1090, 1080, 1095, 1077, 1089, 1082, 1086, 1077, 32, 1084, 1099, 1096,
       1083, 1077, 1085, 1080, 1077],
      [1089, 1087, 1086, 1089, 1086, 1073, 1085, 1086, 1089, 1090, 1100, 32, 1082, 32, 1089, 1080,
       1085, 1090, 1077, 1079, 1091, 32, 1080, 1085, 1092, 1086, 1088, 1084, 1072, 1094, 1080,
       1080],
      [1080, 1085, 1090, 1077, 1083, 1083, 1077, 1082, 1090, 1091, 1072, 1083, 1100, 1085, 1091,
       1102, 32, 1074, 1099, 1085, 1086, 1089, 1083, 1080, 1074, 1086, 1089, 1090, 1100],
      [1082, 1072, 1095, 1077, 1089, 1090, 1074, 1086, 32, 1087, 1088, 1080, 1085, 1080, 1084,
       1072, 1077, 1084, 1099, 1093, 32, 1088, 1077, 1096, 1077, 1085, 1080, 1081],
      [1089, 1082, 1086, 1088, 1086, 1089, 1090, 1100, 32, 1086, 1073, 1088, 1072, 1073, 1086,
       1090, 1082, 1080, 32, 1080, 1085, 1092, 1086, 1088, 1084, 1072, 1094, 1080, 1080],
      [1082, 1086, 1085, 1094, 1077, 1087, 1090, 1091, 1072, 1083, 1100, 1085, 1086, 1077, 32,
       1084, 1099, 1096, 1083, 1077, 1085, 1080, 1077]]"

text \<open>Results, entry of type emotional: emocionalnuyu ustojchivost; glubinu empatii; emocionalnyj intellekt; sposobnost k samosostradaniyu; kachestvo otnoshenij; emocionalnoe blagopoluchie; sposobnost k regulyacii emocij; osoznannost v otnosheniyah; vnutrennyuyu garmoniyu; rezilientnost\<close>

definition results_emotional :: "str list" where
  "results_emotional =
     [[1101, 1084, 1086, 1094, 1080, 1086, 1085, 1072, 1083, 1100, 1085, 1091, 1102, 32, 1091,
       1089, 1090, 1086, 1081, 1095, 1080, 1074, 1086, 1089, 1090, 1100],
      [1075, 1083, 1091, 1073, 1080, 1085, 1091, 32, 1101, 1084, 1087, 1072, 1090, 1080, 1080],
      [1101, 1084, 1086, 1094, 1080, 1086, 1085, 1072, 1083, 1100, 1085, 1099, 1081, 32, 1080,
       1085, 1090, 1077, 1083, 1083, 1077, 1082, 1090],
      [1089, 1087, 1086, 1089, 1086, 1073, 1085, 1086, 1089, 1090, 1100, 32, 1082, 32, 1089, 1072,
       1084, 1086, 1089, 1086, 1089, 1090, 1088, 1072, 1076, 1072, 1085, 1080, 1102],
      [1082, 1072, 1095, 1077, 1089, 1090, 1074, 1086, 32, 1086, 1090, 1085, 1086, 1096, 1077,
       1085, 1080, 1081],
      [1101, 1084, 1086, 1094, 1080, 1086, 1085, 1072, 1083, 1100, 1085, 1086, 1077, 32, 1073,
       1083, 1072, 1075, 1086, 1087, 1086, 1083, 1091, 1095, 1080, 1077],
      [1089, 1087, 1086, 1089, 1086, 1073, 1085, 1086, 1089, 1090, 1100, 32, 1082, 32, 1088, 1077,
       1075, 1091, 1083, 1103, 1094, 1080, 1080, 32, 1101, 1084, 1086, 1094, 1080, 1081],
      [1086, 1089, 1086, 1079, 1085, 1072, 1085, 1085, 1086, 1089, 1090, 1100, 32, 1074, 32, 1086,
       1090, 1085, 1086, 1096, 1077, 1085, 1080, 1103, 1093],
      [1074, 1085, 1091, 1090, 1088, 1077, 1085, 1085, 1102, 1102, 32, 1075, 1072, 1088, 1084,
       1086, 1085, 1080, 1102],
      [1088, 1077, 1079, 1080, 1083, 1080, 1077, 1085, 1090, 1085, 1086, 1089, 1090, 1100]]"

text \<open>Results, entry of type practical: lichnuyu produktivnost; effektivnost rabochih processov; dostizhenie celej; upravlenie vremenem; zhiznennyj balans; organizacionnye navyki; sposobnost dovodit dela do konca; kachestvo rezultatov; stabilnost rabochih privychek; uverennost v prinyatii reshenij\<close>

definition results_practical :: "str list" where
  "results_practical =
     [[1083, 1080, 1095, 1085, 1091, 1102, 32, 1087, 1088, 1086, 1076, 1091, 1082, 1090, 1080,
       1074, 1085, 1086, 1089, 1090, 1100],
      [1101, 1092, 1092, 1077, 1082, 1090, 1080, 1074, 1085, 1086, 1089, 1090, 1100, 32, 1088,
       1072, 1073, 1086, 1095, 1080, 1093, 32, 1087, 1088, 1086, 1094, 1077, 1089, 1089, 1086,
       1074],
      [1076, 1086, 1089, 1090, 1080, 1078, 1077, 1085, 1080, 1077, 32, 1094, 1077, 1083, 1077,
       1081],
      [1091, 1087, 1088, 1072, 1074, 1083, 1077, 1085, 1080, 1077, 32, 1074, 1088, 1077, 1084,
       1077, 1085, 1077, 1084],
      [1078, 1080, 1079, 1085, 1077, 1085, 1085, 1099, 1081, 32, 1073, 1072, 1083, 1072, 1085,
       1089],
      [1086, 1088, 1075, 1072, 1085, 1080, 1079, 1072, 1094, 1080, 1086, 1085, 1085, 1099, 1077,
       32, 1085, 1072, 1074, 1099, 1082, 1080],
      [1089, 1087, 1086, 1089, 1086, 1073, 1085, 1086, 1089, 1090, 1100, 32, 1076, 1086, 1074,
       1086, 1076, 1080, 1090, 1100, 32, 1076, 1077, 1083, 1072, 32, 1076, 1086, 32, 1082, 1086,
       1085, 1094, 1072],
      [1082, 1072, 1095, 1077, 1089, 1090, 1074, 1086, 32, 1088, 1077, 1079, 1091, 1083, 1100,
       1090, 1072, 1090, 1086, 1074],
      [1089, 1090, 1072, 1073, 1080, 1083, 1100, 1085, 1086, 1089, 1090, 1100, 32, 1088, 1072,
       1073, 1086, 1095, 1080, 1093, 32, 1087, 1088, 1080, 1074, 1099, 1095, 1077, 1082],
      [1091, 1074, 1077, 1088, 1077, 1085, 1085, 1086, 1089, 1090, 1100, 32, 1074, 32, 1087, 1088,
       1080, 1085, 1103, 1090, 1080, 1080, 32, 1088, 1077, 1096, 1077, 1085, 1080, 1081]]"

text \<open>Results, entry of type creative: tvorcheskuyu produktivnost; originalnost idej; sposobnost k nestandartnomu myshleniyu; innovacionnyj potencial; tvorcheskuyu uverennost; kreativnoe reshenie problem; gibkost myshleniya; sposobnost videt vozmozhnosti; tvorcheskuyu smelost; rasshirenie tvorcheskih gorizontov\<close>

definition results_creative :: "str list" where
  "results_creative =
     [[1090, 1074, 1086, 1088, 1095, 1077, 1089, 1082, 1091, 1102, 32, 1087, 1088, 1086, 1076,
       1091, 1082, 1090, 1080, 1074, 1085, 1086, 1089, 1090, 1100],
      [1086, 1088, 1080, 1075, 1080, 1085, 1072, 1083, 1100, 1085, 1086, 1089, 1090, 1100, 32,
       1080, 1076, 1077, 1081],
      [1089, 1087, 1086, 1089, 1086, 1073, 1085, 1086, 1089, 1090, 1100, 32, 1082, 32, 1085, 1077,
       1089, 1090, 1072, 1085, 1076, 1072, 1088, 1090, 1085, 1086, 1084, 1091, 32, 1084, 1099,
       1096, 1083, 1077, 1085, 1080, 1102],
      [1080, 1085, 1085, 1086, 1074, 1072, 1094, 1080, 1086, 1085, 1085, 1099, 1081, 32, 1087,
       1086, 1090, 1077, 1085, 1094, 1080, 1072, 1083],
      [1090, 1074, 1086, 1088, 1095, 1077, 1089, 1082, 1091, 1102, 32, 1091, 1074, 1077, 1088,
       1077, 1085, 1085, 1086, 1089, 1090, 1100],
      [1082, 1088, 1077, 1072, 1090, 1080, 1074, 1085, 1086, 1077, 32, 1088, 1077, 1096, 1077,
       1085, 1080, 1077, 32, 1087, 1088, 1086, 1073, 1083, 1077, 1084],
      [1075, 1080, 1073, 1082, 1086, 1089, 1090, 1100, 32, 1084, 1099, 1096, 1083, 1077, 1085,
       1080, 1103],
      [1089, 1087, 1086, 1089, 1086, 1073, 1085, 1086, 1089, 1090, 1100, 32, 1074, 1080, 1076,
       1077, 1090, 1100, 32, 1074, 1086, 1079, 1084, 1086, 1078, 1085, 1086, 1089, 1090, 1080],
      [1090, 1074, 1086, 1088, 1095, 1077, 1089, 1082, 1091, 1102, 32, 1089, 1084, 1077, 1083,
       1086, 1089, 1090, 1100],
      [1088, 1072, 1089, 1096, 1080, 1088, 1077, 1085, 1080, 1077, 32, 1090, 1074, 1086, 1088,
       1095, 1077, 1089, 1082, 1080, 1093, 32, 1075, 1086, 1088, 1080, 1079, 1086, 1085, 1090,
       1086, 1074]]"

text \<open>Results, entry of type analytical: tochnost analiza; obektivnost suzhdenij; glubinu issledovaniya; obosnovannost vyvodov; effektivnost sistemnogo podhoda; sposobnost vyyavlyat zakonomernosti; kachestvo analiticheskih modelej; metodologicheskuyu tochnost; dostovernost rezultatov; sposobnost k kompleksnoj ocenke\<close>

definition results_analytical :: "str list" where
  "results_analytical =
     [[1090, 1086, 1095, 1085, 1086, 1089, 1090, 1100, 32, 1072, 1085, 1072, 1083, 1080, 1079,
       1072],
      [1086, 1073, 1098, 1077, 1082, 1090, 1080, 1074, 1085, 1086, 1089, 1090, 1100, 32, 1089,
       1091, 1078, 1076, 1077, 1085, 1080, 1081],
      [1075, 1083, 1091, 1073, 1080, 1085, 1091, 32, 1080, 1089, 1089, 1083, 1077, 1076, 1086,
       1074, 1072, 1085, 1080, 1103],
      [1086, 1073, 1086, 1089, 1085, 1086, 1074, 1072, 1085, 1085, 1086, 1089, 1090, 1100, 32,
       1074, 1099, 1074, 1086, 1076, 1086, 1074],
      [1101, 1092, 1092, 1077, 1082, 1090, 1080, 1074, 1085, 1086, 1089, 1090, 1100, 32, 1089,
       1080, 1089, 1090, 1077, 1084, 1085, 1086, 1075, 1086, 32, 1087, 1086, 1076, 1093, 1086,
       1076, 1072],
      [1089, 1087, 1086, 1089, 1086, 1073, 1085, 1086, 1089, 1090, 1100, 32, 1074, 1099, 1103,
       1074, 1083, 1103, 1090, 1100, 32, 1079, 1072, 1082, 1086, 1085, 1086, 1084, 1077, 1088,
       1085, 1086, 1089, 1090, 1080],
      [1082, 1072, 1095, 1077, 1089, 1090, 1074, 1086, 32, 1072, 1085, 1072, 1083, 1080, 1090,
       1080, 1095, 1077, 1089, 1082, 1080, 1093, 32, 1084, 1086, 1076, 1077, 1083, 1077, 1081],
      [1084, 1077, 1090, 1086, 1076, 1086, 1083, 1086, 1075, 1080, 1095, 1077, 1089, 1082, 1091,
       1102, 32, 1090, 1086, 1095, 1085, 1086, 1089, 1090, 1100],
      [1076, 1086, 1089, 1090, 1086, 1074, 1077, 1088, 1085, 1086, 1089, 1090, 1100, 32, 1088,
       1077, 1079, 1091, 1083, 1100, 1090, 1072, 1090, 1086, 1074],
      [1089, 1087, 1086, 1089, 1086, 1073, 1085, 1086, 1089, 1090, 1100, 32, 1082, 32, 1082, 1086,
       1084, 1087, 1083, 1077, 1082, 1089, 1085, 1086, 1081, 32, 1086, 1094, 1077, 1085, 1082,
       1077]]"

text \<open>The dictionary \<^verbatim>\<open>results\<close> of \<^verbatim>\<open>generate_unique_advice\<close> (lines 1309-1345), in the order of the source.\<close>

definition results :: "(str \<times> str list) list" where
  "results =
     [(type_intellectual, results_intellectual),
      (type_emotional, results_emotional),
      (type_practical, results_practical),
      (type_creative, results_creative),
      (type_analytical, results_analytical)]"

text \<open>The universal aspect (line 1214): samorazvitiyu\<close>

definition fallback_aspect :: str where
  "fallback_aspect =
     [1089, 1072, 1084, 1086, 1088, 1072, 1079, 1074, 1080, 1090, 1080, 1102]"

text \<open>The emoji of last resort (line 1227): (U+1F4A1)\<close>

definition fallback_emoji :: str where
  "fallback_emoji =
     [128161]"

text \<open>The technique of last resort (line 1351): praktiku samorazvitiya\<close>

definition fallback_technique :: str where
  "fallback_technique =
     [1087, 1088, 1072, 1082, 1090, 1080, 1082, 1091, 32, 1089, 1072, 1084, 1086, 1088, 1072,
     1079, 1074, 1080, 1090, 1080, 1103]"

text \<open>The context of last resort (line 1354): v povsednevnoj zhizni\<close>

definition fallback_context :: str where
  "fallback_context =
     [1074, 32, 1087, 1086, 1074, 1089, 1077, 1076, 1085, 1077, 1074, 1085, 1086, 1081, 32, 1078,
     1080, 1079, 1085, 1080]"

text \<open>The result of last resort (line 1357): effektivnost\<close>

definition fallback_result :: str where
  "fallback_result =
     [1101, 1092, 1092, 1077, 1082, 1090, 1080, 1074, 1085, 1086, 1089, 1090, 1100]"

text \<open>Template text after the emoji (line 1361):  Uchityvaya vashu sklonnost k \<close>

definition advice_part1 :: str where
  "advice_part1 =
     [32, 1059, 1095, 1080, 1090, 1099, 1074, 1072, 1103, 32, 1074, 1072, 1096, 1091, 32, 1089,
     1082, 1083, 1086, 1085, 1085, 1086, 1089, 1090, 1100, 32, 1082, 32]"

text \<open>Template text after the aspect: , poprobujte \<close>

definition advice_part2 :: str where
  "advice_part2 =
     [44, 32, 1087, 1086, 1087, 1088, 1086, 1073, 1091, 1081, 1090, 1077, 32]"

text \<open>Template text after the technique: , chtoby usilit \<close>

definition advice_part3 :: str where
  "advice_part3 =
     [44, 32, 1095, 1090, 1086, 1073, 1099, 32, 1091, 1089, 1080, 1083, 1080, 1090, 1100, 32]"

text \<open>Template text after the result: . Eto osobenno polezno \<close>

definition advice_part4 :: str where
  "advice_part4 =
     [46, 32, 1069, 1090, 1086, 32, 1086, 1089, 1086, 1073, 1077, 1085, 1085, 1086, 32, 1087,
     1086, 1083, 1077, 1079, 1085, 1086, 32]"

text \<open>Template text after the context: .\<close>

definition advice_part5 :: str where
  "advice_part5 =
     [46]"

section \<open>The option parser of \<^verbatim>\<open>process_survey_answer\<close>\<close>

text \<open>
  Lines 322-345. For each letter, in the order A, B, C, D, the \<^verbatim>\<open>if\<close>/\<^verbatim>\<open>elif\<close>
  chain tries four tests; each of them sets \<^verbatim>\<open>option = opt\<close> and leaves the loop.
\<close>

datatype rule = Colon_prefix | Space_prefix | Exact_letter | Isolated_token

fun rule_holds :: "rule \<Rightarrow> str \<Rightarrow> str \<Rightarrow> bool" where
  "rule_holds Colon_prefix text opt = startswith text (opt @ ascii '':'')"
| "rule_holds Space_prefix text opt = startswith text (opt @ ascii '' '')"
| "rule_holds Exact_letter text opt = (upper text = opt)"
| "rule_holds Isolated_token text opt =
     contains (ascii '' '' @ upper text @ ascii '' '') (ascii '' '' @ opt @ ascii '' '')"

text \<open>The chain for one letter: the first test that holds, if any.\<close>

definition match_option :: "str \<Rightarrow> str \<Rightarrow> rule option" where
  "match_option text opt =
     (if rule_holds Colon_prefix text opt then Some Colon_prefix
      else if rule_holds Space_prefix text opt then Some Space_prefix
      else if rule_holds Exact_letter text opt then Some Exact_letter
      else if rule_holds Isolated_token text opt then Some Isolated_token
      else None)"

text \<open>The loop over the letters, with its \<^verbatim>\<open>break\<close>.\<close>

fun find_option :: "str list \<Rightarrow> str \<Rightarrow> str option" where
  "find_option [] text = None"
| "find_option (opt # opts) text =
     (case match_option text opt of
        Some r \<Rightarrow> Some opt
      | None \<Rightarrow> find_option opts text)"

definition option_letters :: "str list" where
  "option_letters = [ascii ''A'', ascii ''B'', ascii ''C'', ascii ''D'']"

definition parse_option :: "str \<Rightarrow> str option" where
  "parse_option text = find_option option_letters text"

section \<open>The question catalog and the collaborators\<close>

text \<open>
  A question is a dictionary with the keys \<^verbatim>\<open>id\<close>, \<^verbatim>\<open>text\<close>,
  \<^verbatim>\<open>options\<close> and \<^verbatim>\<open>interpretations\<close>; the last two are dictionaries from an
  option letter to a text, kept here in their insertion order.
\<close>

record question =
  qid :: str
  qtext :: str
  options :: "(str \<times> str) list"
  interpretations :: "(str \<times> str) list"

type_synonym answer_set = "(str \<times> str) list"

text \<open>
  What \<^verbatim>\<open>generate_profile\<close> can do: raise, or return a dictionary in which the key
  \<^verbatim>\<open>details\<close> is present or not.
\<close>

datatype profile_result = Generation_raises | Profile_data "str option"

text \<open>
  The modules \<^verbatim>\<open>questions\<close> and \<^verbatim>\<open>profile_generator\<close> are imported by
  the handler and are not part of it, so their functions are parameters of the model.
  \<open>get_all_vasini_questions\<close> is \<open>None\<close> when the call raises (lines 201-208).
\<close>

record collaborators =
  get_demo_questions :: "question list"
  get_all_vasini_questions :: "question list option"
  get_personality_type_from_answers :: "answer_set \<Rightarrow> (str \<times> nat) list \<times> str \<times> str"
  generate_profile :: "answer_set \<Rightarrow> profile_result"

section \<open>The session store\<close>

text \<open>
  The data dictionary of the \<^verbatim>\<open>FSMContext\<close>: a field is \<open>None\<close> while its key is
  absent, which is what \<^verbatim>\<open>data.get(key, default)\<close> asks. \<^verbatim>\<open>personality_type\<close>
  can be present with the value \<^verbatim>\<open>None\<close> (line 140), hence the second option.
  The store hands out values: what a handler changes reaches the store through
  \<^verbatim>\<open>update_data\<close>, \<^verbatim>\<open>set_state\<close> and \<^verbatim>\<open>clear\<close> only.
\<close>

record user_data =
  question_index :: "nat option"
  question_type :: "str option"
  answers :: "answer_set option"
  is_demo_questions :: "bool option"
  waiting_for_vasini_confirmation :: "bool option"
  profile_completed :: "bool option"
  profile_details :: "str option"
  profile_text :: "str option"
  personality_type :: "str option option"
  secondary_type :: "str option"
  type_counts :: "(str \<times> nat) list option"
  used_advices :: "str list option"

definition empty_data :: user_data where
  "empty_data =
     \<lparr>question_index = None, question_type = None, answers = None,
      is_demo_questions = None, waiting_for_vasini_confirmation = None,
      profile_completed = None, profile_details = None, profile_text = None,
      personality_type = None, secondary_type = None, type_counts = None,
      used_advices = None\<rparr>"

datatype fsm_state = Answering_questions | Viewing

record session =
  state :: "fsm_state option"
  data :: user_data

text \<open>\<^verbatim>\<open>state.clear()\<close>: no state, and an empty data dictionary.\<close>

definition clear :: "session \<Rightarrow> session" where
  "clear s = \<lparr>state = None, data = empty_data\<rparr>"

text \<open>\<^verbatim>\<open>data.get(key, default)\<close>.\<close>

definition get_or :: "'a option \<Rightarrow> 'a \<Rightarrow> 'a" where
  "get_or v dflt = (case v of None \<Rightarrow> dflt | Some x \<Rightarrow> x)"

text \<open>\<^verbatim>\<open>xs[i]\<close> for an index that is never negative.\<close>

definition get_item :: "'a list \<Rightarrow> nat \<Rightarrow> py_error + 'a" where
  "get_item xs i = (if i < length xs then Inr (xs ! i) else Inl IndexError)"

section \<open>What a handler sends\<close>

text \<open>
  The calls a handler makes on the transport and on the logger, in their order. The fixed
  Russian texts of the messages are named by the constructor; what varies is an argument.
  A question of the inventory is sent with a keyboard of one button per option, labelled
  \<^verbatim>\<open>f"{option}: {text}"\<close>, and the cancel button. The calls of
  \<^verbatim>\<open>logger.info\<close> are left out.
\<close>

datatype event =
    Survey_cancelled
  | No_active_survey
  | Overwrite_warning
  | Survey_intro
  | First_question str
  | Demo_question nat nat str
  | Vasini_intro
  | Vasini_question nat str "str list"
  | Choose_again nat str "str list"
  | Interpretation str
  | Typing
  | Generating_profile
  | Delete_message
  | Profile_message str bool
  | Profile_not_found
  | Back_to_menu
  | Generation_failed
  | Menu_after_failure
  | Advice_message str
  | What_next
  | Callback_answer
  | Profile_reset_done
  | No_profile_yet
  | Main_menu
  | Survey_needed_for_advice
  | Log_warning
  | Log_error

definition keyboard_of :: "question \<Rightarrow> str list" where
  "keyboard_of q = map (\<lambda>(opt, t). opt @ ascii '': '' @ t) (options q) @ [cancel_text]"

section \<open>Splitting a long profile\<close>

text \<open>
  The same loop stands in \<^verbatim>\<open>complete_survey\<close> (lines 507-521),
  \<^verbatim>\<open>show_profile_details\<close> (693-707), \<^verbatim>\<open>view_profile_callback\<close> (813-827)
  and \<^verbatim>\<open>command_profile\<close> (912-926). \<open>split_loop\<close> is the \<^verbatim>\<open>for\<close> loop over
  the lines, with the list \<^verbatim>\<open>parts\<close> and the string \<^verbatim>\<open>current_part\<close> as its state.
\<close>

definition max_message_length :: nat where
  "max_message_length = 4000"

fun split_loop :: "str list \<Rightarrow> str list \<Rightarrow> str \<Rightarrow> str list \<times> str" where
  "split_loop [] parts current_part = (parts, current_part)"
| "split_loop (line # lines) parts current_part =
     (if length current_part + length line + 1 \<le> max_message_length
      then split_loop lines parts (current_part @ line @ [newline])
      else split_loop lines (parts @ [current_part]) (line @ [newline]))"

definition split_profile :: "str \<Rightarrow> str list" where
  "split_profile details =
     (case split_loop (split_lines details) [] [] of
        (parts, current_part) \<Rightarrow>
          if current_part \<noteq> [] then parts @ [current_part] else parts)"

text \<open>The texts of the messages in which a profile is sent.\<close>

definition profile_chunks :: "str \<Rightarrow> str list" where
  "profile_chunks details =
     (if length details > max_message_length then split_profile details else [details])"

text \<open>The buttons go with the last part only (lines 524-543).\<close>

definition send_profile :: "str \<Rightarrow> event list" where
  "send_profile details =
     (if length details > max_message_length
      then (let parts = split_profile details
            in map (\<lambda>(i, part). Profile_message part (i = length parts - 1))
                 (enumerate 0 parts))
      else [Profile_message details True])"

section \<open>The survey handlers\<close>

subsection \<open>\<^verbatim>\<open>complete_survey\<close> (lines 443-571)\<close>

text \<open>
  The classification stands before the \<^verbatim>\<open>try\<close>. Inside it, the profile is
  requested, the state is reset and the results are stored; then the profile is sent.
  The \<^verbatim>\<open>except\<close> branch reports the failure and clears the session. The calls on
  the transport are taken to succeed.
\<close>

definition complete_survey :: "collaborators \<Rightarrow> answer_set \<Rightarrow> session \<Rightarrow> session \<times> event list" where
  "complete_survey env answers' s =
     (case get_personality_type_from_answers env answers' of
        (type_counts', primary_type, secondary_type') \<Rightarrow>
          (case generate_profile env answers' of
             Profile_data details \<Rightarrow>
               (let detailed_profile = get_or details []
                in (s\<lparr>state := None,
                      data := (data s)\<lparr>answers := Some answers',
                                        profile_completed := Some True,
                                        profile_details := Some detailed_profile,
                                        profile_text := Some detailed_profile,
                                        personality_type := Some (Some primary_type),
                                        secondary_type := Some secondary_type',
                                        type_counts := Some type_counts'\<rparr>\<rparr>,
                    [Typing, Generating_profile, Delete_message]
                      @ send_profile detailed_profile @ [Back_to_menu]))
           | Generation_raises \<Rightarrow>
               (clear s,
                [Typing, Generating_profile, Log_error, Generation_failed, Menu_after_failure])))"

subsection \<open>\<^verbatim>\<open>start_survey\<close> (lines 53-120)\<close>

definition start_survey :: "collaborators \<Rightarrow> session \<Rightarrow> py_error + session \<times> event list" where
  "start_survey env s =
     (if get_or (profile_completed (data s)) False then Inr (s, [Overwrite_warning])
      else
        (case get_item (get_demo_questions env) 0 of
           Inl e \<Rightarrow> Inl e
         | Inr q \<Rightarrow>
             Inr (s\<lparr>state := Some Answering_questions,
                    data := (data s)\<lparr>question_index := Some 0,
                                      question_type := Some (ascii ''demo''),
                                      answers := Some [],
                                      is_demo_questions := Some True\<rparr>\<rparr>,
                  [Survey_intro, First_question (qtext q)])))"

subsection \<open>\<^verbatim>\<open>confirm_restart_survey\<close> (lines 123-147)\<close>

text \<open>
  The handler of the button that confirms a new survey over an existing profile. Its
  \<^verbatim>\<open>update_data\<close> (lines 136-141) is \<open>reset_for_restart\<close>; it is written before
  \<^verbatim>\<open>start_survey\<close> is called, so it stays written when that call raises.
\<close>

definition reset_for_restart :: "session \<Rightarrow> session" where
  "reset_for_restart s =
     s\<lparr>data := (data s)\<lparr>answers := Some [],
                             profile_completed := Some False,
                             profile_text := Some [],
                             personality_type := Some None\<rparr>\<rparr>"

definition confirm_restart_survey :: "collaborators \<Rightarrow> session \<Rightarrow> py_error + session \<times> event list" where
  "confirm_restart_survey env s =
     (case start_survey env (reset_for_restart s) of
        Inl e \<Rightarrow> Inl e
      | Inr (s2, evs) \<Rightarrow> Inr (s2, [Delete_message] @ evs @ [Callback_answer]))"

subsection \<open>\<^verbatim>\<open>confirm_profile_reset\<close> (lines 601-641)\<close>

text \<open>
  The handler of the button that confirms the reset of the profile. Its
  \<^verbatim>\<open>update_data\<close> (lines 611-620) is \<open>reset_profile\<close>, written before anything else.
\<close>

definition reset_profile :: "session \<Rightarrow> session" where
  "reset_profile s =
     s\<lparr>data := (data s)\<lparr>answers := Some [],
                             profile_completed := Some False,
                             profile_text := Some [],
                             profile_details := Some [],
                             personality_type := Some None,
                             waiting_for_vasini_confirmation := Some False,
                             question_index := Some 0,
                             is_demo_questions := Some True\<rparr>\<rparr>"

definition confirm_profile_reset :: "collaborators \<Rightarrow> session \<Rightarrow> py_error + session \<times> event list" where
  "confirm_profile_reset env s =
     (case start_survey env (reset_profile s) of
        Inl e \<Rightarrow> Inl e
      | Inr (s2, evs) \<Rightarrow>
          Inr (s2, [Delete_message, Profile_reset_done] @ evs @ [Callback_answer]))"

subsection \<open>\<^verbatim>\<open>process_survey_answer\<close> (lines 171-441)\<close>

text \<open>
  The handler of every message that arrives while the state is
  \<^verbatim>\<open>SurveyStates.answering_questions\<close>. The text of the message is a string. The
  result is the session after the call and what was sent, or the exception that left the
  handler: on each path that raises, the handler has stored nothing and sent nothing
  before.
\<close>

text \<open>
  Lines 399-441: the next question is shown and the progress is stored. \<open>vasini\<close> is the
  list of inventory questions as loaded by this call.
\<close>

definition show_next_question ::
  "collaborators \<Rightarrow> question list \<Rightarrow> session \<Rightarrow> bool \<Rightarrow> nat \<Rightarrow> answer_set \<Rightarrow> event list
     \<Rightarrow> py_error + session \<times> event list" where
  "show_next_question env vasini s is_demo i answers' sent =
     (case get_item (if is_demo then get_demo_questions env else vasini) i of
        Inl e \<Rightarrow> Inl e
      | Inr next_question \<Rightarrow>
          Inr (s\<lparr>data := (data s)\<lparr>question_index := Some i,
                                   answers := Some answers',
                                   is_demo_questions := Some is_demo\<rparr>\<rparr>,
               sent @
               [if is_demo
                then Demo_question (i + 1) (length (get_demo_questions env)) (qtext next_question)
                else Vasini_question (i + 1) (qtext next_question) (keyboard_of next_question)]))"

text \<open>
  Lines 211-249: the answer to a demo question is stored under the question's id, whatever
  the text is; after the last demo question the introduction of the inventory is sent.
\<close>

definition demo_answer ::
  "collaborators \<Rightarrow> question list \<Rightarrow> str \<Rightarrow> session \<Rightarrow> nat \<Rightarrow> answer_set \<Rightarrow> event list
     \<Rightarrow> py_error + session \<times> event list" where
  "demo_answer env vasini text s i answers0 sent =
     (case get_item (get_demo_questions env) i of
        Inl e \<Rightarrow> Inl e
      | Inr current_question \<Rightarrow>
          (let answers' = AList.update (qid current_question) text answers0
           in if i + 1 \<ge> length (get_demo_questions env)
              then Inr (s\<lparr>data := (data s)\<lparr>question_index := Some 0,
                                            answers := Some answers',
                                            is_demo_questions := Some False,
                                            waiting_for_vasini_confirmation := Some True\<rparr>\<rparr>,
                        sent @ [Vasini_intro])
              else show_next_question env vasini s True (i + 1) answers' sent))"

text \<open>
  Lines 252-314: the inventory has been announced and its start is not confirmed yet.
  The \<^verbatim>\<open>elif\<close> of line 284 repeats the test of line 181, which has returned before.
  In the \<^verbatim>\<open>else\<close> branch, line 293 reads \<^verbatim>\<open>current_question\<close>: on this path no
  assignment to that local variable has run (the ones of lines 212, 255 and 317 are in
  other branches or later), so Python raises \<^verbatim>\<open>UnboundLocalError\<close> there.
\<close>

definition vasini_confirmation ::
  "question list \<Rightarrow> str \<Rightarrow> session \<Rightarrow> nat \<Rightarrow> event list \<Rightarrow> py_error + session \<times> event list" where
  "vasini_confirmation vasini text s i sent =
     (if text = confirm_text then
        (case get_item vasini i of
           Inl e \<Rightarrow> Inl e
         | Inr current_question \<Rightarrow>
             Inr (s\<lparr>data := (data s)\<lparr>waiting_for_vasini_confirmation := Some False\<rparr>\<rparr>,
                  sent @ [Vasini_question (i + 1) (qtext current_question)
                            (keyboard_of current_question)]))
      else if text = cancel_text then Inr (clear s, sent @ [Survey_cancelled])
      else Inl UnboundLocalError)"

text \<open>
  Lines 316-397: an answer to a question of the inventory. The lookup of the
  interpretation stands in a \<^verbatim>\<open>try\<close> whose \<^verbatim>\<open>except\<close> branch logs the error and
  goes on. After the last question \<^verbatim>\<open>complete_survey\<close> is called and the handler
  returns.
\<close>

definition vasini_answer ::
  "collaborators \<Rightarrow> question list \<Rightarrow> str \<Rightarrow> session \<Rightarrow> nat \<Rightarrow> answer_set \<Rightarrow> event list
     \<Rightarrow> py_error + session \<times> event list" where
  "vasini_answer env vasini text s i answers0 sent =
     (case get_item vasini i of
        Inl e \<Rightarrow> Inl e
      | Inr current_question \<Rightarrow>
          (case parse_option text of
             None \<Rightarrow>
               Inr (s, sent @ [Log_warning,
                              Choose_again (i + 1) (qtext current_question)
                                (keyboard_of current_question)])
           | Some option \<Rightarrow>
               (let answers' = AList.update (qid current_question) option answers0;
                    shown = (case map_of (interpretations current_question) option of
                               Some interpretation \<Rightarrow> [Interpretation interpretation, Typing]
                             | None \<Rightarrow> [Log_error])
                in if i + 1 \<ge> length vasini
                   then (case complete_survey env answers' s of
                           (s', evs) \<Rightarrow> Inr (s', sent @ shown @ evs))
                   else show_next_question env vasini s False (i + 1) answers' (sent @ shown))))"

definition process_survey_answer ::
  "collaborators \<Rightarrow> str \<Rightarrow> session \<Rightarrow> py_error + session \<times> event list" where
  "process_survey_answer env text s =
     (if text = cancel_text then Inr (clear s, [Survey_cancelled])
      else
        (let i = get_or (question_index (data s)) 0;
             answers0 = get_or (answers (data s)) [];
             is_demo = get_or (is_demo_questions (data s)) True;
             vasini = get_or (get_all_vasini_questions env) [];
             sent = (case get_all_vasini_questions env of None \<Rightarrow> [Log_error, Log_error]
                     | Some qs \<Rightarrow> [])
         in if is_demo then demo_answer env vasini text s i answers0 sent
            else if get_or (waiting_for_vasini_confirmation (data s)) False
            then vasini_confirmation vasini text s i sent
            else vasini_answer env vasini text s i answers0 sent))"

subsection \<open>\<^verbatim>\<open>cancel_survey_command\<close> (lines 963-984)\<close>

definition cancel_survey_command :: "session \<Rightarrow> session \<times> event list" where
  "cancel_survey_command s =
     (if state s = Some Answering_questions then (clear s, [Survey_cancelled])
      else (s, [No_active_survey]))"

subsection \<open>\<^verbatim>\<open>show_profile_details\<close> (lines 665-750)\<close>

definition show_profile_details :: "session \<Rightarrow> session \<times> event list" where
  "show_profile_details s =
     (let details_text = get_or (profile_details (data s)) []
      in if details_text = [] \<or> length details_text < 20
         then (s, [Typing, Profile_not_found, Callback_answer])
         else (s, [Typing] @ send_profile details_text @ [Back_to_menu, Callback_answer]))"

subsection \<open>\<^verbatim>\<open>command_profile\<close> (lines 874-960)\<close>

text \<open>With a profile that can be shown, the state becomes \<^verbatim>\<open>ProfileStates.viewing\<close>.\<close>

definition command_profile :: "session \<Rightarrow> session \<times> event list" where
  "command_profile s =
     (if get_or (profile_completed (data s)) False then
        (let details_text = get_or (profile_details (data s)) []
         in if details_text = [] \<or> length details_text < 20
            then (s, [Typing, Profile_not_found])
            else (s\<lparr>state := Some Viewing\<rparr>, [Typing] @ send_profile details_text))
      else (s, [No_profile_yet]))"

subsection \<open>\<^verbatim>\<open>back_to_main_menu\<close> (lines 987-1010)\<close>

definition back_to_main_menu :: "session \<Rightarrow> session \<times> event list" where
  "back_to_main_menu s = (s\<lparr>state := None\<rparr>, [Delete_message, Main_menu, Callback_answer])"

section \<open>The advice engine\<close>

text \<open>
  \<^verbatim>\<open>random.choice\<close> draws from the random source, which the model passes along: a
  source is the sequence of the numbers it will give. The choice is the element at that
  number modulo the length, so every element can be drawn. On an empty sequence Python
  raises \<^verbatim>\<open>IndexError\<close>.
\<close>

type_synonym rng = "nat \<Rightarrow> nat"

definition random_choice :: "'a list \<Rightarrow> rng \<Rightarrow> py_error + 'a \<times> rng" where
  "random_choice xs g =
     (if xs = [] then Inl IndexError
      else Inr (xs ! (g 0 mod length xs), \<lambda>n. g (Suc n)))"

text \<open>
  \<^verbatim>\<open>d.get(key, default)\<close> and \<^verbatim>\<open>d[key]\<close> on a dictionary whose keys are strings.
  The key that is asked for can be \<^verbatim>\<open>None\<close>, which no dictionary of the handler holds.
\<close>

definition dict_get :: "(str \<times> 'v) list \<Rightarrow> str option \<Rightarrow> 'v \<Rightarrow> 'v" where
  "dict_get d key dflt =
     (case key of
        None \<Rightarrow> dflt
      | Some k \<Rightarrow> (case map_of d k of None \<Rightarrow> dflt | Some v \<Rightarrow> v))"

definition dict_item :: "(str \<times> 'v) list \<Rightarrow> str \<Rightarrow> py_error + 'v" where
  "dict_item d k = (case map_of d k of None \<Rightarrow> Inl KeyError | Some v \<Rightarrow> Inr v)"

definition default_type :: str where
  "default_type = type_intellectual"

subsection \<open>\<^verbatim>\<open>extract_key_aspects\<close> (lines 1063-1189)\<close>

definition all_keywords :: "str list" where
  "all_keywords = concat (map snd keywords_dict)"

text \<open>Lines 1157-1159.\<close>

definition found_keywords :: "str \<Rightarrow> str list" where
  "found_keywords profile_text' =
     filter (\<lambda>keyword. contains (lower profile_text') (lower keyword)) all_keywords"

text \<open>Lines 1164-1168: the tally, one pass over the types for every keyword found.\<close>

definition tally_keyword :: "str \<Rightarrow> (str \<times> nat) list \<Rightarrow> (str \<times> nat) list" where
  "tally_keyword keyword counts =
     fold (\<lambda>(type_name, type_keywords) c.
             if lower keyword \<in> set (map lower type_keywords)
             then AList.map_entry type_name Suc c else c)
       keywords_dict counts"

definition tally :: "str list \<Rightarrow> (str \<times> nat) list" where
  "tally found = fold tally_keyword found (map (\<lambda>(type_name, ks). (type_name, 0)) keywords_dict)"

text \<open>
  \<^verbatim>\<open>max(items, key=lambda x: x[1])\<close>: the first item with the greatest count;
  \<^verbatim>\<open>ValueError\<close> on an empty sequence.
\<close>

fun max_count :: "str \<times> nat \<Rightarrow> (str \<times> nat) list \<Rightarrow> str \<times> nat" where
  "max_count best [] = best"
| "max_count best (x # xs) = max_count (if snd best < snd x then x else best) xs"

definition py_max :: "(str \<times> nat) list \<Rightarrow> py_error + str \<times> nat" where
  "py_max items = (case items of [] \<Rightarrow> Inl ValueError | x # xs \<Rightarrow> Inr (max_count x xs))"

definition extract_key_aspects :: "str \<Rightarrow> str option \<Rightarrow> py_error + str list" where
  "extract_key_aspects profile_text' personality_type' =
     (let found = found_keywords profile_text'
      in if found \<noteq> [] then
           (case py_max (tally found) of
              Inl e \<Rightarrow> Inl e
            | Inr (dominant_type, n) \<Rightarrow>
                (let dominant_aspects =
                       dict_get aspects (Some dominant_type)
                         (dict_get aspects (Some default_type) []);
                     personality_aspects =
                       dict_get aspects personality_type'
                         (dict_get aspects (Some default_type) [])
                 in if Some dominant_type \<noteq> personality_type'
                    then Inr (personality_aspects @ dominant_aspects)
                    else Inr personality_aspects))
         else Inr (dict_get aspects personality_type' (dict_get aspects (Some default_type) [])))"

subsection \<open>\<^verbatim>\<open>generate_unique_advice\<close> (lines 1191-1379)\<close>

text \<open>The sentence of lines 1361 and 1373.\<close>

definition compose_advice :: "str \<Rightarrow> str \<Rightarrow> str \<Rightarrow> str \<Rightarrow> str \<Rightarrow> str" where
  "compose_advice emoji aspect technique result context' =
     emoji @ advice_part1 @ lower aspect @ advice_part2 @ technique @ advice_part3
       @ result @ advice_part4 @ context' @ advice_part5"

text \<open>The five lists from which a sentence is drawn.\<close>

record pools =
  aspect_list :: "str list"
  technique_list :: "str list"
  context_list :: "str list"
  result_list :: "str list"
  emoji_list :: "str list"

text \<open>Lines 1367-1373: a sentence is drawn again, the emoji last.\<close>

definition resample :: "pools \<Rightarrow> rng \<Rightarrow> py_error + str \<times> rng" where
  "resample p g =
     (case random_choice (aspect_list p) g of Inl e \<Rightarrow> Inl e | Inr (aspect, g1) \<Rightarrow>
      case random_choice (technique_list p) g1 of Inl e \<Rightarrow> Inl e | Inr (technique, g2) \<Rightarrow>
      case random_choice (context_list p) g2 of Inl e \<Rightarrow> Inl e | Inr (context', g3) \<Rightarrow>
      case random_choice (result_list p) g3 of Inl e \<Rightarrow> Inl e | Inr (result, g4) \<Rightarrow>
      case random_choice (emoji_list p) g4 of Inl e \<Rightarrow> Inl e | Inr (emoji, g5) \<Rightarrow>
        Inr (compose_advice emoji aspect technique result context', g5))"

text \<open>
  Lines 1364-1374: the loop, from the values of \<^verbatim>\<open>advice\<close> and \<^verbatim>\<open>attempts\<close>
  before a test of its condition. It gives the advice and the count of attempts at the
  exit.
\<close>

function unique_loop :: "str list \<Rightarrow> pools \<Rightarrow> str \<Rightarrow> nat \<Rightarrow> rng \<Rightarrow> py_error + str \<times> nat" where
  "unique_loop history p advice attempts g =
     (if advice \<in> set history \<and> attempts < 5 then
        (case resample p g of
           Inl e \<Rightarrow> Inl e
         | Inr (advice', g') \<Rightarrow> unique_loop history p advice' (attempts + 1) g')
      else Inr (advice, attempts))"
  by pat_completeness auto
termination
  by (relation "measure (\<lambda>(history, p, advice, attempts, g). 5 - attempts)") auto

text \<open>Lines 1210-1358: the five lists for a personality type and a profile.\<close>

definition pools_for :: "str \<Rightarrow> str option \<Rightarrow> py_error + pools" where
  "pools_for profile_text' personality_type' =
     (case extract_key_aspects profile_text' personality_type' of
        Inl e \<Rightarrow> Inl e
      | Inr aspects0 \<Rightarrow>
          Inr \<lparr>aspect_list = (if aspects0 = [] then [fallback_aspect] else aspects0),
               technique_list =
                 dict_get techniques personality_type'
                   (dict_get techniques (Some default_type) [fallback_technique]),
               context_list =
                 dict_get contexts personality_type'
                   (dict_get contexts (Some default_type) [fallback_context]),
               result_list =
                 dict_get results personality_type'
                   (dict_get results (Some default_type) [fallback_result]),
               emoji_list =
                 dict_get emoji_map personality_type'
                   (dict_get emoji_map (Some default_type) [fallback_emoji])\<rparr>)"

text \<open>
  The first sentence (lines 1228 and 1348-1361): the emoji is drawn first, then the
  aspect, the technique, the context and the result.
\<close>

definition first_advice :: "pools \<Rightarrow> rng \<Rightarrow> py_error + str \<times> rng" where
  "first_advice p g =
     (case random_choice (emoji_list p) g of Inl e \<Rightarrow> Inl e | Inr (emoji, g1) \<Rightarrow>
      case random_choice (aspect_list p) g1 of Inl e \<Rightarrow> Inl e | Inr (aspect, g2) \<Rightarrow>
      case random_choice (technique_list p) g2 of Inl e \<Rightarrow> Inl e | Inr (technique, g3) \<Rightarrow>
      case random_choice (context_list p) g3 of Inl e \<Rightarrow> Inl e | Inr (context', g4) \<Rightarrow>
      case random_choice (result_list p) g4 of Inl e \<Rightarrow> Inl e | Inr (result, g5) \<Rightarrow>
        Inr (compose_advice emoji aspect technique result context', g5))"

text \<open>
  The function up to the exit of its loop: the advice, and the count of attempts with it.
\<close>

definition advice_and_attempts ::
  "str \<Rightarrow> str option \<Rightarrow> str list \<Rightarrow> rng \<Rightarrow> py_error + str \<times> nat" where
  "advice_and_attempts profile_text' personality_type' history g =
     (case pools_for profile_text' personality_type' of
        Inl e \<Rightarrow> Inl e
      | Inr p \<Rightarrow>
          (case first_advice p g of
             Inl e \<Rightarrow> Inl e
           | Inr (advice, g') \<Rightarrow> unique_loop history p advice 0 g'))"

definition generate_unique_advice :: "str \<Rightarrow> str option \<Rightarrow> str list \<Rightarrow> rng \<Rightarrow> py_error + str" where
  "generate_unique_advice profile_text' personality_type' history g =
     (case advice_and_attempts profile_text' personality_type' history g of
        Inl e \<Rightarrow> Inl e
      | Inr (advice, attempts) \<Rightarrow> Inr advice)"

text \<open>
  The names of the personality types that the dictionaries know, and what it means that a
  sentence is put together from the five lists.
\<close>

definition known_types :: "str list" where
  "known_types =
     [type_intellectual, type_emotional, type_practical, type_creative, type_analytical]"

definition drawn_from :: "pools \<Rightarrow> str \<Rightarrow> bool" where
  "drawn_from p advice \<longleftrightarrow>
     (\<exists>emoji \<in> set (emoji_list p). \<exists>aspect \<in> set (aspect_list p).
      \<exists>technique \<in> set (technique_list p). \<exists>result \<in> set (result_list p).
      \<exists>context' \<in> set (context_list p).
        advice = compose_advice emoji aspect technique result context')"

subsection \<open>\<^verbatim>\<open>get_personalized_advice\<close> (lines 1013-1061)\<close>

text \<open>
  \<^verbatim>\<open>not profile_text\<close> holds for \<^verbatim>\<open>None\<close> and for the empty string; then
  \<open>standard_advice\<close> (lines 1027-1058) draws from the canned list of the type. The default
  of the lookup in line 1049 is itself a lookup, made before the call of \<^verbatim>\<open>get\<close>.
\<close>

definition standard_advice :: "str option \<Rightarrow> rng \<Rightarrow> py_error + str" where
  "standard_advice personality_type' rng =
     (case dict_item advice_by_type type_intellectual of
        Inl e \<Rightarrow> Inl e
      | Inr dflt \<Rightarrow>
          (case random_choice (dict_get advice_by_type personality_type' dflt) rng of
             Inl e \<Rightarrow> Inl e
           | Inr (advice, g') \<Rightarrow> Inr advice))"

text \<open>
  The advice, and what the function logs: the warning of line 1027 when the canned list
  is used.
\<close>

definition get_personalized_advice ::
  "str option \<Rightarrow> str option \<Rightarrow> str list option \<Rightarrow> rng \<Rightarrow> py_error + str \<times> event list" where
  "get_personalized_advice personality_type' profile_text' used rng =
     (if profile_text' = None \<or> profile_text' = Some [] then
        (case standard_advice personality_type' rng of
           Inl e \<Rightarrow> Inl e
         | Inr advice \<Rightarrow> Inr (advice, [Log_warning]))
      else
        (case generate_unique_advice (get_or profile_text' []) personality_type'
                (get_or used []) rng of
           Inl e \<Rightarrow> Inl e
         | Inr advice \<Rightarrow> Inr (advice, [])))"

text \<open>Lines 1406-1407 and 1464-1465: the history keeps its last 20 entries.\<close>

definition keep_last_20 :: "str list \<Rightarrow> str list" where
  "keep_last_20 used = (if length used > 20 then drop (length used - 20) used else used)"

subsection \<open>\<^verbatim>\<open>get_advice_callback\<close> (lines 1382-1435)\<close>

text \<open>
  The data are read with their defaults, the advice is appended to the history, the
  history is cut to its last 20 entries and stored, and the advice is sent. The handler
  does not look at \<^verbatim>\<open>profile_completed\<close>.
\<close>

definition get_advice_callback :: "session \<Rightarrow> rng \<Rightarrow> py_error + session \<times> event list" where
  "get_advice_callback s rng =
     (let personality_type' = get_or (personality_type (data s)) (Some type_intellectual);
          profile_details' = get_or (profile_details (data s)) [];
          used = get_or (used_advices (data s)) []
      in case get_personalized_advice personality_type' (Some profile_details') (Some used) rng of
           Inl e \<Rightarrow> Inl e
         | Inr (advice, logged) \<Rightarrow>
             Inr (s\<lparr>data := (data s)\<lparr>used_advices := Some (keep_last_20 (used @ [advice]))\<rparr>\<rparr>,
                  [Typing] @ logged @
                  [Advice_message advice, What_next, Back_to_menu, Callback_answer]))"

subsection \<open>\<^verbatim>\<open>command_advice\<close> (lines 1438-1493)\<close>

text \<open>The same steps, for a completed profile only.\<close>

definition command_advice :: "session \<Rightarrow> rng \<Rightarrow> py_error + session \<times> event list" where
  "command_advice s rng =
     (if get_or (profile_completed (data s)) False then
        (let personality_type' = get_or (personality_type (data s)) (Some type_intellectual);
             profile_details' = get_or (profile_details (data s)) [];
             used = get_or (used_advices (data s)) []
         in case get_personalized_advice personality_type' (Some profile_details') (Some used)
                   rng of
              Inl e \<Rightarrow> Inl e
            | Inr (advice, logged) \<Rightarrow>
                Inr (s\<lparr>data := (data s)\<lparr>used_advices := Some (keep_last_20 (used @ [advice]))\<rparr>\<rparr>,
                     logged @ [Advice_message advice, What_next]))
      else Inr (s, [Survey_needed_for_advice]))"

section \<open>The sessions that the handlers reach\<close>

text \<open>
  The handlers of the router that write to the session store, as the actions of a user.
  \<^verbatim>\<open>process_survey_answer\<close> is registered for the state
  \<^verbatim>\<open>SurveyStates.answering_questions\<close> (line 171), so a message reaches it in that state
  only; every other handler is taken to run in any state. \<open>Start_survey\<close> stands for
  \<^verbatim>\<open>command_survey\<close> and \<^verbatim>\<open>start_survey_callback\<close>, which call
  \<^verbatim>\<open>start_survey\<close>. The handlers that are left out
  (\<^verbatim>\<open>cancel_restart_survey\<close>, \<^verbatim>\<open>restart_survey\<close>, \<^verbatim>\<open>cancel_profile_reset\<close>,
  \<^verbatim>\<open>show_profile_details\<close>, \<^verbatim>\<open>view_profile_callback\<close>) write nothing.
\<close>

datatype action =
    Start_survey
  | Confirm_restart_survey
  | Confirm_profile_reset
  | Message str
  | Cancel_survey_command
  | Command_profile
  | Back_to_main_menu
  | Get_advice rng
  | Command_advice rng

fun enabled :: "action \<Rightarrow> session \<Rightarrow> bool" where
  "enabled (Message t) s = (state s = Some Answering_questions)"
| "enabled a s = True"

text \<open>
  The store after a handler has run: the one it returns or, when an exception has left
  the handler, the store as it was at the raise.
\<close>

definition store_after :: "session \<Rightarrow> py_error + session \<times> event list \<Rightarrow> session" where
  "store_after s r = (case r of Inl e \<Rightarrow> s | Inr (s', evs) \<Rightarrow> s')"

fun handle :: "collaborators \<Rightarrow> action \<Rightarrow> session \<Rightarrow> session" where
  "handle env Start_survey s = store_after s (start_survey env s)"
| "handle env Confirm_restart_survey s =
     store_after (reset_for_restart s) (confirm_restart_survey env s)"
| "handle env Confirm_profile_reset s =
     store_after (reset_profile s) (confirm_profile_reset env s)"
| "handle env (Message t) s = store_after s (process_survey_answer env t s)"
| "handle env Cancel_survey_command s = fst (cancel_survey_command s)"
| "handle env Command_profile s = fst (command_profile s)"
| "handle env Back_to_main_menu s = fst (back_to_main_menu s)"
| "handle env (Get_advice g) s = store_after s (get_advice_callback s g)"
| "handle env (Command_advice g) s = store_after s (command_advice s g)"

text \<open>
  A session is reachable when a sequence of actions leads to it from the empty store of a
  new user. The collaborators may answer differently at every step.
\<close>

inductive reachable :: "session \<Rightarrow> bool" where
  new_user: "reachable \<lparr>state = None, data = empty_data\<rparr>"
| action: "reachable s \<Longrightarrow> enabled a s \<Longrightarrow> reachable (handle env a s)"

text \<open>
  The property that a session stores no completed profile while a survey is open. A
  survey is opened by \<^verbatim>\<open>start_survey\<close> only, which asks for a confirmation when
  there is a completed profile, and the confirmed handlers take the mark of completion
  away before they call it.
\<close>

definition no_profile_while_answering :: "session \<Rightarrow> bool" where
  "no_profile_while_answering s \<longleftrightarrow>
     (state s = Some Answering_questions \<longrightarrow> profile_completed (data s) \<noteq> Some True)"

text \<open>What a session stores of a profile.\<close>

definition stored_profile ::
  "session \<Rightarrow> bool option \<times> str option \<times> str option \<times> str option option \<times> str option
     \<times> (str \<times> nat) list option \<times> answer_set option" where
  "stored_profile s =
     (profile_completed (data s), profile_details (data s), profile_text (data s),
      personality_type (data s), secondary_type (data s), type_counts (data s),
      answers (data s))"

section \<open>Repeated submission\<close>

text \<open>The same message handled \<open>n\<close> times in a row; the events of all the runs.\<close>

fun submit_times ::
  "collaborators \<Rightarrow> str \<Rightarrow> nat \<Rightarrow> session \<Rightarrow> py_error + session \<times> event list" where
  "submit_times env msg 0 s = Inr (s, [])"
| "submit_times env msg (Suc n) s =
     (case process_survey_answer env msg s of
        Inl e \<Rightarrow> Inl e
      | Inr (s', evs) \<Rightarrow>
          (case submit_times env msg n s' of
             Inl e \<Rightarrow> Inl e
           | Inr (s'', evs') \<Rightarrow> Inr (s'', evs @ evs')))"

section \<open>A small catalog and sessions, for concrete runs\<close>

text \<open>
  One demo question and an inventory of two questions. The first question of the
  inventory has entries for A and B only; the second one for all four letters.
\<close>

definition demo_question :: question where
  "demo_question =
     \<lparr>qid = ascii ''name'', qtext = ascii ''What is your name?'',
      options = [], interpretations = []\<rparr>"

definition first_question :: question where
  "first_question =
     \<lparr>qid = ascii ''q1'', qtext = ascii ''Plan or improvise?'',
      options = [(ascii ''A'', ascii ''plan''), (ascii ''B'', ascii ''improvise'')],
      interpretations = [(ascii ''A'', ascii ''You like order.''),
                         (ascii ''B'', ascii ''You like freedom.'')]\<rparr>"

definition second_question :: question where
  "second_question =
     \<lparr>qid = ascii ''q2'', qtext = ascii ''Alone or together?'',
      options = [(ascii ''A'', ascii ''alone''), (ascii ''B'', ascii ''together''),
                 (ascii ''C'', ascii ''both''), (ascii ''D'', ascii ''neither'')],
      interpretations = [(ascii ''A'', ascii ''You recharge alone.''),
                         (ascii ''B'', ascii ''You recharge with others.''),
                         (ascii ''C'', ascii ''You adapt.''),
                         (ascii ''D'', ascii ''You keep your distance.'')]\<rparr>"

definition example_profile :: str where
  "example_profile = ascii ''You think in systems and long plans.''"

definition example_env :: collaborators where
  "example_env =
     \<lparr>get_demo_questions = [demo_question],
      get_all_vasini_questions = Some [first_question, second_question],
      get_personality_type_from_answers =
        (\<lambda>a. ([(type_intellectual, length a)], type_intellectual, type_practical)),
      generate_profile = (\<lambda>a. Profile_data (Some example_profile))\<rparr>"

text \<open>The same catalog with a gateway that fails, and with one that answers "ok".\<close>

definition failing_env :: collaborators where
  "failing_env = example_env\<lparr>generate_profile := (\<lambda>a. Generation_raises)\<rparr>"

definition short_env :: collaborators where
  "short_env = example_env\<lparr>generate_profile := (\<lambda>a. Profile_data (Some (ascii ''ok'')))\<rparr>"

definition fresh_session :: session where
  "fresh_session = \<lparr>state = None, data = empty_data\<rparr>"

text \<open>After \<^verbatim>\<open>start_survey\<close>.\<close>

definition started_data :: user_data where
  "started_data =
     empty_data\<lparr>question_index := Some 0, question_type := Some (ascii ''demo''),
                answers := Some [], is_demo_questions := Some True\<rparr>"

definition started_session :: session where
  "started_session = \<lparr>state = Some Answering_questions, data = started_data\<rparr>"

text \<open>After the answer "Bob" to the demo question: the inventory is announced.\<close>

definition awaiting_session :: session where
  "awaiting_session =
     \<lparr>state = Some Answering_questions,
      data = started_data\<lparr>answers := Some [(ascii ''name'', ascii ''Bob'')],
                          is_demo_questions := Some False,
                          waiting_for_vasini_confirmation := Some True\<rparr>\<rparr>"

text \<open>After the confirmation: the first question of the inventory is open.\<close>

definition inventory_session :: session where
  "inventory_session =
     \<lparr>state = Some Answering_questions,
      data = started_data\<lparr>answers := Some [(ascii ''name'', ascii ''Bob'')],
                          is_demo_questions := Some False,
                          waiting_for_vasini_confirmation := Some False\<rparr>\<rparr>"

text \<open>After the answer "A" to the first question: the second question is open.\<close>

definition last_question_session :: session where
  "last_question_session =
     \<lparr>state = Some Answering_questions,
      data = started_data\<lparr>question_index := Some 1,
                          answers := Some [(ascii ''name'', ascii ''Bob''),
                                           (ascii ''q1'', ascii ''A'')],
                          is_demo_questions := Some False,
                          waiting_for_vasini_confirmation := Some False\<rparr>\<rparr>"

definition all_answers :: answer_set where
  "all_answers =
     [(ascii ''name'', ascii ''Bob''), (ascii ''q1'', ascii ''A''), (ascii ''q2'', ascii ''B'')]"

text \<open>After the answer "B" to the second question, with the profile of \<open>example_env\<close>.\<close>

definition completed_session :: session where
  "completed_session =
     \<lparr>state = None,
      data = started_data\<lparr>question_index := Some 1,
                          answers := Some all_answers,
                          is_demo_questions := Some False,
                          waiting_for_vasini_confirmation := Some False,
                          profile_completed := Some True,
                          profile_details := Some example_profile,
                          profile_text := Some example_profile,
                          personality_type := Some (Some type_intellectual),
                          secondary_type := Some type_practical,
                          type_counts := Some [(type_intellectual, 3)]\<rparr>\<rparr>"

text \<open>
  After the button that confirms a new survey over this profile
  (\<^verbatim>\<open>confirm_restart_survey\<close>): a survey is open again, and
  \<^verbatim>\<open>profile_details\<close>, \<^verbatim>\<open>secondary_type\<close> and \<^verbatim>\<open>type_counts\<close> of the
  profile are still stored.
\<close>

definition restarted_session :: session where
  "restarted_session =
     \<lparr>state = Some Answering_questions,
      data = started_data\<lparr>waiting_for_vasini_confirmation := Some False,
                          profile_completed := Some False,
                          profile_details := Some example_profile,
                          profile_text := Some [],
                          personality_type := Some None,
                          secondary_type := Some type_practical,
                          type_counts := Some [(type_intellectual, 3)]\<rparr>\<rparr>"


text \<open>
  The five lists of the default type, and the sentence made of the first entry of each:
  what a random source that always gives 0 draws from them.
\<close>

definition intellectual_pools :: pools where
  "intellectual_pools =
     \<lparr>aspect_list = aspects_intellectual, technique_list = techniques_intellectual,
      context_list = contexts_intellectual, result_list = results_intellectual,
      emoji_list = emoji_map_intellectual\<rparr>"

definition first_sentence :: str where
  "first_sentence =
     compose_advice (hd emoji_map_intellectual) (hd aspects_intellectual)
       (hd techniques_intellectual) (hd results_intellectual) (hd contexts_intellectual)"

section \<open>The concrete sessions are reached by the handlers\<close>

lemmas example_defs =
  example_env_def failing_env_def short_env_def demo_question_def first_question_def
  second_question_def example_profile_def fresh_session_def started_data_def
  started_session_def awaiting_session_def inventory_session_def last_question_session_def
  all_answers_def completed_session_def restarted_session_def empty_data_def

lemmas handler_defs =
  process_survey_answer_def demo_answer_def vasini_confirmation_def vasini_answer_def
  show_next_question_def complete_survey_def start_survey_def confirm_restart_survey_def
  reset_for_restart_def get_item_def get_or_def keyboard_of_def clear_def Let_def

lemmas parser_defs =
  parse_option_def option_letters_def match_option_def startswith_def ascii_def upper_def
  upper_char_def

lemma of_char_neq_big: "256 \<le> n \<Longrightarrow> (of_char c :: nat) \<noteq> n"
  using nat_of_char_less_256 [of c] by linarith

lemma cancel_text_neq_ascii: "cancel_text \<noteq> ascii (c # cs)" "ascii (c # cs) \<noteq> cancel_text"
  using of_char_neq_big [of 10060 c] by (auto simp: cancel_text_def ascii_def)

lemma confirm_text_neq_ascii: "confirm_text \<noteq> ascii (c # cs)" "ascii (c # cs) \<noteq> confirm_text"
  using of_char_neq_big [of 9989 c] by (auto simp: confirm_text_def ascii_def)

lemma confirm_neq_cancel: "confirm_text \<noteq> cancel_text"
  by (simp add: confirm_text_def cancel_text_def)

lemma run_start: "start_survey example_env fresh_session =
    Inr (started_session, [Survey_intro, First_question (ascii ''What is your name?'')])"
  by (simp add: example_defs handler_defs)

lemma run_demo: "process_survey_answer example_env (ascii ''Bob'') started_session =
    Inr (awaiting_session, [Vasini_intro])"
  by (simp add: example_defs handler_defs cancel_text_neq_ascii)

lemma run_confirm: "process_survey_answer example_env confirm_text awaiting_session =
    Inr (inventory_session,
      [Vasini_question 1 (ascii ''Plan or improvise?'')
         [ascii ''A: plan'', ascii ''B: improvise'', cancel_text]])"
  by (simp add: example_defs handler_defs confirm_neq_cancel) (simp add: ascii_def)

lemma parse_A: "parse_option (ascii ''A'') = Some (ascii ''A'')"
  by (simp add: parser_defs)

lemma parse_B: "parse_option (ascii ''B'') = Some (ascii ''B'')"
  by (simp add: parser_defs)

lemma run_first: "process_survey_answer example_env (ascii ''A'') inventory_session =
    Inr (last_question_session,
      [Interpretation (ascii ''You like order.''), Typing,
       Vasini_question 2 (ascii ''Alone or together?'')
         [ascii ''A: alone'', ascii ''B: together'', ascii ''C: both'', ascii ''D: neither'',
          cancel_text]])"
  by (simp add: example_defs handler_defs cancel_text_neq_ascii parse_A) (simp add: ascii_def)

lemma run_last: "process_survey_answer example_env (ascii ''B'') last_question_session =
    Inr (completed_session,
      [Interpretation (ascii ''You recharge with others.''), Typing,
       Typing, Generating_profile, Delete_message, Profile_message example_profile True,
       Back_to_menu])"
  by (simp add: example_defs handler_defs cancel_text_neq_ascii parse_B send_profile_def
      max_message_length_def) (simp add: ascii_def)

lemma run_restart: "confirm_restart_survey example_env completed_session =
    Inr (restarted_session,
      [Delete_message, Survey_intro, First_question (ascii ''What is your name?''),
       Callback_answer])"
  by (simp add: example_defs handler_defs)


section \<open>Properties of the option parser\<close>

lemma find_option_None:
  "find_option opts msg = None \<longleftrightarrow> (\<forall>opt \<in> set opts. match_option msg opt = None)"
  by (induction opts) (auto split: option.splits)

lemma find_option_Some:
  "find_option opts msg = Some opt \<Longrightarrow> opt \<in> set opts \<and> match_option msg opt \<noteq> None"
  by (induction opts) (auto split: option.splits)

lemma match_option_None:
  "match_option msg opt = None \<longleftrightarrow> (\<forall>r. \<not> rule_holds r msg opt)"
proof
  assume "match_option msg opt = None"
  then have "\<not> rule_holds Colon_prefix msg opt" "\<not> rule_holds Space_prefix msg opt"
    "\<not> rule_holds Exact_letter msg opt" "\<not> rule_holds Isolated_token msg opt"
    by (auto simp: match_option_def split: if_splits)
  then show "\<forall>r. \<not> rule_holds r msg opt"
    by (metis rule.exhaust)
next
  assume "\<forall>r. \<not> rule_holds r msg opt"
  then show "match_option msg opt = None"
    by (simp add: match_option_def)
qed

lemma parse_option_None:
  "parse_option msg = None \<longleftrightarrow> (\<forall>opt \<in> set option_letters. \<forall>r. \<not> rule_holds r msg opt)"
  by (simp add: parse_option_def find_option_None match_option_None)

lemma parse_option_Some:
  "parse_option msg = Some opt \<Longrightarrow> opt \<in> set option_letters \<and> (\<exists>r. rule_holds r msg opt)"
  using find_option_Some [of option_letters msg opt] match_option_None [of msg opt]
  by (auto simp: parse_option_def)

text \<open>
  What the loop computes: the first letter, in the order A, B, C, D, for which one of the
  four tests holds.
\<close>

lemma find_option_first:
  "find_option opts msg = Some opt \<longleftrightarrow>
     (\<exists>before after. opts = before @ opt # after
        \<and> match_option msg opt \<noteq> None
        \<and> (\<forall>l \<in> set before. match_option msg l = None))"
proof (induction opts)
  case Nil
  then show ?case by simp
next
  case (Cons x xs)
  show ?case
  proof (cases "match_option msg x")
    case None
    have "(\<exists>before after. x # xs = before @ opt # after
        \<and> match_option msg opt \<noteq> None \<and> (\<forall>l \<in> set before. match_option msg l = None))
      \<longleftrightarrow> (\<exists>before after. xs = before @ opt # after
        \<and> match_option msg opt \<noteq> None \<and> (\<forall>l \<in> set before. match_option msg l = None))"
      (is "?l \<longleftrightarrow> ?r")
    proof
      assume ?l
      then obtain before after where b: "x # xs = before @ opt # after"
        "match_option msg opt \<noteq> None" "\<forall>l \<in> set before. match_option msg l = None"
        by blast
      from b(1,2) None obtain before' where "before = x # before'"
        by (cases before) auto
      with b show ?r by auto
    next
      assume ?r
      then obtain before after where b: "xs = before @ opt # after"
        "match_option msg opt \<noteq> None" "\<forall>l \<in> set before. match_option msg l = None"
        by blast
      from b None have "x # xs = (x # before) @ opt # after
        \<and> match_option msg opt \<noteq> None \<and> (\<forall>l \<in> set (x # before). match_option msg l = None)"
        by simp
      then show ?l by blast
    qed
    with None Cons.IH show ?thesis by simp
  next
    case (Some r)
    have "(\<exists>before after. x # xs = before @ opt # after
        \<and> match_option msg opt \<noteq> None \<and> (\<forall>l \<in> set before. match_option msg l = None))
      \<longleftrightarrow> x = opt" (is "?l \<longleftrightarrow> _")
    proof
      assume ?l
      then obtain before after where b: "x # xs = before @ opt # after"
        "\<forall>l \<in> set before. match_option msg l = None"
        by blast
      show "x = opt"
      proof (cases before)
        case Nil
        with b(1) show ?thesis by simp
      next
        case (Cons y ys)
        with b Some show ?thesis by auto
      qed
    next
      assume "x = opt"
      with Some have "x # xs = [] @ opt # xs \<and> match_option msg opt \<noteq> None
        \<and> (\<forall>l \<in> set []. match_option msg l = None)"
        by simp
      then show ?l by blast
    qed
    with Some show ?thesis by auto
  qed
qed

lemma parse_option_first:
  "parse_option msg = Some opt \<longleftrightarrow>
     (\<exists>before after. option_letters = before @ opt # after
        \<and> (\<exists>r. rule_holds r msg opt)
        \<and> (\<forall>l \<in> set before. \<forall>r. \<not> rule_holds r msg l))"
  using match_option_None [of msg]
  by (simp add: parse_option_def find_option_first)

text \<open>
  Claim C1. The four tests are not tried rule by rule over the letters: all four are tried
  for A before any is tried for B. The label of the button of option B, when the option's
  wording holds the word "a", starts with "B:" and is read as the answer A, by the fourth
  test.
\<close>

theorem parse_option_button_B_read_as_A:
  "rule_holds Colon_prefix (ascii ''B: I prefer a plan'') (ascii ''B'')
   \<and> parse_option (ascii ''B: I prefer a plan'') = Some (ascii ''A'')"
  by (simp add: parse_option_def option_letters_def match_option_def startswith_def
      ascii_def upper_def upper_char_def)

section \<open>Awaiting the confirmation of the inventory\<close>

lemma awaiting_other_input:
  assumes "msg \<noteq> cancel_text" and "msg \<noteq> confirm_text"
    and "is_demo_questions (data s) = Some False"
    and "waiting_for_vasini_confirmation (data s) = Some True"
  shows "process_survey_answer env msg s = Inl UnboundLocalError"
  using assms by (simp add: process_survey_answer_def vasini_confirmation_def get_or_def)

text \<open>
  Claim C2. A survey is started and the demo question is answered, so the confirmation of
  the inventory is awaited. A message that is neither the confirmation nor the cancel
  signal then makes the handler raise \<^verbatim>\<open>UnboundLocalError\<close> at line 293: no prompt
  is sent, and the exception leaves the handler. (Nothing has been stored either.)
\<close>

theorem awaiting_confirmation_other_text_raises:
  "start_survey example_env fresh_session =
     Inr (started_session, [Survey_intro, First_question (ascii ''What is your name?'')])
   \<and> process_survey_answer example_env (ascii ''Bob'') started_session =
     Inr (awaiting_session, [Vasini_intro])
   \<and> process_survey_answer example_env (ascii ''hello'') awaiting_session =
     Inl UnboundLocalError"
  by (simp add: example_defs handler_defs cancel_text_neq_ascii confirm_text_neq_ascii)

section \<open>Completion\<close>

text \<open>
  Claim C3, as stated, fails for a short response: the gateway answers "ok" (two
  characters) to the last answer of the survey, and the session is marked completed, with
  the counts of the types and "ok" as the profile text, and no retry prompt is sent.
\<close>

theorem short_profile_completes_survey:
  "generate_profile short_env all_answers = Profile_data (Some (ascii ''ok''))
   \<and> length (ascii ''ok'') < 20
   \<and> process_survey_answer short_env (ascii ''B'') last_question_session =
     Inr (completed_session\<lparr>data := (data completed_session)
            \<lparr>profile_details := Some (ascii ''ok''), profile_text := Some (ascii ''ok'')\<rparr>\<rparr>,
          [Interpretation (ascii ''You recharge with others.''), Typing,
           Typing, Generating_profile, Delete_message, Profile_message (ascii ''ok'') True,
           Back_to_menu])
   \<and> profile_completed (data completed_session) = Some True
   \<and> type_counts (data completed_session) = Some [(type_intellectual, 3)]"
  by (simp add: example_defs handler_defs cancel_text_neq_ascii parse_B send_profile_def
      max_message_length_def) (simp add: ascii_def)

text \<open>
  Claim C3, amended: if the profile synthesis fails with a gateway error, completion is
  aborted: the session is cleared, so it is not marked completed, the answers are
  discarded, the state is idle again, no counts of types and no profile text remain,
  and the user is shown the prompt to take the survey again.
\<close>

theorem gateway_failure_aborts_completion:
  assumes "generate_profile env answers' = Generation_raises"
    and "complete_survey env answers' s = (s', evs)"
  shows "state s' = None \<and> data s' = empty_data
    \<and> profile_completed (data s') = None \<and> answers (data s') = None
    \<and> type_counts (data s') = None \<and> profile_text (data s') = None
    \<and> profile_details (data s') = None \<and> personality_type (data s') = None
    \<and> evs = [Typing, Generating_profile, Log_error, Generation_failed, Menu_after_failure]"
  using assms
  by (auto simp: complete_survey_def clear_def empty_data_def split: prod.splits)

theorem gateway_failure_aborts_completion_witness:
  "generate_profile failing_env all_answers = Generation_raises
   \<and> complete_survey failing_env all_answers last_question_session =
       (fresh_session,
        [Typing, Generating_profile, Log_error, Generation_failed, Menu_after_failure])
   \<and> state fresh_session = None \<and> profile_completed (data fresh_session) = None
   \<and> answers (data fresh_session) = None \<and> type_counts (data fresh_session) = None
   \<and> profile_text (data fresh_session) = None"
proof -
  have raises: "generate_profile failing_env all_answers = Generation_raises"
    by (simp add: failing_env_def example_env_def)
  have run: "complete_survey failing_env all_answers last_question_session =
       (fresh_session,
        [Typing, Generating_profile, Log_error, Generation_failed, Menu_after_failure])"
    by (simp add: complete_survey_def failing_env_def example_env_def clear_def
        fresh_session_def)
  from gateway_failure_aborts_completion [OF raises run] raises run
  show ?thesis by blast
qed

text \<open>A short profile is stored, and the display of the profile then reports that none is found.\<close>

lemma short_profile_is_not_displayed:
  "length (get_or (profile_details (data s)) []) < 20 \<Longrightarrow>
   show_profile_details s = (s, [Typing, Profile_not_found, Callback_answer])"
  by (simp add: show_profile_details_def Let_def)


section \<open>Unparseable answers\<close>

lemma unparseable_answer_step:
  assumes "msg \<noteq> cancel_text"
    and "is_demo_questions (data s) = Some False"
    and "waiting_for_vasini_confirmation (data s) \<noteq> Some True"
    and "get_all_vasini_questions env = Some vasini"
    and "get_or (question_index (data s)) 0 = i" and "i < length vasini"
    and "parse_option msg = None"
  shows "process_survey_answer env msg s =
    Inr (s, [Log_warning,
             Choose_again (i + 1) (qtext (vasini ! i)) (keyboard_of (vasini ! i))])"
proof -
  from assms(3) have "get_or (waiting_for_vasini_confirmation (data s)) False = False"
    by (cases "waiting_for_vasini_confirmation (data s)") (auto simp: get_or_def)
  with assms show ?thesis
    by (simp add: process_survey_answer_def vasini_answer_def get_item_def Let_def)
      (simp add: get_or_def)
qed

text \<open>
  Claim C4. In the inventory phase (the demo questions are done, the start of the
  inventory is confirmed, and the cursor addresses a question of the loaded inventory),
  a message other than the cancel signal in which the parser finds no option letter
  changes nothing: handled once or \<open>n\<close> times in a row, it leaves the whole session as it
  was, so the cursor and the answers too, and each time the same question is shown again
  with its options.
\<close>

theorem unparseable_answer_changes_nothing:
  assumes "msg \<noteq> cancel_text"
    and "is_demo_questions (data s) = Some False"
    and "waiting_for_vasini_confirmation (data s) \<noteq> Some True"
    and "get_all_vasini_questions env = Some vasini"
    and "get_or (question_index (data s)) 0 = i" and "i < length vasini"
    and "parse_option msg = None"
  shows "process_survey_answer env msg s =
      Inr (s, [Log_warning,
               Choose_again (i + 1) (qtext (vasini ! i)) (keyboard_of (vasini ! i))])
    \<and> submit_times env msg n s =
      Inr (s, concat (replicate n
             [Log_warning,
              Choose_again (i + 1) (qtext (vasini ! i)) (keyboard_of (vasini ! i))]))"
proof
  show step: "process_survey_answer env msg s =
      Inr (s, [Log_warning,
               Choose_again (i + 1) (qtext (vasini ! i)) (keyboard_of (vasini ! i))])"
    using assms by (rule unparseable_answer_step)
  show "submit_times env msg n s =
      Inr (s, concat (replicate n
             [Log_warning,
              Choose_again (i + 1) (qtext (vasini ! i)) (keyboard_of (vasini ! i))]))"
    by (induction n) (simp_all add: step)
qed

lemma parse_maybe: "parse_option (ascii ''maybe'') = None"
  by (simp add: parser_defs)

theorem unparseable_answer_changes_nothing_witness:
  "ascii ''maybe'' \<noteq> cancel_text
   \<and> is_demo_questions (data inventory_session) = Some False
   \<and> waiting_for_vasini_confirmation (data inventory_session) \<noteq> Some True
   \<and> get_all_vasini_questions example_env = Some [first_question, second_question]
   \<and> get_or (question_index (data inventory_session)) 0 = 0
   \<and> 0 < length [first_question, second_question]
   \<and> parse_option (ascii ''maybe'') = None
   \<and> process_survey_answer example_env (ascii ''maybe'') inventory_session =
       Inr (inventory_session,
            [Log_warning,
             Choose_again 1 (qtext first_question) (keyboard_of first_question)])
   \<and> submit_times example_env (ascii ''maybe'') 3 inventory_session =
       Inr (inventory_session,
            [Log_warning,
             Choose_again 1 (qtext first_question) (keyboard_of first_question),
             Log_warning,
             Choose_again 1 (qtext first_question) (keyboard_of first_question),
             Log_warning,
             Choose_again 1 (qtext first_question) (keyboard_of first_question)])"
proof -
  have h: "ascii ''maybe'' \<noteq> cancel_text"
    "is_demo_questions (data inventory_session) = Some False"
    "waiting_for_vasini_confirmation (data inventory_session) \<noteq> Some True"
    "get_all_vasini_questions example_env = Some [first_question, second_question]"
    "get_or (question_index (data inventory_session)) 0 = 0"
    "0 < length [first_question, second_question]"
    "parse_option (ascii ''maybe'') = None"
    by (simp_all add: cancel_text_neq_ascii inventory_session_def started_data_def
        empty_data_def example_env_def get_or_def parse_maybe)
  from unparseable_answer_changes_nothing [OF h, of 3] h
  show ?thesis by (simp add: numeral_3_eq_3)
qed

section \<open>Cancelling\<close>

text \<open>What one call of a handler does to the state and to the mark of a completed profile.\<close>

lemma start_survey_effect:
  assumes "start_survey env s = Inr (s', evs)"
  shows "s' = s \<or> (get_or (profile_completed (data s)) False = False
    \<and> profile_completed (data s') = profile_completed (data s))"
  using assms
  by (auto simp: start_survey_def get_item_def split: if_splits sum.splits)

lemma process_survey_answer_effect:
  assumes "process_survey_answer env t s = Inr (s', evs)"
  shows "state s' = None
    \<or> (state s' = state s \<and> profile_completed (data s') = profile_completed (data s))"
  using assms
  by (auto simp: process_survey_answer_def demo_answer_def vasini_confirmation_def
      vasini_answer_def show_next_question_def complete_survey_def clear_def Let_def
      split: if_splits sum.splits option.splits prod.splits profile_result.splits)

lemma advice_effect:
  "get_advice_callback s g = Inr (s', evs) \<Longrightarrow>
     state s' = state s \<and> stored_profile s' = stored_profile s"
  "command_advice s g = Inr (s', evs) \<Longrightarrow>
     state s' = state s \<and> stored_profile s' = stored_profile s"
  by (auto simp: get_advice_callback_def command_advice_def stored_profile_def Let_def
      split: if_splits sum.splits prod.splits)

lemma handle_keeps_invariant:
  assumes "no_profile_while_answering s"
  shows "no_profile_while_answering (handle env a s)"
proof (cases a)
  case Start_survey
  show ?thesis
  proof (cases "start_survey env s")
    case (Inl e)
    with Start_survey assms show ?thesis by (simp add: store_after_def)
  next
    case (Inr r)
    obtain s' evs where r: "r = (s', evs)" by (cases r)
    from start_survey_effect [of env s s' evs] Inr r assms Start_survey show ?thesis
      by (auto simp: store_after_def no_profile_while_answering_def get_or_def
          split: option.splits)
  qed
next
  case Confirm_restart_survey
  have reset: "profile_completed (data (reset_for_restart s)) = Some False"
    by (simp add: reset_for_restart_def)
  show ?thesis
  proof (cases "start_survey env (reset_for_restart s)")
    case (Inl e)
    with Confirm_restart_survey reset show ?thesis
      by (simp add: store_after_def confirm_restart_survey_def no_profile_while_answering_def)
  next
    case (Inr r)
    obtain s' evs where r: "r = (s', evs)" by (cases r)
    from start_survey_effect [of env "reset_for_restart s" s' evs] Inr r reset
    have "profile_completed (data s') = Some False" by auto
    with Confirm_restart_survey Inr r show ?thesis
      by (simp add: store_after_def confirm_restart_survey_def no_profile_while_answering_def)
  qed
next
  case Confirm_profile_reset
  have reset: "profile_completed (data (reset_profile s)) = Some False"
    by (simp add: reset_profile_def)
  show ?thesis
  proof (cases "start_survey env (reset_profile s)")
    case (Inl e)
    with Confirm_profile_reset reset show ?thesis
      by (simp add: store_after_def confirm_profile_reset_def no_profile_while_answering_def)
  next
    case (Inr r)
    obtain s' evs where r: "r = (s', evs)" by (cases r)
    from start_survey_effect [of env "reset_profile s" s' evs] Inr r reset
    have "profile_completed (data s') = Some False" by auto
    with Confirm_profile_reset Inr r show ?thesis
      by (simp add: store_after_def confirm_profile_reset_def no_profile_while_answering_def)
  qed
next
  case (Message t)
  show ?thesis
  proof (cases "process_survey_answer env t s")
    case (Inl e)
    with Message assms show ?thesis by (simp add: store_after_def)
  next
    case (Inr r)
    obtain s' evs where r: "r = (s', evs)" by (cases r)
    from process_survey_answer_effect [of env t s s' evs] Inr r assms Message show ?thesis
      by (auto simp: store_after_def no_profile_while_answering_def)
  qed
next
  case Cancel_survey_command
  with assms show ?thesis
    by (simp add: cancel_survey_command_def clear_def no_profile_while_answering_def)
next
  case Command_profile
  with assms show ?thesis
    by (simp add: command_profile_def Let_def no_profile_while_answering_def)
next
  case Back_to_main_menu
  then show ?thesis
    by (simp add: back_to_main_menu_def no_profile_while_answering_def)
next
  case (Get_advice g)
  show ?thesis
  proof (cases "get_advice_callback s g")
    case (Inl e)
    with Get_advice assms show ?thesis by (simp add: store_after_def)
  next
    case (Inr r)
    obtain s' evs where r: "r = (s', evs)" by (cases r)
    from advice_effect(1) [of s g s' evs] Inr r assms Get_advice show ?thesis
      by (auto simp: store_after_def no_profile_while_answering_def stored_profile_def)
  qed
next
  case (Command_advice g)
  show ?thesis
  proof (cases "command_advice s g")
    case (Inl e)
    with Command_advice assms show ?thesis by (simp add: store_after_def)
  next
    case (Inr r)
    obtain s' evs where r: "r = (s', evs)" by (cases r)
    from advice_effect(2) [of s g s' evs] Inr r assms Command_advice show ?thesis
      by (auto simp: store_after_def no_profile_while_answering_def stored_profile_def)
  qed
qed

lemma reachable_invariant: "reachable s \<Longrightarrow> no_profile_while_answering s"
proof (induction rule: reachable.induct)
  case new_user
  show ?case by (simp add: no_profile_while_answering_def)
next
  case (action s a env)
  then show ?case by (simp add: handle_keeps_invariant)
qed

text \<open>
  A completed profile stays as it is under every action but the two confirmed resets.
\<close>

lemma completed_profile_kept:
  assumes "profile_completed (data s) = Some True" and "state s \<noteq> Some Answering_questions"
    and "enabled a s" and "a \<noteq> Confirm_restart_survey" and "a \<noteq> Confirm_profile_reset"
  shows "stored_profile (handle env a s) = stored_profile s"
proof (cases a)
  case Start_survey
  with assms(1) show ?thesis
    by (simp add: start_survey_def get_or_def store_after_def)
next
  case (Message t)
  with assms(2,3) show ?thesis by simp
next
  case Cancel_survey_command
  with assms(2) show ?thesis by (simp add: cancel_survey_command_def)
next
  case Command_profile
  then show ?thesis by (simp add: command_profile_def Let_def stored_profile_def)
next
  case Back_to_main_menu
  then show ?thesis by (simp add: back_to_main_menu_def stored_profile_def)
next
  case (Get_advice g)
  show ?thesis
  proof (cases "get_advice_callback s g")
    case (Inl e)
    with Get_advice show ?thesis by (simp add: store_after_def)
  next
    case (Inr r)
    obtain s' evs where r: "r = (s', evs)" by (cases r)
    from advice_effect(1) [of s g s' evs] Inr r Get_advice show ?thesis
      by (simp add: store_after_def)
  qed
next
  case (Command_advice g)
  show ?thesis
  proof (cases "command_advice s g")
    case (Inl e)
    with Command_advice show ?thesis by (simp add: store_after_def)
  next
    case (Inr r)
    obtain s' evs where r: "r = (s', evs)" by (cases r)
    from advice_effect(2) [of s g s' evs] Inr r Command_advice show ?thesis
      by (simp add: store_after_def)
  qed
qed (use assms in simp_all)


lemma reachable_examples:
  "reachable fresh_session" "reachable started_session" "reachable awaiting_session"
  "reachable inventory_session" "reachable last_question_session"
  "reachable completed_session"
proof -
  show 0: "reachable fresh_session"
    by (simp add: fresh_session_def reachable.new_user)
  from reachable.action [OF 0, of Start_survey example_env]
  show 1: "reachable started_session"
    by (simp add: run_start store_after_def)
  have "enabled (Message (ascii ''Bob'')) started_session"
    by (simp add: started_session_def)
  from reachable.action [OF 1 this, of example_env]
  show 2: "reachable awaiting_session"
    by (simp add: run_demo store_after_def)
  have "enabled (Message confirm_text) awaiting_session"
    by (simp add: awaiting_session_def)
  from reachable.action [OF 2 this, of example_env]
  show 3: "reachable inventory_session"
    by (simp add: run_confirm store_after_def)
  have "enabled (Message (ascii ''A'')) inventory_session"
    by (simp add: inventory_session_def)
  from reachable.action [OF 3 this, of example_env]
  show 4: "reachable last_question_session"
    by (simp add: run_first store_after_def)
  have "enabled (Message (ascii ''B'')) last_question_session"
    by (simp add: last_question_session_def)
  from reachable.action [OF 4 this, of example_env]
  show "reachable completed_session"
    by (simp add: run_last store_after_def)
qed

text \<open>
  Claim C5. In every session that the handlers reach, while a survey is open (the demo
  questions or the inventory, whatever the cursor) the cancel signal clears the session:
  the state is idle and the answers in progress are gone. No completed profile is stored
  at that moment, since a survey over a completed profile starts only after a confirmed
  reset, which takes the mark of completion away. Where a completed profile is stored, no
  survey is open, the handler of the cancel command changes nothing, and every action
  other than the two confirmed resets leaves the stored profile as it is.
\<close>

theorem cancel_returns_to_idle_and_spares_completed_profile:
  assumes "reachable s"
  shows "(state s = Some Answering_questions \<longrightarrow>
            process_survey_answer env cancel_text s =
              Inr (\<lparr>state = None, data = empty_data\<rparr>, [Survey_cancelled])
          \<and> cancel_survey_command s = (\<lparr>state = None, data = empty_data\<rparr>, [Survey_cancelled])
          \<and> profile_completed (data s) \<noteq> Some True)
    \<and> (profile_completed (data s) = Some True \<longrightarrow>
            state s \<noteq> Some Answering_questions
          \<and> cancel_survey_command s = (s, [No_active_survey])
          \<and> (\<forall>a. enabled a s \<and> a \<noteq> Confirm_restart_survey \<and> a \<noteq> Confirm_profile_reset
                 \<longrightarrow> stored_profile (handle env a s) = stored_profile s))"
proof -
  from assms have inv: "no_profile_while_answering s"
    by (rule reachable_invariant)
  have "process_survey_answer env cancel_text s =
      Inr (\<lparr>state = None, data = empty_data\<rparr>, [Survey_cancelled])"
    by (simp add: process_survey_answer_def clear_def)
  moreover have "state s = Some Answering_questions \<longrightarrow>
      cancel_survey_command s = (\<lparr>state = None, data = empty_data\<rparr>, [Survey_cancelled])"
    by (simp add: cancel_survey_command_def clear_def)
  moreover from inv have "state s = Some Answering_questions \<longrightarrow>
      profile_completed (data s) \<noteq> Some True"
    by (simp add: no_profile_while_answering_def)
  moreover have "profile_completed (data s) = Some True \<longrightarrow>
      state s \<noteq> Some Answering_questions
      \<and> cancel_survey_command s = (s, [No_active_survey])
      \<and> (\<forall>a. enabled a s \<and> a \<noteq> Confirm_restart_survey \<and> a \<noteq> Confirm_profile_reset
             \<longrightarrow> stored_profile (handle env a s) = stored_profile s)"
  proof
    assume completed: "profile_completed (data s) = Some True"
    with inv have idle: "state s \<noteq> Some Answering_questions"
      by (auto simp: no_profile_while_answering_def)
    then have "cancel_survey_command s = (s, [No_active_survey])"
      by (simp add: cancel_survey_command_def)
    moreover have "\<forall>a. enabled a s \<and> a \<noteq> Confirm_restart_survey \<and> a \<noteq> Confirm_profile_reset
             \<longrightarrow> stored_profile (handle env a s) = stored_profile s"
      using completed_profile_kept [OF completed idle] by blast
    ultimately show "state s \<noteq> Some Answering_questions
      \<and> cancel_survey_command s = (s, [No_active_survey])
      \<and> (\<forall>a. enabled a s \<and> a \<noteq> Confirm_restart_survey \<and> a \<noteq> Confirm_profile_reset
             \<longrightarrow> stored_profile (handle env a s) = stored_profile s)"
      using idle by blast
  qed
  ultimately show ?thesis by blast
qed

theorem cancel_returns_to_idle_and_spares_completed_profile_witness:
  "reachable last_question_session
   \<and> state last_question_session = Some Answering_questions
   \<and> answers (data last_question_session) =
       Some [(ascii ''name'', ascii ''Bob''), (ascii ''q1'', ascii ''A'')]
   \<and> process_survey_answer example_env cancel_text last_question_session =
       Inr (\<lparr>state = None, data = empty_data\<rparr>, [Survey_cancelled])
   \<and> profile_completed (data last_question_session) \<noteq> Some True
   \<and> reachable completed_session
   \<and> profile_completed (data completed_session) = Some True
   \<and> cancel_survey_command completed_session = (completed_session, [No_active_survey])
   \<and> stored_profile (handle example_env Start_survey completed_session) =
       stored_profile completed_session"
proof -
  have open_survey: "state last_question_session = Some Answering_questions"
    "answers (data last_question_session) =
       Some [(ascii ''name'', ascii ''Bob''), (ascii ''q1'', ascii ''A'')]"
    by (simp_all add: last_question_session_def started_data_def empty_data_def)
  have completed: "profile_completed (data completed_session) = Some True"
    by (simp add: completed_session_def started_data_def empty_data_def)
  have start: "enabled Start_survey completed_session \<and> Start_survey \<noteq> Confirm_restart_survey
      \<and> Start_survey \<noteq> Confirm_profile_reset"
    by simp
  from cancel_returns_to_idle_and_spares_completed_profile
      [OF reachable_examples(5), of example_env]
    cancel_returns_to_idle_and_spares_completed_profile
      [OF reachable_examples(6), of example_env]
    open_survey completed start reachable_examples(5,6)
  show ?thesis by blast
qed

section \<open>A missing interpretation\<close>

lemma parse_D: "parse_option (ascii ''D'') = Some (ascii ''D'')"
  by (simp add: parser_defs)

text \<open>
  Claim C9, as stated, fails. The first question of the example inventory has no entry
  for D, neither among its options nor among its interpretations. The answer "D" is
  recorded all the same: the failed lookup is logged, the cursor advances and the next
  question is shown.
\<close>

theorem answer_without_mapping_is_recorded:
  "map_of (options first_question) (ascii ''D'') = None
   \<and> map_of (interpretations first_question) (ascii ''D'') = None
   \<and> process_survey_answer example_env (ascii ''D'') inventory_session =
     Inr (inventory_session\<lparr>data := (data inventory_session)
            \<lparr>question_index := Some 1,
             answers := Some [(ascii ''name'', ascii ''Bob''), (ascii ''q1'', ascii ''D'')]\<rparr>\<rparr>,
          [Log_error,
           Vasini_question 2 (qtext second_question) (keyboard_of second_question)])"
  by (simp add: example_defs handler_defs cancel_text_neq_ascii parse_D) (simp add: ascii_def)

lemma answer_step:
  assumes "msg \<noteq> cancel_text"
    and "is_demo_questions (data s) = Some False"
    and "waiting_for_vasini_confirmation (data s) \<noteq> Some True"
    and "get_all_vasini_questions env = Some vasini"
    and "get_or (question_index (data s)) 0 = i" and "i < length vasini"
  shows "process_survey_answer env msg s =
    vasini_answer env vasini msg s i (get_or (answers (data s)) []) []"
proof -
  from assms(3) have "get_or (waiting_for_vasini_confirmation (data s)) False = False"
    by (cases "waiting_for_vasini_confirmation (data s)") (auto simp: get_or_def)
  with assms show ?thesis
    by (simp add: process_survey_answer_def Let_def) (simp add: get_or_def)
qed

text \<open>
  Claim C9, amended: an answered option with no entry in the question's interpretations
  is not fatal. The handler never fails on it: the failed lookup is logged as an error, no
  interpretation is sent, the letter is recorded under the question's id and the survey
  goes on, with the next question or, after the last one, with the completion. The
  recorded letter is one of A, B, C and D, whether the question lists it or not.
\<close>

theorem missing_interpretation_is_logged_and_survey_goes_on:
  assumes "msg \<noteq> cancel_text"
    and "is_demo_questions (data s) = Some False"
    and "waiting_for_vasini_confirmation (data s) \<noteq> Some True"
    and "get_all_vasini_questions env = Some vasini"
    and "get_or (question_index (data s)) 0 = i" and "i < length vasini"
    and "parse_option msg = Some opt"
    and "map_of (interpretations (vasini ! i)) opt = None"
    and "recorded = AList.update (qid (vasini ! i)) opt (get_or (answers (data s)) [])"
  shows "opt \<in> set option_letters
    \<and> map_of recorded (qid (vasini ! i)) = Some opt
    \<and> process_survey_answer env msg s =
       (if i + 1 < length vasini
        then Inr (s\<lparr>data := (data s)\<lparr>question_index := Some (i + 1),
                                      answers := Some recorded,
                                      is_demo_questions := Some False\<rparr>\<rparr>,
                  [Log_error,
                   Vasini_question (i + 2) (qtext (vasini ! (i + 1)))
                     (keyboard_of (vasini ! (i + 1)))])
        else Inr (fst (complete_survey env recorded s),
                  Log_error # snd (complete_survey env recorded s)))"
proof -
  have "opt \<in> set option_letters"
    using assms(7) parse_option_Some by blast
  moreover have "map_of recorded (qid (vasini ! i)) = Some opt"
    by (simp add: assms(9) update_conv')
  moreover have "process_survey_answer env msg s =
       (if i + 1 < length vasini
        then Inr (s\<lparr>data := (data s)\<lparr>question_index := Some (i + 1),
                                      answers := Some recorded,
                                      is_demo_questions := Some False\<rparr>\<rparr>,
                  [Log_error,
                   Vasini_question (i + 2) (qtext (vasini ! (i + 1)))
                     (keyboard_of (vasini ! (i + 1)))])
        else Inr (fst (complete_survey env recorded s),
                  Log_error # snd (complete_survey env recorded s)))"
    using assms(6-9)
    by (simp add: answer_step [OF assms(1-6)] vasini_answer_def show_next_question_def
        get_item_def Let_def split: prod.splits)
  ultimately show ?thesis by blast
qed

theorem missing_interpretation_is_logged_and_survey_goes_on_witness:
  "ascii ''D'' \<noteq> cancel_text
   \<and> is_demo_questions (data inventory_session) = Some False
   \<and> waiting_for_vasini_confirmation (data inventory_session) \<noteq> Some True
   \<and> get_all_vasini_questions example_env = Some [first_question, second_question]
   \<and> get_or (question_index (data inventory_session)) 0 = 0
   \<and> 0 < length [first_question, second_question]
   \<and> parse_option (ascii ''D'') = Some (ascii ''D'')
   \<and> map_of (interpretations ([first_question, second_question] ! 0)) (ascii ''D'') = None
   \<and> ascii ''D'' \<in> set option_letters
   \<and> process_survey_answer example_env (ascii ''D'') inventory_session =
       Inr (inventory_session\<lparr>data := (data inventory_session)
              \<lparr>question_index := Some 1,
               answers := Some (AList.update (ascii ''q1'') (ascii ''D'')
                                  [(ascii ''name'', ascii ''Bob'')]),
               is_demo_questions := Some False\<rparr>\<rparr>,
            [Log_error,
             Vasini_question 2 (qtext second_question) (keyboard_of second_question)])"
proof -
  have h: "ascii ''D'' \<noteq> cancel_text"
    "is_demo_questions (data inventory_session) = Some False"
    "waiting_for_vasini_confirmation (data inventory_session) \<noteq> Some True"
    "get_all_vasini_questions example_env = Some [first_question, second_question]"
    "get_or (question_index (data inventory_session)) 0 = 0"
    "0 < length [first_question, second_question]"
    "parse_option (ascii ''D'') = Some (ascii ''D'')"
    by (simp_all add: cancel_text_neq_ascii inventory_session_def started_data_def
        empty_data_def example_env_def get_or_def parse_D)
  have m: "map_of (interpretations ([first_question, second_question] ! 0)) (ascii ''D'') = None"
    by (simp add: first_question_def ascii_def)
  have r: "AList.update (ascii ''q1'') (ascii ''D'') [(ascii ''name'', ascii ''Bob'')] =
      AList.update (qid ([first_question, second_question] ! 0)) (ascii ''D'')
        (get_or (answers (data inventory_session)) [])"
    by (simp add: first_question_def inventory_session_def started_data_def empty_data_def
        get_or_def)
  from missing_interpretation_is_logged_and_survey_goes_on [OF h m r] h m
  show ?thesis by simp
qed

section \<open>Splitting a long profile\<close>

lemma split_lines_not_Nil: "split_lines t \<noteq> []"
  by (induction t) auto

lemma split_lines_no_newline: "newline \<notin> set t \<Longrightarrow> split_lines t = [t]"
  by (induction t) auto

lemma concat_split_lines:
  "concat (map (\<lambda>line. line @ [newline]) (split_lines t)) = t @ [newline]"
proof (induction t)
  case Nil
  then show ?case by simp
next
  case (Cons c cs)
  then show ?case
    by (cases "split_lines cs") (auto simp: split_lines_not_Nil)
qed

lemma concat_split_loop:
  "split_loop lines parts cur = (parts', cur') \<Longrightarrow>
   concat parts' @ cur' = concat parts @ cur @ concat (map (\<lambda>line. line @ [newline]) lines)"
  by (induction lines arbitrary: parts cur) (auto split: if_splits)

text \<open>Nothing of the profile is lost: the parts, put together, are the profile and a line feed.\<close>

lemma concat_split_profile: "concat (split_profile t) = t @ [newline]"
proof -
  obtain parts cur where r: "split_loop (split_lines t) [] [] = (parts, cur)"
    by (cases "split_loop (split_lines t) [] []")
  from concat_split_loop [OF r] have "concat parts @ cur = t @ [newline]"
    by (simp add: concat_split_lines)
  with r show ?thesis
    by (auto simp: split_profile_def)
qed

lemma split_loop_bound:
  assumes "split_loop lines parts cur = (parts', cur')"
    and "\<forall>line \<in> set lines. length line < max_message_length"
    and "\<forall>part \<in> set parts. length part \<le> max_message_length"
    and "length cur \<le> max_message_length"
  shows "(\<forall>part \<in> set parts'. length part \<le> max_message_length)
    \<and> length cur' \<le> max_message_length"
  using assms
proof (induction lines arbitrary: parts cur)
  case Nil
  then show ?case by simp
next
  case (Cons line lines)
  show ?case
  proof (cases "length cur + length line + 1 \<le> max_message_length")
    case True
    with Cons.prems have "split_loop lines parts (cur @ line @ [newline]) = (parts', cur')"
      by simp
    from Cons.IH [OF this] Cons.prems True show ?thesis by simp
  next
    case False
    with Cons.prems have "split_loop lines (parts @ [cur]) (line @ [newline]) = (parts', cur')"
      by simp
    from Cons.IH [OF this] Cons.prems show ?thesis by auto
  qed
qed

text \<open>When every line is shorter than the limit, no part is longer than the limit.\<close>

lemma split_profile_bound:
  assumes "\<forall>line \<in> set (split_lines t). length line < max_message_length"
    and "part \<in> set (split_profile t)"
  shows "length part \<le> max_message_length"
proof -
  obtain parts cur where r: "split_loop (split_lines t) [] [] = (parts, cur)"
    by (cases "split_loop (split_lines t) [] []")
  from split_loop_bound [OF r assms(1)]
  have "(\<forall>part \<in> set parts. length part \<le> max_message_length) \<and> length cur \<le> max_message_length"
    by simp
  with r assms(2) show ?thesis
    by (auto simp: split_profile_def split: if_splits)
qed

lemma split_profile_long_line:
  assumes "newline \<notin> set t" and "max_message_length < length t"
  shows "split_profile t = [[], t @ [newline]]"
  using assms by (simp add: split_profile_def split_lines_no_newline)

text \<open>
  Claim C6. A profile of 4001 characters without a line feed is one line. Its length plus
  one is over the limit, so the empty \<^verbatim>\<open>current_part\<close> is appended to the parts and
  the line, with a line feed, becomes the next part: two messages, the first one empty and
  the second one of 4002 characters, more than the 4000 of the limit.
\<close>

theorem profile_of_one_long_line_exceeds_limit:
  "length (replicate 4001 (97 :: nat)) = 4001
   \<and> profile_chunks (replicate 4001 97) = [[], replicate 4001 97 @ [newline]]
   \<and> send_profile (replicate 4001 97) =
       [Profile_message [] False, Profile_message (replicate 4001 97 @ [newline]) True]
   \<and> length (replicate 4001 (97 :: nat) @ [newline]) = 4002
   \<and> max_message_length < 4002"
proof -
  have "newline \<notin> set (replicate 4001 (97 :: nat))"
    by (simp add: newline_def)
  moreover have "max_message_length < length (replicate 4001 (97 :: nat))"
    by (simp add: max_message_length_def)
  ultimately have "split_profile (replicate 4001 97) = [[], replicate 4001 97 @ [newline]]"
    by (rule split_profile_long_line)
  then show ?thesis
    by (simp add: profile_chunks_def send_profile_def max_message_length_def)
qed

section \<open>The dictionaries of the advice engine\<close>

lemmas type_name_defs =
  type_intellectual_def type_emotional_def type_practical_def type_creative_def
  type_analytical_def

lemma keys_of_dictionaries:
  "map fst keywords_dict = known_types" "map fst aspects = known_types"
  "map fst emoji_map = known_types" "map fst techniques = known_types"
  "map fst contexts = known_types" "map fst results = known_types"
  by (simp_all add: keywords_dict_def aspects_def emoji_map_def techniques_def contexts_def
      results_def known_types_def)

lemma default_entries:
  "map_of aspects default_type = Some aspects_intellectual"
  "map_of emoji_map default_type = Some emoji_map_intellectual"
  "map_of techniques default_type = Some techniques_intellectual"
  "map_of contexts default_type = Some contexts_intellectual"
  "map_of results default_type = Some results_intellectual"
  "map_of advice_by_type type_intellectual = Some advice_by_type_intellectual"
  by (simp_all add: aspects_def emoji_map_def techniques_def contexts_def results_def
      advice_by_type_def default_type_def)

lemma dict_get_unknown:
  assumes "key \<notin> Some ` fst ` set d"
  shows "dict_get d key dflt = dflt"
proof (cases key)
  case None
  then show ?thesis by (simp add: dict_get_def)
next
  case (Some k)
  with assms have "k \<notin> fst ` set d" by auto
  then have "map_of d k = None" by (simp add: map_of_eq_None_iff)
  with Some show ?thesis by (simp add: dict_get_def)
qed

lemma dict_get_cases:
  "dict_get d key dflt = dflt \<or> (\<exists>k. key = Some k \<and> (k, dict_get d key dflt) \<in> set d)"
  by (auto simp: dict_get_def split: option.splits dest: map_of_SomeD)

lemma dict_get_not_Nil:
  assumes "\<forall>(k, v) \<in> set d. v \<noteq> []" and "dflt \<noteq> []"
  shows "dict_get d key dflt \<noteq> []"
  using assms dict_get_cases [of d key dflt] by auto

lemma nonempty_aspects: "\<forall>(k, v) \<in> set aspects. v \<noteq> []"
  by (simp add: aspects_def aspects_intellectual_def aspects_emotional_def
      aspects_practical_def aspects_creative_def aspects_analytical_def)

lemma nonempty_emoji_map: "\<forall>(k, v) \<in> set emoji_map. v \<noteq> []"
  by (simp add: emoji_map_def emoji_map_intellectual_def emoji_map_emotional_def
      emoji_map_practical_def emoji_map_creative_def emoji_map_analytical_def)

lemma nonempty_techniques: "\<forall>(k, v) \<in> set techniques. v \<noteq> []"
  by (simp add: techniques_def techniques_intellectual_def techniques_emotional_def
      techniques_practical_def techniques_creative_def techniques_analytical_def)

lemma nonempty_contexts: "\<forall>(k, v) \<in> set contexts. v \<noteq> []"
  by (simp add: contexts_def contexts_intellectual_def contexts_emotional_def
      contexts_practical_def contexts_creative_def contexts_analytical_def)

lemma nonempty_results: "\<forall>(k, v) \<in> set results. v \<noteq> []"
  by (simp add: results_def results_intellectual_def results_emotional_def
      results_practical_def results_creative_def results_analytical_def)

lemma nonempty_advice_by_type: "\<forall>(k, v) \<in> set advice_by_type. v \<noteq> []"
  by (simp add: advice_by_type_def advice_by_type_intellectual_def
      advice_by_type_emotional_def advice_by_type_practical_def advice_by_type_creative_def)

section \<open>The dominant type\<close>

lemma map_fst_map_entry: "map fst (AList.map_entry k f al) = map fst al"
  by (induction al) auto

lemma map_fst_tally_keyword: "map fst (tally_keyword keyword counts) = map fst counts"
proof -
  have "map fst (fold (\<lambda>(type_name, type_keywords) c.
             if lower keyword \<in> set (map lower type_keywords)
             then AList.map_entry type_name Suc c else c) ds counts) = map fst counts" for ds
    by (induction ds arbitrary: counts) (auto simp: map_fst_map_entry)
  then show ?thesis by (simp add: tally_keyword_def)
qed

lemma map_fst_fold_tally: "map fst (fold tally_keyword found counts) = map fst counts"
  by (induction found arbitrary: counts) (auto simp: map_fst_tally_keyword)

lemma map_fst_tally: "map fst (tally found) = known_types"
  by (simp add: tally_def map_fst_fold_tally keys_of_dictionaries [symmetric] comp_def
      case_prod_unfold)

lemma max_count_in: "max_count best xs \<in> set (best # xs)"
  by (induction xs arbitrary: best) (auto split: if_splits)

lemma py_max_tally: "\<exists>dominant n. py_max (tally found) = Inr (dominant, n) \<and> dominant \<in> set known_types"
proof (cases "tally found")
  case Nil
  with map_fst_tally [of found] show ?thesis by (simp add: known_types_def)
next
  case (Cons x xs)
  obtain d n where dn: "max_count x xs = (d, n)" by (cases "max_count x xs")
  with max_count_in [of x xs] Cons have "(d, n) \<in> set (tally found)" by simp
  then have "d \<in> set (map fst (tally found))" by force
  then have "d \<in> set known_types" by (simp only: map_fst_tally)
  moreover from dn Cons have "py_max (tally found) = Inr (d, n)" by (simp add: py_max_def)
  ultimately show ?thesis by blast
qed


section \<open>The lists of a personality type\<close>

lemma extract_key_aspects_total:
  "\<exists>found. extract_key_aspects profile pt = Inr found"
  using py_max_tally [of "found_keywords profile"]
  by (auto simp: extract_key_aspects_def Let_def)

lemma extract_key_aspects_unknown:
  assumes "pt \<notin> Some ` set known_types"
  shows "extract_key_aspects profile pt = Inr aspects_intellectual
    \<or> (\<exists>dominant \<in> set known_types.
         extract_key_aspects profile pt =
           Inr (aspects_intellectual @ dict_get aspects (Some dominant) aspects_intellectual))"
proof -
  have unknown: "pt \<notin> Some ` fst ` set aspects"
    using assms keys_of_dictionaries(2) by (metis set_map)
  have dflt: "dict_get aspects (Some default_type) [] = aspects_intellectual"
    by (simp add: dict_get_def default_entries)
  have own: "dict_get aspects pt aspects_intellectual = aspects_intellectual"
    using unknown by (rule dict_get_unknown)
  obtain dominant n where d: "py_max (tally (found_keywords profile)) = Inr (dominant, n)"
    "dominant \<in> set known_types"
    using py_max_tally by blast
  from d(2) assms have "Some dominant \<noteq> pt" by auto
  with d show ?thesis
    by (auto simp: extract_key_aspects_def Let_def dflt own)
qed

lemma pools_for_total:
  "\<exists>p. pools_for profile pt = Inr p \<and> aspect_list p \<noteq> [] \<and> technique_list p \<noteq> []
     \<and> context_list p \<noteq> [] \<and> result_list p \<noteq> [] \<and> emoji_list p \<noteq> []"
proof -
  obtain found where f: "extract_key_aspects profile pt = Inr found"
    using extract_key_aspects_total by blast
  have "dict_get techniques pt (dict_get techniques (Some default_type) [fallback_technique]) \<noteq> []"
    "dict_get contexts pt (dict_get contexts (Some default_type) [fallback_context]) \<noteq> []"
    "dict_get results pt (dict_get results (Some default_type) [fallback_result]) \<noteq> []"
    "dict_get emoji_map pt (dict_get emoji_map (Some default_type) [fallback_emoji]) \<noteq> []"
    by (simp_all add: dict_get_not_Nil nonempty_techniques nonempty_contexts nonempty_results
        nonempty_emoji_map)
  with f show ?thesis by (simp add: pools_for_def)
qed

section \<open>Drawing a sentence\<close>

lemma random_choice_Inr:
  "xs \<noteq> [] \<Longrightarrow> \<exists>x g'. random_choice xs g = Inr (x, g') \<and> x \<in> set xs"
  by (simp add: random_choice_def)

lemma nonempty_pools_draw:
  assumes "aspect_list p \<noteq> []" "technique_list p \<noteq> []" "context_list p \<noteq> []"
    "result_list p \<noteq> []" "emoji_list p \<noteq> []"
  shows first_advice_total: "\<exists>advice g'. first_advice p g = Inr (advice, g') \<and> drawn_from p advice"
    and resample_total: "\<exists>advice g'. resample p g = Inr (advice, g') \<and> drawn_from p advice"
proof -
  show "\<exists>advice g'. first_advice p g = Inr (advice, g') \<and> drawn_from p advice"
  proof -
    obtain e g1 where 1: "random_choice (emoji_list p) g = Inr (e, g1)" "e \<in> set (emoji_list p)"
      using random_choice_Inr [OF assms(5)] by blast
    obtain a g2 where 2: "random_choice (aspect_list p) g1 = Inr (a, g2)" "a \<in> set (aspect_list p)"
      using random_choice_Inr [OF assms(1)] by blast
    obtain t g3 where 3: "random_choice (technique_list p) g2 = Inr (t, g3)" "t \<in> set (technique_list p)"
      using random_choice_Inr [OF assms(2)] by blast
    obtain c g4 where 4: "random_choice (context_list p) g3 = Inr (c, g4)" "c \<in> set (context_list p)"
      using random_choice_Inr [OF assms(3)] by blast
    obtain r g5 where 5: "random_choice (result_list p) g4 = Inr (r, g5)" "r \<in> set (result_list p)"
      using random_choice_Inr [OF assms(4)] by blast
    from 1 2 3 4 5 have "first_advice p g = Inr (compose_advice e a t r c, g5)"
      by (simp add: first_advice_def)
    moreover from 1 2 3 4 5 have "drawn_from p (compose_advice e a t r c)"
      unfolding drawn_from_def by blast
    ultimately show ?thesis by blast
  qed
  show "\<exists>advice g'. resample p g = Inr (advice, g') \<and> drawn_from p advice"
  proof -
    obtain a g1 where 1: "random_choice (aspect_list p) g = Inr (a, g1)" "a \<in> set (aspect_list p)"
      using random_choice_Inr [OF assms(1)] by blast
    obtain t g2 where 2: "random_choice (technique_list p) g1 = Inr (t, g2)" "t \<in> set (technique_list p)"
      using random_choice_Inr [OF assms(2)] by blast
    obtain c g3 where 3: "random_choice (context_list p) g2 = Inr (c, g3)" "c \<in> set (context_list p)"
      using random_choice_Inr [OF assms(3)] by blast
    obtain r g4 where 4: "random_choice (result_list p) g3 = Inr (r, g4)" "r \<in> set (result_list p)"
      using random_choice_Inr [OF assms(4)] by blast
    obtain e g5 where 5: "random_choice (emoji_list p) g4 = Inr (e, g5)" "e \<in> set (emoji_list p)"
      using random_choice_Inr [OF assms(5)] by blast
    from 1 2 3 4 5 have "resample p g = Inr (compose_advice e a t r c, g5)"
      by (simp add: resample_def)
    moreover from 1 2 3 4 5 have "drawn_from p (compose_advice e a t r c)"
      unfolding drawn_from_def by blast
    ultimately show ?thesis by blast
  qed
qed

section \<open>The loop\<close>

lemma unique_loop_bounded:
  assumes "aspect_list p \<noteq> []" "technique_list p \<noteq> []" "context_list p \<noteq> []"
    "result_list p \<noteq> []" "emoji_list p \<noteq> []"
    and "drawn_from p advice" and "attempts \<le> 5"
  shows "\<exists>advice' n. unique_loop history p advice attempts g = Inr (advice', n)
    \<and> attempts \<le> n \<and> n \<le> 5 \<and> (n < 5 \<longrightarrow> advice' \<notin> set history)
    \<and> (advice \<notin> set history \<longrightarrow> advice' = advice \<and> n = attempts)
    \<and> drawn_from p advice'"
  using assms
proof (induction history p advice attempts g rule: unique_loop.induct)
  case (1 history p advice attempts g)
  note pools = "1.prems"(1-5)
  show ?case
  proof (cases "advice \<in> set history \<and> attempts < 5")
    case True
    obtain advice1 g1 where r: "resample p g = Inr (advice1, g1)" "drawn_from p advice1"
      using resample_total [OF pools, of g] by blast
    from True have "attempts + 1 \<le> 5" by simp
    from "1.IH" [OF True r(1) refl pools r(2) this]
    obtain advice' n where
      "unique_loop history p advice1 (attempts + 1) g1 = Inr (advice', n)"
      "attempts + 1 \<le> n" "n \<le> 5" "n < 5 \<longrightarrow> advice' \<notin> set history" "drawn_from p advice'"
      by blast
    with True r(1) show ?thesis by auto
  next
    case False
    with "1.prems" show ?thesis by auto
  qed
qed

section \<open>Concrete runs of the advice engine\<close>

lemmas keyword_defs =
  keywords_dict_def keywords_dict_intellectual_def keywords_dict_emotional_def
  keywords_dict_practical_def keywords_dict_creative_def keywords_dict_analytical_def

lemma no_keywords_in_plain: "found_keywords (ascii ''plain'') = []"
  by (simp add: found_keywords_def all_keywords_def keyword_defs ascii_def lower_def
      lower_char_def)

lemma random_choice_first: "xs \<noteq> [] \<Longrightarrow> random_choice xs (\<lambda>n. 0) = Inr (hd xs, \<lambda>n. 0)"
  by (simp add: random_choice_def hd_conv_nth)

lemma intellectual_lists_not_Nil:
  "aspects_intellectual \<noteq> []" "emoji_map_intellectual \<noteq> []" "techniques_intellectual \<noteq> []"
  "contexts_intellectual \<noteq> []" "results_intellectual \<noteq> []"
  using nonempty_aspects nonempty_emoji_map nonempty_techniques nonempty_contexts
    nonempty_results default_entries
  by (auto dest: map_of_SomeD)

lemma first_draws:
  "first_advice intellectual_pools (\<lambda>n. 0) = Inr (first_sentence, \<lambda>n. 0)"
  "resample intellectual_pools (\<lambda>n. 0) = Inr (first_sentence, \<lambda>n. 0)"
  by (simp_all add: first_advice_def resample_def intellectual_pools_def first_sentence_def
      random_choice_first intellectual_lists_not_Nil)

lemma loop_without_history:
  "unique_loop [] intellectual_pools first_sentence 0 (\<lambda>n. 0) = Inr (first_sentence, 0)"
  by simp

lemma loop_with_duplicate:
  "unique_loop [first_sentence] intellectual_pools first_sentence 0 (\<lambda>n. 0) =
     Inr (first_sentence, 5)"
  by (simp add: first_draws)

section \<open>An unknown personality type\<close>

lemma advice_and_attempts_total:
  "\<exists>p advice attempts. pools_for profile pt = Inr p
     \<and> advice_and_attempts profile pt history g = Inr (advice, attempts)
     \<and> generate_unique_advice profile pt history g = Inr advice
     \<and> attempts \<le> 5 \<and> (attempts < 5 \<longrightarrow> advice \<notin> set history) \<and> drawn_from p advice"
proof -
  obtain p where p: "pools_for profile pt = Inr p" "aspect_list p \<noteq> []"
    "technique_list p \<noteq> []" "context_list p \<noteq> []" "result_list p \<noteq> []" "emoji_list p \<noteq> []"
    using pools_for_total by blast
  obtain advice0 g' where f: "first_advice p g = Inr (advice0, g')" "drawn_from p advice0"
    using first_advice_total [OF p(2-6)] by blast
  obtain advice n where l: "unique_loop history p advice0 0 g' = Inr (advice, n)"
    "n \<le> 5" "n < 5 \<longrightarrow> advice \<notin> set history" "drawn_from p advice"
    using unique_loop_bounded [OF p(2-6) f(2), of 0 history g'] by auto
  from p(1) f(1) l(1) have "advice_and_attempts profile pt history g = Inr (advice, n)"
    by (simp add: advice_and_attempts_def)
  moreover from this have "generate_unique_advice profile pt history g = Inr advice"
    by (simp add: generate_unique_advice_def)
  ultimately show ?thesis using p(1) l by blast
qed

text \<open>
  Claim C7. For a personality type that is none of the five known names (the value
  \<^verbatim>\<open>None\<close> included), each of the five lookups gives the list of the default type.
  The lists from which the advice is put together are then the default type's emoji,
  techniques, contexts and results, and the default type's aspects, followed by the
  aspects of the dominant type when the profile holds keywords. No lookup fails: the
  advice is returned, and it is a sentence drawn from these lists.
\<close>

theorem unknown_type_falls_back_at_every_lookup:
  assumes "pt \<notin> Some ` set known_types"
  shows "dict_get aspects pt (dict_get aspects (Some default_type) []) = aspects_intellectual
    \<and> dict_get emoji_map pt (dict_get emoji_map (Some default_type) [fallback_emoji])
        = emoji_map_intellectual
    \<and> dict_get techniques pt (dict_get techniques (Some default_type) [fallback_technique])
        = techniques_intellectual
    \<and> dict_get contexts pt (dict_get contexts (Some default_type) [fallback_context])
        = contexts_intellectual
    \<and> dict_get results pt (dict_get results (Some default_type) [fallback_result])
        = results_intellectual
    \<and> (\<exists>p advice. pools_for profile pt = Inr p
          \<and> emoji_list p = emoji_map_intellectual
          \<and> technique_list p = techniques_intellectual
          \<and> context_list p = contexts_intellectual
          \<and> result_list p = results_intellectual
          \<and> (aspect_list p = aspects_intellectual
             \<or> (\<exists>dominant \<in> set known_types.
                   aspect_list p =
                     aspects_intellectual @ dict_get aspects (Some dominant) aspects_intellectual))
          \<and> generate_unique_advice profile pt history g = Inr advice
          \<and> drawn_from p advice)"
proof -
  have unknown: "pt \<notin> Some ` fst ` set aspects" "pt \<notin> Some ` fst ` set emoji_map"
    "pt \<notin> Some ` fst ` set techniques" "pt \<notin> Some ` fst ` set contexts"
    "pt \<notin> Some ` fst ` set results"
    using assms keys_of_dictionaries by (metis set_map)+
  have a: "dict_get aspects pt (dict_get aspects (Some default_type) []) = aspects_intellectual"
    by (simp add: dict_get_unknown [OF unknown(1)]) (simp add: dict_get_def default_entries)
  have e: "dict_get emoji_map pt (dict_get emoji_map (Some default_type) [fallback_emoji])
        = emoji_map_intellectual"
    by (simp add: dict_get_unknown [OF unknown(2)]) (simp add: dict_get_def default_entries)
  have t: "dict_get techniques pt (dict_get techniques (Some default_type) [fallback_technique])
        = techniques_intellectual"
    by (simp add: dict_get_unknown [OF unknown(3)]) (simp add: dict_get_def default_entries)
  have c: "dict_get contexts pt (dict_get contexts (Some default_type) [fallback_context])
        = contexts_intellectual"
    by (simp add: dict_get_unknown [OF unknown(4)]) (simp add: dict_get_def default_entries)
  have r: "dict_get results pt (dict_get results (Some default_type) [fallback_result])
        = results_intellectual"
    by (simp add: dict_get_unknown [OF unknown(5)]) (simp add: dict_get_def default_entries)
  obtain p advice where p: "pools_for profile pt = Inr p"
    "generate_unique_advice profile pt history g = Inr advice" "drawn_from p advice"
    using advice_and_attempts_total [of profile pt history g] by blast
  have ne: "aspects_intellectual \<noteq> []"
    using nonempty_aspects default_entries(1) by (auto dest: map_of_SomeD)
  have "aspect_list p = aspects_intellectual
      \<or> (\<exists>dominant \<in> set known_types.
            aspect_list p =
              aspects_intellectual @ dict_get aspects (Some dominant) aspects_intellectual)"
  proof -
    obtain found where f: "extract_key_aspects profile pt = Inr found"
      "found = aspects_intellectual
       \<or> (\<exists>dominant \<in> set known_types.
            found = aspects_intellectual @ dict_get aspects (Some dominant) aspects_intellectual)"
      using extract_key_aspects_unknown [OF assms, of profile] by auto
    from f(2) ne have "found \<noteq> []" by auto
    with f(1) p(1) have "aspect_list p = found" by (auto simp: pools_for_def)
    with f(2) show ?thesis by simp
  qed
  moreover from p(1) e t c r have "emoji_list p = emoji_map_intellectual"
    "technique_list p = techniques_intellectual" "context_list p = contexts_intellectual"
    "result_list p = results_intellectual"
    by (auto simp: pools_for_def split: sum.splits)
  ultimately show ?thesis using a e t c r p by blast
qed

lemma unknown_visionary: "Some (ascii ''Visionary'') \<notin> Some ` set known_types"
  by (simp add: known_types_def type_name_defs ascii_def)

theorem unknown_type_falls_back_at_every_lookup_witness:
  "Some (ascii ''Visionary'') \<notin> Some ` set known_types
   \<and> dict_get aspects (Some (ascii ''Visionary'')) (dict_get aspects (Some default_type) [])
       = aspects_intellectual
   \<and> dict_get emoji_map (Some (ascii ''Visionary''))
         (dict_get emoji_map (Some default_type) [fallback_emoji]) = emoji_map_intellectual
   \<and> pools_for (ascii ''plain'') (Some (ascii ''Visionary'')) = Inr intellectual_pools
   \<and> generate_unique_advice (ascii ''plain'') (Some (ascii ''Visionary'')) [] (\<lambda>n. 0)
       = Inr first_sentence
   \<and> drawn_from intellectual_pools first_sentence"
proof -
  note fallback = unknown_type_falls_back_at_every_lookup [OF unknown_visionary,
      of "ascii ''plain''" "[]" "\<lambda>n. 0"]
  have pools: "pools_for (ascii ''plain'') (Some (ascii ''Visionary'')) = Inr intellectual_pools"
    using fallback intellectual_lists_not_Nil
    by (simp add: pools_for_def extract_key_aspects_def no_keywords_in_plain
        intellectual_pools_def)
  then have advice: "generate_unique_advice (ascii ''plain'') (Some (ascii ''Visionary'')) []
       (\<lambda>n. 0) = Inr first_sentence"
    by (simp add: generate_unique_advice_def advice_and_attempts_def first_draws)
  from fallback pools advice have "drawn_from intellectual_pools first_sentence"
    by auto
  with fallback pools advice unknown_visionary show ?thesis
    by blast
qed

section \<open>The bounded retry\<close>

text \<open>
  Claim C8. For every profile, personality type, history and random source the function
  returns an advice. The count of attempts at the exit of the loop, one for each sentence
  drawn again, is at most 5, so at most 6 sentences are put together. When fewer than 5
  attempts were made the advice is not in the history; after 5 attempts the last sentence
  is returned as it is.
\<close>

theorem resampling_is_bounded:
  "\<exists>advice attempts.
     advice_and_attempts profile pt history g = Inr (advice, attempts)
     \<and> generate_unique_advice profile pt history g = Inr advice
     \<and> attempts \<le> 5
     \<and> (attempts < 5 \<longrightarrow> advice \<notin> set history)"
  using advice_and_attempts_total [of profile pt history g] by blast

lemma pools_for_plain_intellectual:
  "pools_for (ascii ''plain'') (Some type_intellectual) = Inr intellectual_pools"
  using intellectual_lists_not_Nil
  by (simp add: pools_for_def extract_key_aspects_def no_keywords_in_plain
      intellectual_pools_def dict_get_def default_entries [unfolded default_type_def])

lemma first_sentence_not_old: "first_sentence \<noteq> ascii ''Sleep more''"
proof
  assume "first_sentence = ascii ''Sleep more''"
  then have "last first_sentence = last (ascii ''Sleep more'')" by simp
  then show False
    by (simp add: first_sentence_def compose_advice_def advice_part5_def ascii_def)
qed

theorem resampling_is_bounded_witness:
  "advice_and_attempts (ascii ''plain'') (Some type_intellectual) [ascii ''Sleep more'']
       (\<lambda>n. 0) = Inr (first_sentence, 0)
   \<and> (0 :: nat) < 5
   \<and> first_sentence \<notin> set [ascii ''Sleep more'']
   \<and> advice_and_attempts (ascii ''plain'') (Some type_intellectual) [first_sentence]
       (\<lambda>n. 0) = Inr (first_sentence, 5)
   \<and> generate_unique_advice (ascii ''plain'') (Some type_intellectual) [first_sentence]
       (\<lambda>n. 0) = Inr first_sentence
   \<and> first_sentence \<in> set [first_sentence]"
proof -
  have fresh: "advice_and_attempts (ascii ''plain'') (Some type_intellectual)
       [ascii ''Sleep more''] (\<lambda>n. 0) = Inr (first_sentence, 0)"
    by (simp add: advice_and_attempts_def pools_for_plain_intellectual first_draws
        first_sentence_not_old)
  have dup: "advice_and_attempts (ascii ''plain'') (Some type_intellectual) [first_sentence]
       (\<lambda>n. 0) = Inr (first_sentence, 5)"
    by (simp add: advice_and_attempts_def pools_for_plain_intellectual first_draws)
  from resampling_is_bounded [of "ascii ''plain''" "Some type_intellectual"
      "[ascii ''Sleep more'']" "\<lambda>n. 0"] fresh
  have unique: "first_sentence \<notin> set [ascii ''Sleep more'']"
    by auto
  from resampling_is_bounded [of "ascii ''plain''" "Some type_intellectual"
      "[first_sentence]" "\<lambda>n. 0"] dup
  have returned: "generate_unique_advice (ascii ''plain'') (Some type_intellectual)
       [first_sentence] (\<lambda>n. 0) = Inr first_sentence"
    by auto
  from fresh dup unique returned show ?thesis by simp
qed

section \<open>Advice without a profile\<close>

lemma keep_last_20_append:
  "last (keep_last_20 (used @ [advice])) = advice"
  "length (keep_last_20 (used @ [advice])) \<le> 20"
  "length used < 20 \<Longrightarrow> keep_last_20 (used @ [advice]) = used @ [advice]"
  by (auto simp: keep_last_20_def)

lemma standard_advice_default:
  "standard_advice (Some type_intellectual) g = Inr (advice_by_type_intellectual ! (g 0 mod 2))"
proof -
  have len: "length advice_by_type_intellectual = 2"
    by (simp add: advice_by_type_intellectual_def)
  then have "advice_by_type_intellectual \<noteq> []" by auto
  with len show ?thesis
    by (simp add: standard_advice_def dict_item_def dict_get_def default_entries
        random_choice_def)
qed

text \<open>
  Claim C10. \<^verbatim>\<open>get_advice_callback\<close> asks for no completed profile. In any session
  that stores no personality type and no profile details, whatever else it stores, the
  type defaults to the default type and the details to the empty string, so the canned
  list is used and its use is logged: the advice is one of the two canned sentences of the
  default type, chosen by the random source. The handler sends it and appends it to the
  history that is stored, of which the last 20 entries are kept; nothing else in the
  session changes.
\<close>

theorem advice_without_profile:
  assumes "personality_type (data s) = None" and "profile_details (data s) = None"
    and "used = get_or (used_advices (data s)) []"
    and "advice = advice_by_type_intellectual ! (g 0 mod 2)"
  shows "get_advice_callback s g =
      Inr (s\<lparr>data := (data s)\<lparr>used_advices := Some (keep_last_20 (used @ [advice]))\<rparr>\<rparr>,
           [Typing, Log_warning, Advice_message advice, What_next, Back_to_menu,
            Callback_answer])
    \<and> advice \<in> set advice_by_type_intellectual
    \<and> last (keep_last_20 (used @ [advice])) = advice
    \<and> (length used < 20 \<longrightarrow> keep_last_20 (used @ [advice]) = used @ [advice])"
proof -
  have "length advice_by_type_intellectual = 2"
    by (simp add: advice_by_type_intellectual_def)
  with assms(4) have "advice \<in> set advice_by_type_intellectual" by simp
  moreover from assms have "get_advice_callback s g =
      Inr (s\<lparr>data := (data s)\<lparr>used_advices := Some (keep_last_20 (used @ [advice]))\<rparr>\<rparr>,
           [Typing, Log_warning, Advice_message advice, What_next, Back_to_menu,
            Callback_answer])"
    by (simp add: get_advice_callback_def get_personalized_advice_def get_or_def
        standard_advice_default)
  ultimately show ?thesis
    by (simp add: keep_last_20_append)
qed

theorem advice_without_profile_witness:
  "personality_type (data (started_session\<lparr>data := started_data
       \<lparr>used_advices := Some [ascii ''Sleep more'']\<rparr>\<rparr>)) = None
   \<and> profile_details (data (started_session\<lparr>data := started_data
       \<lparr>used_advices := Some [ascii ''Sleep more'']\<rparr>\<rparr>)) = None
   \<and> get_advice_callback
       (started_session\<lparr>data := started_data\<lparr>used_advices := Some [ascii ''Sleep more'']\<rparr>\<rparr>)
       (\<lambda>n. 1) =
     Inr (started_session\<lparr>data := started_data
            \<lparr>used_advices := Some [ascii ''Sleep more'', advice_by_type_intellectual ! 1]\<rparr>\<rparr>,
          [Typing, Log_warning, Advice_message (advice_by_type_intellectual ! 1), What_next,
           Back_to_menu, Callback_answer])"
proof -
  have h: "personality_type (data (started_session\<lparr>data := started_data
       \<lparr>used_advices := Some [ascii ''Sleep more'']\<rparr>\<rparr>)) = None"
    "profile_details (data (started_session\<lparr>data := started_data
       \<lparr>used_advices := Some [ascii ''Sleep more'']\<rparr>\<rparr>)) = None"
    "[ascii ''Sleep more''] = get_or (used_advices (data (started_session\<lparr>data := started_data
       \<lparr>used_advices := Some [ascii ''Sleep more'']\<rparr>\<rparr>))) []"
    "advice_by_type_intellectual ! 1 = advice_by_type_intellectual ! ((\<lambda>n. 1) (0 :: nat) mod 2)"
    by (simp_all add: started_session_def started_data_def empty_data_def get_or_def)
  from advice_without_profile [OF h] h(1,2)
  show ?thesis by simp
qed


end
